theory Spec2Isabelle
  imports Complex_Main "HOL-Library.AList" "HOL-Library.Char_ord" "HOL-Library.List_Lexorder"
    "HOL-Library.Product_Lexorder"
begin

section \<open>Values, items and typed inputs\<close>

text \<open>
  The document client takes and returns plain JavaScript values. A number is modelled
  by a real (the finite doubles are a subset; NaN and the infinities are not values of
  this type), an absent or \<^verbatim>\<open>undefined\<close> property by \<open>None\<close>, a string by
  the list of its bytes in UTF-8, the encoding in which the store compares strings. An
  item is an object from attribute names to values.
\<close>

datatype js_value = JString string | JNumber real | JBool bool | JArray "js_value list"

type_synonym item = "string \<rightharpoonup> js_value"

text \<open>The types inferred from the validation schemas (skilift.schemas.ts).\<close>

record CreateStaticDataInput =
  cs_Lift :: string
  cs_ExperiencedRidersOnly :: bool
  cs_VerticalFeet :: real
  cs_LiftTime :: string

record CreateDynamicDataInput =
  cd_Lift :: string
  cd_Metadata :: string
  cd_TotalUniqueLiftRiders :: real
  cd_AverageSnowCoverageInches :: real
  cd_LiftStatus :: string
  cd_AvalancheDanger :: string

record CreateResortDataInput =
  cr_Metadata :: string
  cr_TotalUniqueLiftRiders :: real
  cr_AverageSnowCoverageInches :: real
  cr_AvalancheDanger :: string
  cr_OpenLifts :: "real list"

record UpdateStaticDataInput =
  us_ExperiencedRidersOnly :: "bool option"
  us_VerticalFeet :: "real option"
  us_LiftTime :: "string option"

record UpdateDynamicDataInput =
  ud_TotalUniqueLiftRiders :: "real option"
  ud_AverageSnowCoverageInches :: "real option"
  ud_LiftStatus :: "string option"
  ud_AvalancheDanger :: "string option"

record ListQueryInput =
  lq_limit :: real
  lastEvaluatedLift :: "string option"
  lastEvaluatedMetadata :: "string option"

record QueryByRidersInput =
  minRiders :: "real option"
  maxRiders :: "real option"
  qr_limit :: real

record PaginatedResponse =
  items :: "item list"
  lastEvaluatedKey :: "item option"
  count :: nat

section \<open>Errors (utils/error-handler.ts)\<close>

text \<open>
  An error thrown by the store client: an \<^verbatim>\<open>Error\<close> object with its name, message
  and stack trace.
\<close>

record sdk_error =
  err_name :: string
  err_message :: string
  err_stack :: string

text \<open>
  \<^verbatim>\<open>AppError\<close> and its subclasses. \<open>name\<close> is the constructor's name, so
  \<^verbatim>\<open>instanceof NotFoundError\<close> is \<open>name e = ''NotFoundError''\<close> (no class extends
  a subclass). \<open>stack\<close> is \<open>None\<close> for the trace captured at construction and
  \<open>Some s\<close> once the constructor of \<^verbatim>\<open>DynamoDBError\<close> has replaced it by the
  trace \<open>s\<close> of the original error.
\<close>

record AppError =
  name :: string
  message :: string
  statusCode :: nat
  code :: "string option"
  stack :: "string option"

definition NotFoundError :: "string \<Rightarrow> AppError" where
  "NotFoundError msg =
     \<lparr>name = ''NotFoundError'', message = msg, statusCode = 404,
      code = Some ''NOT_FOUND'', stack = None\<rparr>"

definition ValidationError :: "string \<Rightarrow> AppError" where
  "ValidationError msg =
     \<lparr>name = ''ValidationError'', message = msg, statusCode = 400,
      code = Some ''VALIDATION_ERROR'', stack = None\<rparr>"

text \<open>
  What a \<^verbatim>\<open>catch\<close> block can receive: an error of the store client or an
  application error thrown inside the \<^verbatim>\<open>try\<close> block.
\<close>

datatype thrown = SdkThrown sdk_error | AppThrown AppError

fun thrown_stack :: "thrown \<Rightarrow> string option" where
  "thrown_stack (SdkThrown e) = Some (err_stack e)"
| "thrown_stack (AppThrown e) = stack e"

text \<open>
  \<^verbatim>\<open>new DynamoDBError(message, originalError)\<close>: status 500, and the stack trace of
  the original error when one is given.
\<close>

definition DynamoDBError :: "string \<Rightarrow> thrown option \<Rightarrow> AppError" where
  "DynamoDBError msg originalError =
     \<lparr>name = ''DynamoDBError'', message = msg, statusCode = 500,
      code = Some ''DYNAMODB_ERROR'',
      stack = (case originalError of None \<Rightarrow> None | Some e \<Rightarrow> thrown_stack e)\<rparr>"

section \<open>Commands of the store client\<close>

text \<open>
  The input object of a command: a property that the caller does not set is \<open>None\<close>.
  \<open>send\<close> is the client's method: it takes a command and the state of the store and
  returns the command's output or the error it throws, with the new state. The service
  is written against any such client.
\<close>

record params =
  TableName :: string
  IndexName :: "string option"
  Item :: "item option"
  Key :: "item option"
  KeyConditionExpression :: "string option"
  UpdateExpression :: "string option"
  ExpressionAttributeNames :: "(string \<rightharpoonup> string) option"
  ExpressionAttributeValues :: "item option"
  Limit :: "real option"
  ScanIndexForward :: "bool option"
  ExclusiveStartKey :: "item option"
  ReturnValues :: "string option"

definition new_params :: "string \<Rightarrow> params" where
  "new_params t =
     \<lparr>TableName = t, IndexName = None, Item = None, Key = None,
      KeyConditionExpression = None, UpdateExpression = None,
      ExpressionAttributeNames = None, ExpressionAttributeValues = None,
      Limit = None, ScanIndexForward = None, ExclusiveStartKey = None,
      ReturnValues = None\<rparr>"

datatype command =
    PutCommand params
  | GetCommand params
  | QueryCommand params
  | UpdateCommand params
  | DeleteCommand params
  | ScanCommand params

record command_output =
  out_Item :: "item option"
  out_Items :: "item list option"
  out_LastEvaluatedKey :: "item option"
  out_Count :: "nat option"
  out_Attributes :: "item option"

definition no_output :: command_output where
  "no_output =
     \<lparr>out_Item = None, out_Items = None, out_LastEvaluatedKey = None,
      out_Count = None, out_Attributes = None\<rparr>"

type_synonym 'st client = "command \<Rightarrow> 'st \<Rightarrow> (sdk_error + command_output) \<times> 'st"

section \<open>The service (services/skilift.service.ts)\<close>

text \<open>
  \<open>TABLE_NAME\<close> is the value of the module constant when the environment variable
  \<^verbatim>\<open>DYNAMODB_TABLE_NAME\<close> is not set.
\<close>

definition TABLE_NAME :: string where
  "TABLE_NAME = ''SkiLifts''"

definition GSI_NAME :: string where
  "GSI_NAME = ''SkiLiftsByRiders''"

definition static_item :: "CreateStaticDataInput \<Rightarrow> item" where
  "static_item data =
     [''Lift'' \<mapsto> JString (cs_Lift data),
      ''Metadata'' \<mapsto> JString ''Static Data'',
      ''ExperiencedRidersOnly'' \<mapsto> JBool (cs_ExperiencedRidersOnly data),
      ''VerticalFeet'' \<mapsto> JNumber (cs_VerticalFeet data),
      ''LiftTime'' \<mapsto> JString (cs_LiftTime data)]"

definition createStaticData ::
  "'st client \<Rightarrow> CreateStaticDataInput \<Rightarrow> 'st \<Rightarrow> (AppError + item) \<times> 'st" where
  "createStaticData send data st =
     (let item = static_item data in
      case send (PutCommand ((new_params TABLE_NAME)\<lparr>Item := Some item\<rparr>)) st of
        (Inr _, st') \<Rightarrow> (Inr item, st')
      | (Inl error, st') \<Rightarrow>
          (Inl (DynamoDBError ''Failed to create static data'' (Some (SdkThrown error))), st'))"

definition dynamic_item :: "CreateDynamicDataInput \<Rightarrow> item" where
  "dynamic_item data =
     [''Lift'' \<mapsto> JString (cd_Lift data),
      ''Metadata'' \<mapsto> JString (cd_Metadata data),
      ''TotalUniqueLiftRiders'' \<mapsto> JNumber (cd_TotalUniqueLiftRiders data),
      ''AverageSnowCoverageInches'' \<mapsto> JNumber (cd_AverageSnowCoverageInches data),
      ''LiftStatus'' \<mapsto> JString (cd_LiftStatus data),
      ''AvalancheDanger'' \<mapsto> JString (cd_AvalancheDanger data)]"

definition createDynamicData ::
  "'st client \<Rightarrow> CreateDynamicDataInput \<Rightarrow> 'st \<Rightarrow> (AppError + item) \<times> 'st" where
  "createDynamicData send data st =
     (let item = dynamic_item data in
      case send (PutCommand ((new_params TABLE_NAME)\<lparr>Item := Some item\<rparr>)) st of
        (Inr _, st') \<Rightarrow> (Inr item, st')
      | (Inl error, st') \<Rightarrow>
          (Inl (DynamoDBError ''Failed to create dynamic data'' (Some (SdkThrown error))), st'))"

definition resort_item :: "CreateResortDataInput \<Rightarrow> item" where
  "resort_item data =
     [''Lift'' \<mapsto> JString ''Resort Data'',
      ''Metadata'' \<mapsto> JString (cr_Metadata data),
      ''TotalUniqueLiftRiders'' \<mapsto> JNumber (cr_TotalUniqueLiftRiders data),
      ''AverageSnowCoverageInches'' \<mapsto> JNumber (cr_AverageSnowCoverageInches data),
      ''AvalancheDanger'' \<mapsto> JString (cr_AvalancheDanger data),
      ''OpenLifts'' \<mapsto> JArray (map JNumber (cr_OpenLifts data))]"

definition createResortData ::
  "'st client \<Rightarrow> CreateResortDataInput \<Rightarrow> 'st \<Rightarrow> (AppError + item) \<times> 'st" where
  "createResortData send data st =
     (let item = resort_item data in
      case send (PutCommand ((new_params TABLE_NAME)\<lparr>Item := Some item\<rparr>)) st of
        (Inr _, st') \<Rightarrow> (Inr item, st')
      | (Inl error, st') \<Rightarrow>
          (Inl (DynamoDBError ''Failed to create resort data'' (Some (SdkThrown error))), st'))"

text \<open>
  \<open>getSkiLift\<close>: the \<^verbatim>\<open>try\<close> block either returns the item or throws (the client's
  error, or the not-found error when the output has no item); the \<^verbatim>\<open>catch\<close> block
  rethrows a \<^verbatim>\<open>NotFoundError\<close> and wraps anything else.
\<close>

definition key_item :: "string \<Rightarrow> string \<Rightarrow> item" where
  "key_item lift metadata = [''Lift'' \<mapsto> JString lift, ''Metadata'' \<mapsto> JString metadata]"

definition getSkiLift ::
  "'st client \<Rightarrow> string \<Rightarrow> string \<Rightarrow> 'st \<Rightarrow> (AppError + item) \<times> 'st" where
  "getSkiLift send lift metadata st =
     (case send (GetCommand ((new_params TABLE_NAME)\<lparr>Key := Some (key_item lift metadata)\<rparr>)) st of
        (r, st') \<Rightarrow>
          (let body =
             (case r of
                Inl e \<Rightarrow> Inl (SdkThrown e)
              | Inr result \<Rightarrow>
                  (case out_Item result of
                     None \<Rightarrow> Inl (AppThrown (NotFoundError
                       (''Ski lift data not found for '' @ lift @ '' - '' @ metadata)))
                   | Some it \<Rightarrow> Inr it))
           in case body of
                Inr it \<Rightarrow> (Inr it, st')
              | Inl (AppThrown e) \<Rightarrow>
                  if name e = ''NotFoundError'' then (Inl e, st')
                  else (Inl (DynamoDBError ''Failed to get ski lift data'' (Some (AppThrown e))), st')
              | Inl error \<Rightarrow>
                  (Inl (DynamoDBError ''Failed to get ski lift data'' (Some error)), st')))"

text \<open>The object every list and query operation builds from the client's output.\<close>

definition paginated :: "command_output \<Rightarrow> PaginatedResponse" where
  "paginated result =
     \<lparr>items = (case out_Items result of None \<Rightarrow> [] | Some xs \<Rightarrow> xs),
      lastEvaluatedKey = out_LastEvaluatedKey result,
      count = (case out_Count result of None \<Rightarrow> 0 | Some c \<Rightarrow> c)\<rparr>"

text \<open>\<open>queryLiftData\<close>: the parameter \<open>limit\<close> defaults to 20 when it is not given.\<close>

definition queryLiftData ::
  "'st client \<Rightarrow> string \<Rightarrow> real option \<Rightarrow> 'st \<Rightarrow> (AppError + PaginatedResponse) \<times> 'st" where
  "queryLiftData send lift limit st =
     (case send (QueryCommand ((new_params TABLE_NAME)
             \<lparr>KeyConditionExpression := Some ''Lift = :lift'',
              ExpressionAttributeValues := Some ['':lift'' \<mapsto> JString lift],
              Limit := Some (case limit of None \<Rightarrow> 20 | Some l \<Rightarrow> l)\<rparr>)) st of
        (Inr result, st') \<Rightarrow> (Inr (paginated result), st')
      | (Inl error, st') \<Rightarrow>
          (Inl (DynamoDBError ''Failed to query lift data'' (Some (SdkThrown error))), st'))"

text \<open>\<^verbatim>\<open>Array.prototype.join\<close> on strings.\<close>

fun join :: "string \<Rightarrow> string list \<Rightarrow> string" where
  "join sep [] = []"
| "join sep [x] = x"
| "join sep (x # y # ys) = x @ sep @ join sep (y # ys)"

text \<open>
  The first half of \<open>updateStaticData\<close>: the three arrays and objects the function
  fills, one \<^verbatim>\<open>if (... !== undefined)\<close> after the other, returned as
  (updateExpressions, expressionAttributeValues, expressionAttributeNames).
\<close>

definition updateStaticData_fields ::
  "UpdateStaticDataInput \<Rightarrow> string list \<times> item \<times> (string \<rightharpoonup> string)" where
  "updateStaticData_fields data =
     (let (e0, v0, n0) = ([], Map.empty, Map.empty);
          (e1, v1, n1) =
            (case us_ExperiencedRidersOnly data of
               Some x \<Rightarrow>
                 (e0 @ [''#experiencedRidersOnly = :experiencedRidersOnly''],
                  v0('':experiencedRidersOnly'' \<mapsto> JBool x),
                  n0(''#experiencedRidersOnly'' \<mapsto> ''ExperiencedRidersOnly''))
             | None \<Rightarrow> (e0, v0, n0));
          (e2, v2, n2) =
            (case us_VerticalFeet data of
               Some x \<Rightarrow>
                 (e1 @ [''#verticalFeet = :verticalFeet''],
                  v1('':verticalFeet'' \<mapsto> JNumber x),
                  n1(''#verticalFeet'' \<mapsto> ''VerticalFeet''))
             | None \<Rightarrow> (e1, v1, n1));
          (e3, v3, n3) =
            (case us_LiftTime data of
               Some x \<Rightarrow>
                 (e2 @ [''#liftTime = :liftTime''],
                  v2('':liftTime'' \<mapsto> JString x),
                  n2(''#liftTime'' \<mapsto> ''LiftTime''))
             | None \<Rightarrow> (e2, v2, n2))
      in (e3, v3, n3))"

text \<open>The object \<open>updateStaticData\<close> hands to \<^verbatim>\<open>UpdateCommand\<close>.\<close>

definition updateStaticData_params ::
  "string \<Rightarrow> string list \<Rightarrow> item \<Rightarrow> (string \<rightharpoonup> string) \<Rightarrow> params" where
  "updateStaticData_params lift updateExpressions expressionAttributeValues expressionAttributeNames =
     (new_params TABLE_NAME)
       \<lparr>Key := Some (key_item lift ''Static Data''),
        UpdateExpression := Some (''SET '' @ join '', '' updateExpressions),
        ExpressionAttributeNames := Some expressionAttributeNames,
        ExpressionAttributeValues := Some expressionAttributeValues,
        ReturnValues := Some ''ALL_NEW''\<rparr>"

definition updateStaticData ::
  "'st client \<Rightarrow> string \<Rightarrow> UpdateStaticDataInput \<Rightarrow> 'st \<Rightarrow> (AppError + item option) \<times> 'st" where
  "updateStaticData send lift data st =
     (case updateStaticData_fields data of
        (updateExpressions, expressionAttributeValues, expressionAttributeNames) \<Rightarrow>
          if length updateExpressions = 0
          then (Inl (DynamoDBError ''No fields to update'' None), st)
          else
            (case send (UpdateCommand (updateStaticData_params lift
                    updateExpressions expressionAttributeValues expressionAttributeNames)) st of
               (Inr result, st') \<Rightarrow> (Inr (out_Attributes result), st')
             | (Inl error, st') \<Rightarrow>
                 (Inl (DynamoDBError ''Failed to update static data'' (Some (SdkThrown error))), st')))"

definition updateDynamicData_fields ::
  "UpdateDynamicDataInput \<Rightarrow> string list \<times> item \<times> (string \<rightharpoonup> string)" where
  "updateDynamicData_fields data =
     (let (e0, v0, n0) = ([], Map.empty, Map.empty);
          (e1, v1, n1) =
            (case ud_TotalUniqueLiftRiders data of
               Some x \<Rightarrow>
                 (e0 @ [''#totalUniqueLiftRiders = :totalUniqueLiftRiders''],
                  v0('':totalUniqueLiftRiders'' \<mapsto> JNumber x),
                  n0(''#totalUniqueLiftRiders'' \<mapsto> ''TotalUniqueLiftRiders''))
             | None \<Rightarrow> (e0, v0, n0));
          (e2, v2, n2) =
            (case ud_AverageSnowCoverageInches data of
               Some x \<Rightarrow>
                 (e1 @ [''#averageSnowCoverageInches = :averageSnowCoverageInches''],
                  v1('':averageSnowCoverageInches'' \<mapsto> JNumber x),
                  n1(''#averageSnowCoverageInches'' \<mapsto> ''AverageSnowCoverageInches''))
             | None \<Rightarrow> (e1, v1, n1));
          (e3, v3, n3) =
            (case ud_LiftStatus data of
               Some x \<Rightarrow>
                 (e2 @ [''#liftStatus = :liftStatus''],
                  v2('':liftStatus'' \<mapsto> JString x),
                  n2(''#liftStatus'' \<mapsto> ''LiftStatus''))
             | None \<Rightarrow> (e2, v2, n2));
          (e4, v4, n4) =
            (case ud_AvalancheDanger data of
               Some x \<Rightarrow>
                 (e3 @ [''#avalancheDanger = :avalancheDanger''],
                  v3('':avalancheDanger'' \<mapsto> JString x),
                  n3(''#avalancheDanger'' \<mapsto> ''AvalancheDanger''))
             | None \<Rightarrow> (e3, v3, n3))
      in (e4, v4, n4))"

text \<open>The object \<open>updateDynamicData\<close> hands to \<^verbatim>\<open>UpdateCommand\<close>.\<close>

definition updateDynamicData_params ::
  "string \<Rightarrow> string \<Rightarrow> string list \<Rightarrow> item \<Rightarrow> (string \<rightharpoonup> string) \<Rightarrow> params" where
  "updateDynamicData_params lift metadata updateExpressions expressionAttributeValues
       expressionAttributeNames =
     (new_params TABLE_NAME)
       \<lparr>Key := Some (key_item lift metadata),
        UpdateExpression := Some (''SET '' @ join '', '' updateExpressions),
        ExpressionAttributeNames := Some expressionAttributeNames,
        ExpressionAttributeValues := Some expressionAttributeValues,
        ReturnValues := Some ''ALL_NEW''\<rparr>"

definition updateDynamicData ::
  "'st client \<Rightarrow> string \<Rightarrow> string \<Rightarrow> UpdateDynamicDataInput \<Rightarrow> 'st
     \<Rightarrow> (AppError + item option) \<times> 'st" where
  "updateDynamicData send lift metadata data st =
     (case updateDynamicData_fields data of
        (updateExpressions, expressionAttributeValues, expressionAttributeNames) \<Rightarrow>
          if length updateExpressions = 0
          then (Inl (DynamoDBError ''No fields to update'' None), st)
          else
            (case send (UpdateCommand (updateDynamicData_params lift metadata
                    updateExpressions expressionAttributeValues expressionAttributeNames)) st of
               (Inr result, st') \<Rightarrow> (Inr (out_Attributes result), st')
             | (Inl error, st') \<Rightarrow>
                 (Inl (DynamoDBError ''Failed to update dynamic data'' (Some (SdkThrown error))), st')))"

definition deleteSkiLift ::
  "'st client \<Rightarrow> string \<Rightarrow> string \<Rightarrow> 'st \<Rightarrow> (AppError + unit) \<times> 'st" where
  "deleteSkiLift send lift metadata st =
     (case send (DeleteCommand ((new_params TABLE_NAME)\<lparr>Key := Some (key_item lift metadata)\<rparr>)) st of
        (Inr _, st') \<Rightarrow> (Inr (), st')
      | (Inl error, st') \<Rightarrow>
          (Inl (DynamoDBError ''Failed to delete ski lift data'' (Some (SdkThrown error))), st'))"

text \<open>
  \<open>listSkiLifts\<close>: \<open>truthy\<close> is JavaScript's test of an optional string in a
  condition (neither \<^verbatim>\<open>undefined\<close> nor the empty string). \<open>listSkiLifts_params\<close>
  is the object handed to \<^verbatim>\<open>ScanCommand\<close>.
\<close>

definition truthy :: "string option \<Rightarrow> bool" where
  "truthy s = (case s of None \<Rightarrow> False | Some x \<Rightarrow> x \<noteq> [])"

definition listSkiLifts_params :: "ListQueryInput \<Rightarrow> params" where
  "listSkiLifts_params query =
     (let params = (new_params TABLE_NAME)\<lparr>Limit := Some (lq_limit query)\<rparr> in
      if truthy (lastEvaluatedLift query) \<and> truthy (lastEvaluatedMetadata query)
      then params\<lparr>ExclusiveStartKey :=
             Some (key_item (the (lastEvaluatedLift query)) (the (lastEvaluatedMetadata query)))\<rparr>
      else params)"

definition listSkiLifts ::
  "'st client \<Rightarrow> ListQueryInput \<Rightarrow> 'st \<Rightarrow> (AppError + PaginatedResponse) \<times> 'st" where
  "listSkiLifts send query st =
     (case send (ScanCommand (listSkiLifts_params query)) st of
        (Inr result, st') \<Rightarrow> (Inr (paginated result), st')
      | (Inl error, st') \<Rightarrow>
          (Inl (DynamoDBError ''Failed to list ski lifts'' (Some (SdkThrown error))), st'))"

text \<open>
  \<open>queryByRiders\<close>: \<open>queryByRiders_condition\<close> is the key condition and the
  attribute values the function has built when it sends the query.
\<close>

definition queryByRiders_condition :: "string \<Rightarrow> QueryByRidersInput \<Rightarrow> string \<times> item" where
  "queryByRiders_condition lift query =
     (let keyConditionExpression = ''Lift = :lift'';
          expressionAttributeValues = ['':lift'' \<mapsto> JString lift]
      in case (minRiders query, maxRiders query) of
           (Some lo, Some hi) \<Rightarrow>
             (keyConditionExpression @ '' AND TotalUniqueLiftRiders BETWEEN :minRiders AND :maxRiders'',
              expressionAttributeValues('':minRiders'' \<mapsto> JNumber lo, '':maxRiders'' \<mapsto> JNumber hi))
         | (Some lo, None) \<Rightarrow>
             (keyConditionExpression @ '' AND TotalUniqueLiftRiders >= :minRiders'',
              expressionAttributeValues('':minRiders'' \<mapsto> JNumber lo))
         | (None, Some hi) \<Rightarrow>
             (keyConditionExpression @ '' AND TotalUniqueLiftRiders <= :maxRiders'',
              expressionAttributeValues('':maxRiders'' \<mapsto> JNumber hi))
         | (None, None) \<Rightarrow> (keyConditionExpression, expressionAttributeValues))"

definition queryByRiders ::
  "'st client \<Rightarrow> string \<Rightarrow> QueryByRidersInput \<Rightarrow> 'st \<Rightarrow> (AppError + PaginatedResponse) \<times> 'st" where
  "queryByRiders send lift query st =
     (case queryByRiders_condition lift query of
        (keyConditionExpression, expressionAttributeValues) \<Rightarrow>
          (case send (QueryCommand ((new_params TABLE_NAME)
                  \<lparr>IndexName := Some GSI_NAME,
                   KeyConditionExpression := Some keyConditionExpression,
                   ExpressionAttributeValues := Some expressionAttributeValues,
                   Limit := Some (qr_limit query),
                   ScanIndexForward := Some False\<rparr>)) st of
             (Inr result, st') \<Rightarrow> (Inr (paginated result), st')
           | (Inl error, st') \<Rightarrow>
               (Inl (DynamoDBError ''Failed to query by riders'' (Some (SdkThrown error))), st')))"


section \<open>Validation schemas (schemas/skilift.schemas.ts)\<close>

text \<open>
  The create schemas, as predicates on an input that has the properties and the
  JavaScript types the schema asks for. \<^verbatim>\<open>\d\<close> is an ASCII digit;
  \<open>matches_LiftTime\<close> is \<^verbatim>\<open>/^\d{1,2}:\d{2}$/\<close> and \<open>matches_date\<close> is
  \<^verbatim>\<open>/^\d{2}\/\d{2}\/\d{2}$/\<close>.
\<close>

definition digit :: "char \<Rightarrow> bool" where
  "digit c = (c \<in> set ''0123456789'')"

fun matches_LiftTime :: "string \<Rightarrow> bool" where
  "matches_LiftTime [a, c, m1, m2] = (digit a \<and> c = CHR '':'' \<and> digit m1 \<and> digit m2)"
| "matches_LiftTime [a, b, c, m1, m2] =
     (digit a \<and> digit b \<and> c = CHR '':'' \<and> digit m1 \<and> digit m2)"
| "matches_LiftTime _ = False"

fun matches_date :: "string \<Rightarrow> bool" where
  "matches_date [a, b, s1, c, d, s2, e, f] =
     (digit a \<and> digit b \<and> s1 = CHR ''/'' \<and> digit c \<and> digit d \<and> s2 = CHR ''/'' \<and>
      digit e \<and> digit f)"
| "matches_date _ = False"

definition LiftStatusEnum :: "string list" where
  "LiftStatusEnum = [''Open'', ''Closed'', ''Pending'']"

definition AvalancheDangerEnum :: "string list" where
  "AvalancheDangerEnum = [''Low'', ''Moderate'', ''Considerable'', ''High'', ''Extreme'']"

definition createStaticDataSchema :: "CreateStaticDataInput \<Rightarrow> bool" where
  "createStaticDataSchema d =
     (1 \<le> length (cs_Lift d) \<and> 0 < cs_VerticalFeet d \<and> matches_LiftTime (cs_LiftTime d))"

definition createDynamicDataSchema :: "CreateDynamicDataInput \<Rightarrow> bool" where
  "createDynamicDataSchema d =
     (1 \<le> length (cd_Lift d) \<and> matches_date (cd_Metadata d) \<and>
      0 \<le> cd_TotalUniqueLiftRiders d \<and> 0 \<le> cd_AverageSnowCoverageInches d \<and>
      cd_LiftStatus d \<in> set LiftStatusEnum \<and> cd_AvalancheDanger d \<in> set AvalancheDangerEnum)"

definition createResortDataSchema :: "CreateResortDataInput \<Rightarrow> bool" where
  "createResortDataSchema d =
     (matches_date (cr_Metadata d) \<and>
      0 \<le> cr_TotalUniqueLiftRiders d \<and> 0 \<le> cr_AverageSnowCoverageInches d \<and>
      cr_AvalancheDanger d \<in> set AvalancheDangerEnum \<and> 0 \<le> length (cr_OpenLifts d))"

text \<open>
  The query string of a list request. \<open>rq_limit\<close> is \<open>None\<close> when the parameter is
  absent and otherwise the value of \<^verbatim>\<open>Number(...)\<close> on it, the coercion that
  \<^verbatim>\<open>z.coerce.number()\<close> applies, which can be any JavaScript number.
\<close>

datatype js_number = NaN | PosInfinity | NegInfinity | Finite real

record ListQueryRaw =
  rq_limit :: "js_number option"
  rq_lastEvaluatedLift :: "string option"
  rq_lastEvaluatedMetadata :: "string option"

text \<open>
  \<^verbatim>\<open>z.coerce.number().positive().max(100).optional().default(20)\<close>, the schema of
  \<open>limit\<close> in \<open>listQuerySchema\<close> and in \<open>queryByRidersSchema\<close>: the default replaces
  an absent value, a NaN is not a number, \<open>positive\<close> asks for a value above 0 and
  \<open>max\<close> for one of at most 100. The result is \<open>None\<close> when the validation fails.
\<close>

definition limitSchema :: "js_number option \<Rightarrow> real option" where
  "limitSchema raw =
     (case raw of
        None \<Rightarrow> Some 20
      | Some NaN \<Rightarrow> None
      | Some NegInfinity \<Rightarrow> None
      | Some PosInfinity \<Rightarrow> None
      | Some (Finite x) \<Rightarrow> if 0 < x \<and> x \<le> 100 then Some x else None)"

definition listQuerySchema :: "ListQueryRaw \<Rightarrow> ListQueryInput option" where
  "listQuerySchema raw =
     (case limitSchema (rq_limit raw) of
        None \<Rightarrow> None
      | Some l \<Rightarrow>
          Some \<lparr>lq_limit = l, lastEvaluatedLift = rq_lastEvaluatedLift raw,
                lastEvaluatedMetadata = rq_lastEvaluatedMetadata raw\<rparr>)"

section \<open>Error responses and the list route (routes/skilift.routes.ts)\<close>

text \<open>
  What a route handler can catch: an application error, the error of a failed
  \<^verbatim>\<open>parse\<close>, or any other error with its message.
\<close>

datatype route_error = AppErr AppError | ZodError | OtherError string

record error_body =
  eb_message :: string
  eb_code :: "string option"
  eb_statusCode :: nat

fun formatErrorResponse :: "route_error \<Rightarrow> error_body" where
  "formatErrorResponse (AppErr e) =
     \<lparr>eb_message = message e, eb_code = code e, eb_statusCode = statusCode e\<rparr>"
| "formatErrorResponse ZodError =
     \<lparr>eb_message = ''Validation failed'', eb_code = Some ''VALIDATION_ERROR'', eb_statusCode = 400\<rparr>"
| "formatErrorResponse (OtherError m) =
     \<lparr>eb_message = (if m = [] then ''Internal server error'' else m),
      eb_code = Some ''INTERNAL_ERROR'', eb_statusCode = 500\<rparr>"

definition reply_status :: "route_error \<Rightarrow> nat" where
  "reply_status error =
     (case error of
        AppErr e \<Rightarrow> statusCode e
      | _ \<Rightarrow> eb_statusCode (formatErrorResponse error))"

datatype reply_body = ListBody PaginatedResponse | ErrorBody error_body

text \<open>The handler of \<^verbatim>\<open>GET /api/skilifts\<close>: the status code and the body it replies.\<close>

definition route_listSkiLifts ::
  "'st client \<Rightarrow> ListQueryRaw \<Rightarrow> 'st \<Rightarrow> (nat \<times> reply_body) \<times> 'st" where
  "route_listSkiLifts send raw st =
     (case listQuerySchema raw of
        None \<Rightarrow> ((reply_status ZodError, ErrorBody (formatErrorResponse ZodError)), st)
      | Some query \<Rightarrow>
          (case listSkiLifts send query st of
             (Inr result, st') \<Rightarrow> ((200, ListBody result), st')
           | (Inl e, st') \<Rightarrow>
               ((reply_status (AppErr e), ErrorBody (formatErrorResponse (AppErr e))), st')))"

section \<open>A reference model of the store\<close>

text \<open>
  The store is an external collaborator of the service. What follows is a reference
  model of the one table the service uses, with the key schema and the secondary index
  that the repository's table-creation script declares: partition key \<open>Lift\<close> and sort key
  \<open>Metadata\<close>, both strings; the index \<open>SkiLiftsByRiders\<close> with partition key
  \<open>Lift\<close> and numeric sort key \<open>TotalUniqueLiftRiders\<close>, projecting \<open>Metadata\<close>.
  The model covers the commands and the expression forms the service sends
  (space-separated tokens, \<open>SET path = :value\<close> clauses, a key condition on the partition
  key with an optional comparison or \<open>BETWEEN\<close> on the sort key); anything else is
  answered by \<open>Unsupported\<close>. Strings are ordered by their bytes, as the store orders
  them. A query whose limit is reached returns the key of its last item as cursor.
  Failures of transport (throttling, network) are not part of this model: the theorems
  about them hold for every client.
\<close>

type_synonym table = "((string \<times> string) \<times> item) list"

definition ValidationException :: "string \<Rightarrow> sdk_error" where
  "ValidationException msg =
     \<lparr>err_name = ''ValidationException'', err_message = msg,
      err_stack = ''ValidationException: '' @ msg\<rparr>"

definition ResourceNotFoundException :: "string \<Rightarrow> sdk_error" where
  "ResourceNotFoundException msg =
     \<lparr>err_name = ''ResourceNotFoundException'', err_message = msg,
      err_stack = ''ResourceNotFoundException: '' @ msg\<rparr>"

definition Unsupported :: "string \<Rightarrow> sdk_error" where
  "Unsupported msg =
     \<lparr>err_name = ''Unsupported'', err_message = msg, err_stack = ''Unsupported: '' @ msg\<rparr>"

text \<open>The primary key of an item or of a \<open>Key\<close> object: two non-empty strings.\<close>

definition primary_key :: "item \<Rightarrow> (string \<times> string) option" where
  "primary_key it =
     (case (it ''Lift'', it ''Metadata'') of
        (Some (JString l), Some (JString m)) \<Rightarrow> if l \<noteq> [] \<and> m \<noteq> [] then Some (l, m) else None
      | _ \<Rightarrow> None)"

text \<open>An attribute that is a key of the index must have the type of that key.\<close>

definition index_key_ok :: "item \<Rightarrow> bool" where
  "index_key_ok it =
     (case it ''TotalUniqueLiftRiders'' of
        None \<Rightarrow> True | Some (JNumber _) \<Rightarrow> True | Some _ \<Rightarrow> False)"

text \<open>\<open>Limit\<close> must be an integer, at least 1.\<close>

definition valid_limit :: "real \<Rightarrow> bool" where
  "valid_limit l = (1 \<le> l \<and> of_int \<lfloor>l\<rfloor> = l)"

subsection \<open>Expressions\<close>

fun lex_acc :: "string \<Rightarrow> string \<Rightarrow> string list" where
  "lex_acc acc [] = (if acc = [] then [] else [rev acc])"
| "lex_acc acc (c # cs) =
     (if c = CHR '' '' then (if acc = [] then [] else [rev acc]) @ lex_acc [] cs
      else if c = CHR '','' then (if acc = [] then [] else [rev acc]) @ [[c]] @ lex_acc [] cs
      else lex_acc (c # acc) cs)"

definition lex :: "string \<Rightarrow> string list" where
  "lex s = lex_acc [] s"

fun parse_assignments :: "string list \<Rightarrow> (string \<times> string) list option" where
  "parse_assignments [p, e, v] = (if e = ''='' then Some [(p, v)] else None)"
| "parse_assignments (p # e # v # c # rest) =
     (if e = ''='' \<and> c = '','' then map_option ((#) (p, v)) (parse_assignments rest) else None)"
| "parse_assignments _ = None"

definition parse_update :: "string \<Rightarrow> (string \<times> string) list option" where
  "parse_update s =
     (case lex s of
        kw # rest \<Rightarrow> if kw = ''SET'' then parse_assignments rest else None
      | [] \<Rightarrow> None)"

text \<open>
  A path is a name or a placeholder \<open>#n\<close> resolved in \<open>ExpressionAttributeNames\<close>;
  a value is a placeholder \<open>:v\<close> resolved in \<open>ExpressionAttributeValues\<close>.
\<close>

definition resolve_name :: "(string \<rightharpoonup> string) option \<Rightarrow> string \<Rightarrow> string option" where
  "resolve_name names p =
     (case p of
        [] \<Rightarrow> None
      | c # _ \<Rightarrow>
          if c = CHR ''#'' then (case names of None \<Rightarrow> None | Some ns \<Rightarrow> ns p)
          else Some p)"

definition resolve_value :: "item option \<Rightarrow> string \<Rightarrow> js_value option" where
  "resolve_value vals v =
     (case v of
        [] \<Rightarrow> None
      | c # _ \<Rightarrow>
          if c = CHR '':'' then (case vals of None \<Rightarrow> None | Some vs \<Rightarrow> vs v)
          else None)"

fun resolve_assignments ::
  "(string \<rightharpoonup> string) option \<Rightarrow> item option \<Rightarrow> (string \<times> string) list
     \<Rightarrow> (string \<times> js_value) list option" where
  "resolve_assignments names vals [] = Some []"
| "resolve_assignments names vals ((p, v) # rest) =
     (case (resolve_name names p, resolve_value vals v, resolve_assignments names vals rest) of
        (Some a, Some x, Some others) \<Rightarrow> Some ((a, x) # others)
      | _ \<Rightarrow> None)"

fun apply_assignments :: "(string \<times> js_value) list \<Rightarrow> item \<Rightarrow> item" where
  "apply_assignments [] it = it"
| "apply_assignments ((a, x) # rest) it = apply_assignments rest (it(a \<mapsto> x))"

datatype cond = CondNone | CondCmp string string string | CondBetween string string string

fun parse_key_condition :: "string list \<Rightarrow> (string \<times> string \<times> cond) option" where
  "parse_key_condition [a, e, v] = (if e = ''='' then Some (a, v, CondNone) else None)"
| "parse_key_condition [a, e, v, c, b, opr, w] =
     (if e = ''='' \<and> c = ''AND'' then Some (a, v, CondCmp b opr w) else None)"
| "parse_key_condition [a, e, v, c, b, opr, lo, c2, hi] =
     (if e = ''='' \<and> c = ''AND'' \<and> opr = ''BETWEEN'' \<and> c2 = ''AND''
      then Some (a, v, CondBetween b lo hi) else None)"
| "parse_key_condition _ = None"

text \<open>Comparison of two key values of the same type; values of different types do not compare.\<close>

fun js_le :: "js_value \<Rightarrow> js_value \<Rightarrow> bool" where
  "js_le (JString a) (JString b) = (a \<le> b)"
| "js_le (JNumber a) (JNumber b) = (a \<le> b)"
| "js_le _ _ = False"

datatype rcond = RAny | RCmp string js_value | RBetween js_value js_value

definition comparators :: "string list" where
  "comparators = [''='', ''<'', ''<='', ''>'', ''>='']"

fun rcond_holds :: "rcond \<Rightarrow> js_value \<Rightarrow> bool" where
  "rcond_holds RAny x = True"
| "rcond_holds (RCmp opr v) x =
     (if opr = ''='' then x = v
      else if opr = ''<'' then js_le x v \<and> x \<noteq> v
      else if opr = ''<='' then js_le x v
      else if opr = ''>'' then js_le v x \<and> x \<noteq> v
      else if opr = ''>='' then js_le v x
      else False)"
| "rcond_holds (RBetween lo hi) x = (js_le lo x \<and> js_le x hi)"

text \<open>
  \<open>resolve_cond numeric range_key vals c\<close>: the condition on the sort key
  \<open>range_key\<close>, whose values are numbers when \<open>numeric\<close> and strings otherwise.
  The store rejects a \<open>BETWEEN\<close> whose lower bound is above its upper bound.
\<close>

fun key_type_ok :: "bool \<Rightarrow> js_value \<Rightarrow> bool" where
  "key_type_ok numeric (JNumber _) = numeric"
| "key_type_ok numeric (JString _) = (\<not> numeric)"
| "key_type_ok numeric _ = False"

fun resolve_cond :: "bool \<Rightarrow> string \<Rightarrow> item option \<Rightarrow> cond \<Rightarrow> rcond option" where
  "resolve_cond numeric range_key vals CondNone = Some RAny"
| "resolve_cond numeric range_key vals (CondCmp b opr w) =
     (case resolve_value vals w of
        Some x \<Rightarrow>
          if b = range_key \<and> opr \<in> set comparators \<and> key_type_ok numeric x
          then Some (RCmp opr x) else None
      | None \<Rightarrow> None)"
| "resolve_cond numeric range_key vals (CondBetween b lo hi) =
     (case (resolve_value vals lo, resolve_value vals hi) of
        (Some x, Some y) \<Rightarrow>
          if b = range_key \<and> key_type_ok numeric x \<and> key_type_ok numeric y \<and> js_le x y
          then Some (RBetween x y) else None
      | _ \<Rightarrow> None)"


subsection \<open>Commands\<close>

definition ddb_put :: "params \<Rightarrow> table \<Rightarrow> (sdk_error + command_output) \<times> table" where
  "ddb_put p tbl =
     (case Item p of
        None \<Rightarrow> (Inl (ValidationException ''Item is required''), tbl)
      | Some it \<Rightarrow>
          (case primary_key it of
             None \<Rightarrow> (Inl (ValidationException ''Missing or empty key attribute''), tbl)
           | Some k \<Rightarrow>
               if index_key_ok it then (Inr no_output, AList.update k it tbl)
               else (Inl (ValidationException ''Type mismatch for index key''), tbl)))"

definition ddb_get :: "params \<Rightarrow> table \<Rightarrow> (sdk_error + command_output) \<times> table" where
  "ddb_get p tbl =
     (case Key p of
        None \<Rightarrow> (Inl (ValidationException ''Key is required''), tbl)
      | Some key \<Rightarrow>
          (case primary_key key of
             None \<Rightarrow> (Inl (ValidationException ''Missing or empty key attribute''), tbl)
           | Some k \<Rightarrow> (Inr (no_output\<lparr>out_Item := map_of tbl k\<rparr>), tbl)))"

definition ddb_delete :: "params \<Rightarrow> table \<Rightarrow> (sdk_error + command_output) \<times> table" where
  "ddb_delete p tbl =
     (case Key p of
        None \<Rightarrow> (Inl (ValidationException ''Key is required''), tbl)
      | Some key \<Rightarrow>
          (case primary_key key of
             None \<Rightarrow> (Inl (ValidationException ''Missing or empty key attribute''), tbl)
           | Some k \<Rightarrow> (Inr no_output, AList.delete k tbl)))"

text \<open>
  \<open>UpdateItem\<close>: the item at the key, or a new item made of the key when there is
  none, with the assignments of the \<open>SET\<close> clauses applied. A key attribute cannot be
  assigned and no attribute can be assigned twice.
\<close>

definition update_assignments :: "params \<Rightarrow> (string \<times> js_value) list option" where
  "update_assignments p =
     (case UpdateExpression p of
        None \<Rightarrow> Some []
      | Some e \<Rightarrow>
          (case parse_update e of
             None \<Rightarrow> None
           | Some ps \<Rightarrow>
               resolve_assignments (ExpressionAttributeNames p) (ExpressionAttributeValues p) ps))"

definition returned_attributes ::
  "string option \<Rightarrow> string list \<Rightarrow> item option \<Rightarrow> item \<Rightarrow> item option option" where
  "returned_attributes rv assigned old new =
     (case rv of
        None \<Rightarrow> Some None
      | Some r \<Rightarrow>
          if r = ''NONE'' then Some None
          else if r = ''ALL_NEW'' then Some (Some new)
          else if r = ''ALL_OLD'' then Some old
          else if r = ''UPDATED_NEW'' then Some (Some (new |` set assigned))
          else if r = ''UPDATED_OLD'' then Some (map_option (\<lambda>it. it |` set assigned) old)
          else None)"

definition ddb_update :: "params \<Rightarrow> table \<Rightarrow> (sdk_error + command_output) \<times> table" where
  "ddb_update p tbl =
     (case Key p of
        None \<Rightarrow> (Inl (ValidationException ''Key is required''), tbl)
      | Some key \<Rightarrow>
          (case primary_key key of
             None \<Rightarrow> (Inl (ValidationException ''Missing or empty key attribute''), tbl)
           | Some k \<Rightarrow>
               (case update_assignments p of
                  None \<Rightarrow> (Inl (ValidationException ''Invalid UpdateExpression''), tbl)
                | Some asg \<Rightarrow>
                    if ''Lift'' \<in> set (map fst asg) \<or> ''Metadata'' \<in> set (map fst asg)
                    then (Inl (ValidationException ''Cannot update a key attribute''), tbl)
                    else if \<not> distinct (map fst asg)
                    then (Inl (ValidationException ''Two document paths overlap''), tbl)
                    else
                      (let old = map_of tbl k;
                           new = apply_assignments asg
                                   (case old of None \<Rightarrow> key_item (fst k) (snd k) | Some it \<Rightarrow> it)
                       in if \<not> index_key_ok new
                          then (Inl (ValidationException ''Type mismatch for index key''), tbl)
                          else
                            (case returned_attributes (ReturnValues p) (map fst asg) old new of
                               None \<Rightarrow> (Inl (ValidationException ''Invalid ReturnValues''), tbl)
                             | Some attrs \<Rightarrow>
                                 (Inr (no_output\<lparr>out_Attributes := attrs\<rparr>),
                                  AList.update k new tbl))))))"

text \<open>
  The rows of one partition, in ascending order of the sort key: of the table (by
  \<open>Metadata\<close>), and of the index (by \<open>TotalUniqueLiftRiders\<close>; only the items that
  have this attribute are in the index, projected on the keys and \<open>Metadata\<close>).
\<close>

definition table_rows :: "string \<Rightarrow> table \<Rightarrow> item list" where
  "table_rows l tbl = map snd (sort_key (\<lambda>(k, it). snd k) (filter (\<lambda>(k, it). fst k = l) tbl))"

definition riders :: "item \<Rightarrow> real option" where
  "riders it = (case it ''TotalUniqueLiftRiders'' of Some (JNumber r) \<Rightarrow> Some r | _ \<Rightarrow> None)"

definition index_entry :: "string \<Rightarrow> (string \<times> string) \<times> item \<Rightarrow> (real \<times> item) option" where
  "index_entry l e =
     (case riders (snd e) of
        Some r \<Rightarrow>
          if fst (fst e) = l
          then Some (r, snd e |` {''Lift'', ''Metadata'', ''TotalUniqueLiftRiders''})
          else None
      | None \<Rightarrow> None)"

definition index_rows :: "string \<Rightarrow> table \<Rightarrow> item list" where
  "index_rows l tbl = map snd (sort_key fst (List.map_filter (index_entry l) tbl))"

definition page_of :: "real option \<Rightarrow> item list \<Rightarrow> item list" where
  "page_of limit rows = (case limit of None \<Rightarrow> rows | Some l \<Rightarrow> take (nat \<lfloor>l\<rfloor>) rows)"

definition cursor_of :: "string set \<Rightarrow> real option \<Rightarrow> item list \<Rightarrow> item option" where
  "cursor_of keys limit rows =
     (case limit of
        None \<Rightarrow> None
      | Some l \<Rightarrow>
          (case rev (take (nat \<lfloor>l\<rfloor>) rows) of
             [] \<Rightarrow> None
           | x # _ \<Rightarrow> if nat \<lfloor>l\<rfloor> \<le> length rows then Some (x |` keys) else None))"

definition ddb_query :: "params \<Rightarrow> table \<Rightarrow> (sdk_error + command_output) \<times> table" where
  "ddb_query p tbl =
     (let numeric = (IndexName p \<noteq> None);
          range_key = (if numeric then ''TotalUniqueLiftRiders'' else ''Metadata'')
      in
      if numeric \<and> IndexName p \<noteq> Some GSI_NAME
      then (Inl (ValidationException ''The table does not have the specified index''), tbl)
      else if ExclusiveStartKey p \<noteq> None
      then (Inl (Unsupported ''Query with ExclusiveStartKey''), tbl)
      else if (case Limit p of None \<Rightarrow> False | Some l \<Rightarrow> \<not> valid_limit l)
      then (Inl (ValidationException ''Limit must be an integer, at least 1''), tbl)
      else
        (case KeyConditionExpression p of
           None \<Rightarrow> (Inl (ValidationException ''KeyConditionExpression is required''), tbl)
         | Some e \<Rightarrow>
             (case parse_key_condition (lex e) of
                None \<Rightarrow> (Inl (Unsupported ''KeyConditionExpression''), tbl)
              | Some (a, v, c) \<Rightarrow>
                  (case (resolve_value (ExpressionAttributeValues p) v,
                         resolve_cond numeric range_key (ExpressionAttributeValues p) c) of
                     (Some (JString l), Some rc) \<Rightarrow>
                       if a \<noteq> ''Lift''
                       then (Inl (ValidationException ''Query condition missed key schema element''), tbl)
                       else if l = []
                       then (Inl (ValidationException ''Empty string value for a key attribute''), tbl)
                       else
                         (let rows = (if numeric then index_rows l tbl else table_rows l tbl);
                              matching =
                                filter (\<lambda>it. case it range_key of
                                                 None \<Rightarrow> False | Some x \<Rightarrow> rcond_holds rc x) rows;
                              ordered =
                                (if ScanIndexForward p = Some False then rev matching else matching);
                              page = page_of (Limit p) ordered
                          in (Inr (no_output
                                \<lparr>out_Items := Some page,
                                 out_LastEvaluatedKey :=
                                   cursor_of (insert range_key {''Lift'', ''Metadata''})
                                     (Limit p) ordered,
                                 out_Count := Some (length page)\<rparr>), tbl))
                   | _ \<Rightarrow> (Inl (ValidationException ''Invalid KeyConditionExpression''), tbl)))))"

text \<open>
  \<open>Scan\<close>: the store scans in an order of its own, which its clients do not
  control; the model scans in the order of the keys. A cursor resumes after its key.
\<close>

definition ddb_scan :: "params \<Rightarrow> table \<Rightarrow> (sdk_error + command_output) \<times> table" where
  "ddb_scan p tbl =
     (if (case Limit p of None \<Rightarrow> False | Some l \<Rightarrow> \<not> valid_limit l)
      then (Inl (ValidationException ''Limit must be an integer, at least 1''), tbl)
      else
        (case (case ExclusiveStartKey p of
                 None \<Rightarrow> Some None
               | Some key \<Rightarrow> map_option Some (primary_key key)) of
           None \<Rightarrow> (Inl (ValidationException ''The provided starting key is invalid''), tbl)
         | Some start \<Rightarrow>
             (let rows = map snd (filter (\<lambda>(k, it). case start of None \<Rightarrow> True | Some k0 \<Rightarrow> k0 < k)
                                     (sort_key fst tbl));
                  page = page_of (Limit p) rows
              in (Inr (no_output
                    \<lparr>out_Items := Some page,
                     out_LastEvaluatedKey := cursor_of {''Lift'', ''Metadata''} (Limit p) rows,
                     out_Count := Some (length page)\<rparr>), tbl))))"

fun command_params :: "command \<Rightarrow> params" where
  "command_params (PutCommand p) = p"
| "command_params (GetCommand p) = p"
| "command_params (QueryCommand p) = p"
| "command_params (UpdateCommand p) = p"
| "command_params (DeleteCommand p) = p"
| "command_params (ScanCommand p) = p"

fun ddb_dispatch :: "command \<Rightarrow> table \<Rightarrow> (sdk_error + command_output) \<times> table" where
  "ddb_dispatch (PutCommand p) tbl = ddb_put p tbl"
| "ddb_dispatch (GetCommand p) tbl = ddb_get p tbl"
| "ddb_dispatch (QueryCommand p) tbl = ddb_query p tbl"
| "ddb_dispatch (UpdateCommand p) tbl = ddb_update p tbl"
| "ddb_dispatch (DeleteCommand p) tbl = ddb_delete p tbl"
| "ddb_dispatch (ScanCommand p) tbl = ddb_scan p tbl"

definition ddb_send :: "table client" where
  "ddb_send cmd tbl =
     (if TableName (command_params cmd) \<noteq> TABLE_NAME
      then (Inl (ResourceNotFoundException ''Requested resource not found''), tbl)
      else ddb_dispatch cmd tbl)"

text \<open>
  The tables the store can hold: one item per key, each item carrying its key, and the
  key of the index a number wherever it is present.
\<close>

definition wf_table :: "table \<Rightarrow> bool" where
  "wf_table tbl =
     (distinct (map fst tbl) \<and>
      list_all (\<lambda>(k, it). primary_key it = Some k \<and> index_key_ok it) tbl)"

section \<open>Notions used in the statements\<close>

text \<open>
  The fields an update input provides, as the attributes and values they stand for:
  the notion the properties of the two update operations are stated with.
\<close>

definition provided_static_fields :: "UpdateStaticDataInput \<Rightarrow> (string \<times> js_value) list" where
  "provided_static_fields data =
     (case us_ExperiencedRidersOnly data of
        None \<Rightarrow> [] | Some x \<Rightarrow> [(''ExperiencedRidersOnly'', JBool x)]) @
     (case us_VerticalFeet data of None \<Rightarrow> [] | Some x \<Rightarrow> [(''VerticalFeet'', JNumber x)]) @
     (case us_LiftTime data of None \<Rightarrow> [] | Some x \<Rightarrow> [(''LiftTime'', JString x)])"

definition provided_dynamic_fields :: "UpdateDynamicDataInput \<Rightarrow> (string \<times> js_value) list" where
  "provided_dynamic_fields data =
     (case ud_TotalUniqueLiftRiders data of
        None \<Rightarrow> [] | Some x \<Rightarrow> [(''TotalUniqueLiftRiders'', JNumber x)]) @
     (case ud_AverageSnowCoverageInches data of
        None \<Rightarrow> [] | Some x \<Rightarrow> [(''AverageSnowCoverageInches'', JNumber x)]) @
     (case ud_LiftStatus data of None \<Rightarrow> [] | Some x \<Rightarrow> [(''LiftStatus'', JString x)]) @
     (case ud_AvalancheDanger data of None \<Rightarrow> [] | Some x \<Rightarrow> [(''AvalancheDanger'', JString x)])"

text \<open>The value of an attribute of the item stored at a key, if there is one.\<close>

definition stored_attribute :: "table \<Rightarrow> string \<times> string \<Rightarrow> string \<Rightarrow> js_value option" where
  "stored_attribute tbl k a = (case map_of tbl k of None \<Rightarrow> None | Some it \<Rightarrow> it a)"

text \<open>
  The rider count of an item of the index, and the range a rider query asks for: each
  bound applies when it is given. \<open>bounds_ordered\<close>: the lower bound is not above the
  upper bound when both are given.
\<close>

definition rider_count :: "item \<Rightarrow> real" where
  "rider_count it = (case riders it of None \<Rightarrow> 0 | Some x \<Rightarrow> x)"

definition riders_in_range :: "real option \<Rightarrow> real option \<Rightarrow> item \<Rightarrow> bool" where
  "riders_in_range lo hi it =
     (case riders it of
        None \<Rightarrow> False
      | Some x \<Rightarrow>
          (case lo of None \<Rightarrow> True | Some a \<Rightarrow> a \<le> x) \<and>
          (case hi of None \<Rightarrow> True | Some b \<Rightarrow> x \<le> b))"

definition bounds_ordered :: "QueryByRidersInput \<Rightarrow> bool" where
  "bounds_ordered q =
     (case (minRiders q, maxRiders q) of (Some a, Some b) \<Rightarrow> a \<le> b | _ \<Rightarrow> True)"

definition rider_counts :: "AppError + PaginatedResponse \<Rightarrow> real list" where
  "rider_counts r = (case r of Inl _ \<Rightarrow> [] | Inr p \<Rightarrow> map rider_count (items p))"

text \<open>The sort key of an item, and the sort keys of the items of a result.\<close>

definition metadata_of :: "item \<Rightarrow> string" where
  "metadata_of it = (case it ''Metadata'' of Some (JString m) \<Rightarrow> m | _ \<Rightarrow> [])"

definition metadata_keys :: "AppError + PaginatedResponse \<Rightarrow> string list" where
  "metadata_keys r = (case r of Inl _ \<Rightarrow> [] | Inr p \<Rightarrow> map metadata_of (items p))"

subsection \<open>Example data\<close>

text \<open>
  A small table to evaluate the operations on: one lift with its static record and
  three daily records, two of them with the same number of riders, and a second lift
  with the records of two days on either side of a new year.
\<close>

definition example_static :: item where
  "example_static =
     [''Lift'' \<mapsto> JString ''Lift 1'', ''Metadata'' \<mapsto> JString ''Static Data'',
      ''ExperiencedRidersOnly'' \<mapsto> JBool False, ''VerticalFeet'' \<mapsto> JNumber 2500,
      ''LiftTime'' \<mapsto> JString ''8:00'']"

definition example_dynamic :: "string \<Rightarrow> string \<Rightarrow> real \<Rightarrow> item" where
  "example_dynamic lift date n =
     [''Lift'' \<mapsto> JString lift, ''Metadata'' \<mapsto> JString date,
      ''TotalUniqueLiftRiders'' \<mapsto> JNumber n, ''AverageSnowCoverageInches'' \<mapsto> JNumber 12,
      ''LiftStatus'' \<mapsto> JString ''Open'', ''AvalancheDanger'' \<mapsto> JString ''Low'']"

definition example_table :: table where
  "example_table =
     [((''Lift 1'', ''Static Data''), example_static),
      ((''Lift 1'', ''01/01/20''), example_dynamic ''Lift 1'' ''01/01/20'' 1000),
      ((''Lift 1'', ''01/02/20''), example_dynamic ''Lift 1'' ''01/02/20'' 1000),
      ((''Lift 1'', ''01/03/20''), example_dynamic ''Lift 1'' ''01/03/20'' 500),
      ((''Lift 2'', ''12/31/19''), example_dynamic ''Lift 2'' ''12/31/19'' 2500),
      ((''Lift 2'', ''01/01/20''), example_dynamic ''Lift 2'' ''01/01/20'' 3000)]"

text \<open>
  A client that rejects every command with the error \<open>e\<close>, as the mocked client of the
  service tests does, and two errors that differ in name and message and have the same
  stack trace.
\<close>

definition rejecting_client :: "sdk_error \<Rightarrow> 'st client" where
  "rejecting_client e cmd st = (Inl e, st)"

definition example_cause :: sdk_error where
  "example_cause =
     \<lparr>err_name = ''InternalServerError'', err_message = ''Database error'',
      err_stack = ''Error: Database error''\<rparr>"

definition example_other_cause :: sdk_error where
  "example_other_cause =
     \<lparr>err_name = ''ProvisionedThroughputExceededException'', err_message = ''Throttled'',
      err_stack = ''Error: Database error''\<rparr>"

text \<open>
  A client that answers every command with an empty output and keeps the list of the
  commands it was sent, and a table with an experts-only lift and one day of 500 riders.
\<close>

definition recording_client :: "command list client" where
  "recording_client cmd sent = (Inr no_output, sent @ [cmd])"

definition example_update_table :: table where
  "example_update_table =
     [((''Lift 1'', ''Static Data''), example_static(''ExperiencedRidersOnly'' \<mapsto> JBool True)),
      ((''Lift 1'', ''01/03/20''), example_dynamic ''Lift 1'' ''01/03/20'' 500)]"

definition example_create_static :: CreateStaticDataInput where
  "example_create_static =
     \<lparr>cs_Lift = ''Lift 1'', cs_ExperiencedRidersOnly = True, cs_VerticalFeet = 3000,
      cs_LiftTime = ''12:30''\<rparr>"

definition example_create_dynamic :: CreateDynamicDataInput where
  "example_create_dynamic =
     \<lparr>cd_Lift = ''Lift 1'', cd_Metadata = ''01/01/20'', cd_TotalUniqueLiftRiders = 0,
      cd_AverageSnowCoverageInches = 37, cd_LiftStatus = ''Closed'',
      cd_AvalancheDanger = ''High''\<rparr>"

definition example_create_resort :: CreateResortDataInput where
  "example_create_resort =
     \<lparr>cr_Metadata = ''01/01/20'', cr_TotalUniqueLiftRiders = 7000,
      cr_AverageSnowCoverageInches = 40, cr_AvalancheDanger = ''Low'', cr_OpenLifts = [1, 2]\<rparr>"

section \<open>Properties of the reference store\<close>

subsection \<open>Keys and well-formed tables\<close>

lemma primary_key_nonempty:
  "primary_key it = Some (l, m) \<Longrightarrow>
   l \<noteq> [] \<and> m \<noteq> [] \<and> it ''Lift'' = Some (JString l) \<and> it ''Metadata'' = Some (JString m)"
  by (auto simp add: primary_key_def split: option.splits js_value.splits if_splits)

lemma wf_table_lookup:
  "wf_table tbl \<Longrightarrow> map_of tbl k = Some it \<Longrightarrow> primary_key it = Some k \<and> index_key_ok it"
  by (auto simp add: wf_table_def list_all_iff dest!: map_of_SomeD)

lemma wf_table_entry:
  "wf_table tbl \<Longrightarrow> (k, it) \<in> set tbl \<Longrightarrow>
   it ''Metadata'' = Some (JString (snd k)) \<and> metadata_of it = snd k"
  by (cases k)
     (auto simp add: wf_table_def list_all_iff metadata_of_def dest!: primary_key_nonempty)

lemma wf_example_table: "wf_table example_table"
  by (simp add: wf_table_def example_table_def example_static_def example_dynamic_def
      primary_key_def index_key_ok_def)

lemma matches_date_nonempty: "matches_date s \<Longrightarrow> s \<noteq> []"
  by auto

lemma index_key_ok_key_item: "index_key_ok (key_item lift metadata)"
  by (simp add: index_key_ok_def key_item_def)

lemma index_key_ok_map_add:
  "index_key_ok it \<Longrightarrow>
   (case m ''TotalUniqueLiftRiders'' of
      None \<Rightarrow> True | Some (JNumber _) \<Rightarrow> True | Some _ \<Rightarrow> False) \<Longrightarrow>
   index_key_ok (it ++ m)"
  by (auto simp add: index_key_ok_def map_add_def split: option.splits js_value.splits)

text \<open>
  Well-formedness is an invariant of the reference store: the empty table is well
  formed and every command leaves a well-formed table well formed.
\<close>

lemma wf_table_iff:
  "wf_table tbl \<longleftrightarrow>
     distinct (map fst tbl) \<and>
     (\<forall>k it. map_of tbl k = Some it \<longrightarrow> primary_key it = Some k \<and> index_key_ok it)"
  by (auto simp add: wf_table_def list_all_iff dest: map_of_SomeD)

lemma wf_table_update:
  "wf_table tbl \<Longrightarrow> primary_key it = Some k \<Longrightarrow> index_key_ok it \<Longrightarrow>
   wf_table (AList.update k it tbl)"
  by (auto simp add: wf_table_iff distinct_update update_conv' split: if_splits)

lemma wf_table_delete: "wf_table tbl \<Longrightarrow> wf_table (AList.delete k tbl)"
  by (auto simp add: wf_table_iff distinct_delete delete_conv' split: if_splits)

lemma apply_assignments_keeps:
  "a \<notin> set (map fst asg) \<Longrightarrow> apply_assignments asg it a = it a"
  by (induction asg arbitrary: it) auto

lemma primary_key_apply:
  "primary_key base = Some k \<Longrightarrow> ''Lift'' \<notin> set (map fst asg) \<Longrightarrow>
   ''Metadata'' \<notin> set (map fst asg) \<Longrightarrow> primary_key (apply_assignments asg base) = Some k"
  by (simp add: primary_key_def apply_assignments_keeps)

lemma primary_key_key_item:
  "primary_key key = Some (a, b) \<Longrightarrow> primary_key (key_item a b) = Some (a, b)"
  by (auto simp add: primary_key_def key_item_def split: option.splits js_value.splits if_splits)

lemma wf_table_ddb_send:
  assumes "wf_table tbl"
  shows "wf_table (snd (ddb_send cmd tbl))"
proof (cases cmd)
  case (PutCommand p)
  then show ?thesis
    using assms
    by (auto simp add: ddb_send_def ddb_put_def wf_table_update split: option.splits)
next
  case (UpdateCommand p)
  then show ?thesis
    using assms
    by (auto simp add: ddb_send_def ddb_update_def Let_def
        intro!: wf_table_update primary_key_apply
        dest: primary_key_key_item wf_table_lookup [OF assms]
        split: option.splits if_splits)
next
  case (DeleteCommand p)
  then show ?thesis
    using assms
    by (auto simp add: ddb_send_def ddb_delete_def wf_table_delete split: option.splits)
qed (use assms in \<open>auto simp add: ddb_send_def ddb_get_def ddb_query_def ddb_scan_def Let_def
      split: option.splits js_value.splits if_splits prod.splits\<close>)

lemma wf_table_empty: "wf_table []"
  by (simp add: wf_table_def)

subsection \<open>Get, put and update\<close>

lemma ddb_get_key:
  "lift \<noteq> [] \<Longrightarrow> metadata \<noteq> [] \<Longrightarrow>
   ddb_send (GetCommand ((new_params TABLE_NAME)\<lparr>Key := Some (key_item lift metadata)\<rparr>)) tbl
     = (Inr (no_output\<lparr>out_Item := map_of tbl (lift, metadata)\<rparr>), tbl)"
  by (simp add: ddb_send_def ddb_get_def new_params_def key_item_def primary_key_def)

lemma ddb_put_item:
  "primary_key it = Some k \<Longrightarrow> index_key_ok it \<Longrightarrow>
   ddb_send (PutCommand ((new_params TABLE_NAME)\<lparr>Item := Some it\<rparr>)) tbl
     = (Inr no_output, AList.update k it tbl)"
  by (simp add: ddb_send_def ddb_put_def new_params_def)

lemma apply_assignments_map_add:
  "distinct (map fst asg) \<Longrightarrow> apply_assignments asg it = it ++ map_of asg"
proof (induction asg arbitrary: it)
  case Nil
  then show ?case by simp
next
  case (Cons p asg)
  obtain a x where p: "p = (a, x)" by (cases p)
  from Cons.prems p have notin: "map_of asg a = None" and d: "distinct (map fst asg)"
    by (auto simp add: map_of_eq_None_iff)
  have "apply_assignments (p # asg) it = it(a \<mapsto> x) ++ map_of asg"
    unfolding p apply_assignments.simps by (rule Cons.IH [OF d])
  also have "\<dots> = it ++ map_of (p # asg)"
    using notin p by (auto simp add: map_add_def fun_eq_iff split: option.splits)
  finally show ?case .
qed

text \<open>
  The update command on the reference store, when its expression resolves to the
  assignments \<open>asg\<close>: the item at the key (or the key alone) overridden by \<open>asg\<close>
  is stored and returned.
\<close>

lemma ddb_update_all_new:
  assumes "lift \<noteq> []" and "metadata \<noteq> []"
    and "TableName p = TABLE_NAME" and "Key p = Some (key_item lift metadata)"
    and "ReturnValues p = Some ''ALL_NEW''"
    and "update_assignments p = Some asg"
    and "''Lift'' \<notin> set (map fst asg)" and "''Metadata'' \<notin> set (map fst asg)"
    and "distinct (map fst asg)"
    and "index_key_ok
           ((case map_of tbl (lift, metadata) of
               None \<Rightarrow> key_item lift metadata | Some it \<Rightarrow> it) ++ map_of asg)"
  shows "ddb_send (UpdateCommand p) tbl =
     (Inr (no_output\<lparr>out_Attributes := Some
             ((case map_of tbl (lift, metadata) of
                 None \<Rightarrow> key_item lift metadata | Some it \<Rightarrow> it) ++ map_of asg)\<rparr>),
      AList.update (lift, metadata)
        ((case map_of tbl (lift, metadata) of
            None \<Rightarrow> key_item lift metadata | Some it \<Rightarrow> it) ++ map_of asg) tbl)"
proof -
  have k: "primary_key (key_item lift metadata) = Some (lift, metadata)"
    using assms(1,2) by (simp add: primary_key_def key_item_def)
  show ?thesis
    using assms(3-10)
    by (cases "map_of tbl (lift, metadata)")
       (simp_all add: ddb_send_def ddb_update_def k apply_assignments_map_add
        returned_attributes_def Let_def)
qed

lemma ddb_update_frame:
  assumes "ddb_send (UpdateCommand p) tbl = (r, tbl')"
    and "Key p = Some (key_item lift metadata)"
    and "update_assignments p = Some asg"
    and "a \<notin> set (map fst asg)" and "a \<noteq> ''Lift''" and "a \<noteq> ''Metadata''"
  shows "stored_attribute tbl' (lift, metadata) a = stored_attribute tbl (lift, metadata) a"
proof (cases "tbl' = tbl")
  case True
  then show ?thesis by simp
next
  case False
  have k: "primary_key (key_item lift metadata) = Some k \<Longrightarrow> k = (lift, metadata)" for k
    by (auto simp add: primary_key_def key_item_def split: if_splits)
  from False assms(1-3) have d: "distinct (map fst asg)"
    and t: "tbl' = AList.update (lift, metadata)
        (apply_assignments asg (case map_of tbl (lift, metadata) of
           None \<Rightarrow> key_item lift metadata | Some it \<Rightarrow> it)) tbl"
    by (auto simp add: ddb_send_def ddb_update_def Let_def
        split: if_splits option.splits dest!: k)
  have "map_of asg a = None"
    using assms(4) by (simp add: map_of_eq_None_iff)
  then show ?thesis
    using assms(5,6)
    by (simp add: t stored_attribute_def update_conv apply_assignments_map_add [OF d]
        map_add_def key_item_def split: option.splits)
qed

subsection \<open>Scan and query\<close>

lemma scan_from_start:
  "valid_limit l \<Longrightarrow>
   ddb_send (ScanCommand ((new_params TABLE_NAME)\<lparr>Limit := Some l\<rparr>)) tbl =
     (Inr (no_output
        \<lparr>out_Items := Some (take (nat \<lfloor>l\<rfloor>) (map snd (sort_key fst tbl))),
         out_LastEvaluatedKey :=
           cursor_of {''Lift'', ''Metadata''} (Some l) (map snd (sort_key fst tbl)),
         out_Count := Some (length (take (nat \<lfloor>l\<rfloor>) (map snd (sort_key fst tbl))))\<rparr>), tbl)"
  by (simp add: ddb_send_def ddb_scan_def new_params_def page_of_def Let_def)

lemma index_entry_riders:
  "index_entry l e = Some (r, it) \<Longrightarrow> riders it = Some r"
  by (auto simp add: index_entry_def riders_def restrict_map_def
      split: option.splits js_value.splits if_splits)

lemma index_rows_entries:
  "index_rows l tbl = map snd (sort_key fst (List.map_filter (index_entry l) tbl))
   \<and> (\<forall>(r, it) \<in> set (sort_key fst (List.map_filter (index_entry l) tbl)). riders it = Some r)"
  by (auto simp add: index_rows_def map_filter_def dest!: index_entry_riders [OF sym]
      simp del: set_sort) (auto simp add: index_entry_riders)

lemma index_rows_riders:
  "it \<in> set (index_rows l tbl) \<Longrightarrow> \<exists>r. riders it = Some r"
  using index_rows_entries [of l tbl] by force

lemma index_rows_sorted: "sorted (map rider_count (index_rows l tbl))"
proof -
  let ?es = "sort_key fst (List.map_filter (index_entry l) tbl)"
  have "map rider_count (index_rows l tbl) = map fst ?es"
    using index_rows_entries [of l tbl] by (auto simp add: rider_count_def)
  then show ?thesis by simp
qed

lemma index_filter:
  assumes "\<And>x. rcond_holds rc (JNumber x) = P x"
  shows "filter (\<lambda>it. case it ''TotalUniqueLiftRiders'' of
                        None \<Rightarrow> False | Some x \<Rightarrow> rcond_holds rc x) (index_rows l tbl)
       = filter (\<lambda>it. case riders it of None \<Rightarrow> False | Some x \<Rightarrow> P x) (index_rows l tbl)"
proof (rule filter_cong [OF refl])
  fix it assume "it \<in> set (index_rows l tbl)"
  then obtain r where "riders it = Some r" by (auto dest: index_rows_riders)
  then show "(case it ''TotalUniqueLiftRiders'' of None \<Rightarrow> False | Some x \<Rightarrow> rcond_holds rc x)
      = (case riders it of None \<Rightarrow> False | Some x \<Rightarrow> P x)"
    using assms by (auto simp add: riders_def split: option.splits js_value.splits)
qed

lemma ddb_query_index:
  assumes "lift \<noteq> []" and "valid_limit l"
    and "parse_key_condition (lex e) = Some (''Lift'', '':lift'', c)"
    and "vals '':lift'' = Some (JString lift)"
    and "resolve_cond True ''TotalUniqueLiftRiders'' (Some vals) c = Some rc"
    and "\<And>x. rcond_holds rc (JNumber x) = P x"
    and "rows = rev (filter (\<lambda>it. case riders it of None \<Rightarrow> False | Some x \<Rightarrow> P x)
                   (index_rows lift tbl))"
  shows "ddb_send (QueryCommand ((new_params TABLE_NAME)
           \<lparr>IndexName := Some GSI_NAME, KeyConditionExpression := Some e,
            ExpressionAttributeValues := Some vals, Limit := Some l,
            ScanIndexForward := Some False\<rparr>)) tbl
     = (Inr (no_output
          \<lparr>out_Items := Some (take (nat \<lfloor>l\<rfloor>) rows),
           out_LastEvaluatedKey :=
             cursor_of {''TotalUniqueLiftRiders'', ''Lift'', ''Metadata''} (Some l) rows,
           out_Count := Some (length (take (nat \<lfloor>l\<rfloor>) rows))\<rparr>), tbl)"
  using assms(1-5)
  by (simp add: ddb_send_def ddb_query_def new_params_def resolve_value_def page_of_def
      index_filter [of rc P, OF assms(6)] assms(7) Let_def)

lemma descending_page:
  assumes "sorted (map f xs)"
  shows "sorted_wrt (\<lambda>x y. y \<le> x) (map f (take n (rev (filter P xs))))"
proof -
  have "sorted (map f (filter P xs))"
    using assms by (rule sorted_filter)
  then have "sorted_wrt (\<lambda>x y. y \<le> x) (rev (map f (filter P xs)))"
    by (simp add: sorted_wrt_rev)
  then have "sorted_wrt (\<lambda>x y. y \<le> x) (take n (rev (map f (filter P xs))))"
    by (rule sorted_wrt_take)
  then show ?thesis by (simp add: take_map rev_map)
qed

lemma table_rows_entries:
  assumes "wf_table tbl"
  shows "map metadata_of (table_rows l tbl)
       = map (\<lambda>(k, it). snd k) (sort_key (\<lambda>(k, it). snd k) (filter (\<lambda>(k, it). fst k = l) tbl))"
  unfolding table_rows_def map_map
  by (rule map_cong [OF refl]) (use assms in \<open>auto dest: wf_table_entry\<close>)

lemma table_rows_sorted:
  "wf_table tbl \<Longrightarrow> sorted (map metadata_of (table_rows l tbl))"
  by (simp add: table_rows_entries)

lemma table_rows_filter:
  assumes "wf_table tbl"
  shows "filter (\<lambda>it. case it ''Metadata'' of None \<Rightarrow> False | Some x \<Rightarrow> rcond_holds RAny x)
           (table_rows l tbl) = table_rows l tbl"
proof (rule filter_True, rule ballI)
  fix it assume "it \<in> set (table_rows l tbl)"
  then obtain k where "(k, it) \<in> set tbl"
    by (auto simp add: table_rows_def)
  then show "case it ''Metadata'' of None \<Rightarrow> False | Some x \<Rightarrow> rcond_holds RAny x"
    using wf_table_entry [OF assms] by fastforce
qed

lemma digit_before_S: "digit c \<Longrightarrow> c < CHR ''S''"
  by (auto simp add: digit_def)

lemma date_before_static: "matches_date date \<Longrightarrow> date < ''Static Data''"
  by (cases date) (auto dest: digit_before_S elim!: matches_date.elims)

lemma example_index_rows:
  "map rider_count (index_rows ''Lift 1'' example_table) = [500, 1000, 1000]"
  "map (riders_in_range lo hi) (index_rows ''Lift 1'' example_table)
     = [riders_in_range lo hi (example_dynamic ''Lift 1'' ''01/03/20'' 500),
        riders_in_range lo hi (example_dynamic ''Lift 1'' ''01/01/20'' 1000),
        riders_in_range lo hi (example_dynamic ''Lift 1'' ''01/02/20'' 1000)]"
  by (simp_all add: index_rows_def example_table_def example_static_def example_dynamic_def
      List.map_filter_simps index_entry_def riders_def rider_count_def riders_in_range_def
      sort_key_def)

lemma example_table_rows:
  "map metadata_of (table_rows ''Lift 1'' example_table)
     = [''01/01/20'', ''01/02/20'', ''01/03/20'', ''Static Data'']"
  "map metadata_of (table_rows ''Lift 2'' example_table) = [''01/01/20'', ''12/31/19'']"
  by (simp_all add: table_rows_def example_table_def example_static_def example_dynamic_def
      metadata_of_def sort_key_def)

section \<open>Properties of the service\<close>

subsection \<open>Creation\<close>

text \<open>
  C1. The three create operations on a valid input. On the reference store each returns
  the item it has built and stores it at the item's key whatever the table held there
  before; for every client, a create that does not fail returns that item. The item has
  the fields of the input, each with the value of the input, and the fields the service
  assigns: \<open>Metadata\<close> is "Static Data" in a static record and \<open>Lift\<close> is
  "Resort Data" in a resort record.
\<close>

theorem create_returns_input_with_assigned_fields:
  "(createStaticDataSchema s \<longrightarrow>
      createStaticData ddb_send s tbl =
        (Inr (static_item s), AList.update (cs_Lift s, ''Static Data'') (static_item s) tbl)
      \<and> map_of (snd (createStaticData ddb_send s tbl)) (cs_Lift s, ''Static Data'')
          = Some (static_item s))
   \<and> (isl (fst (createStaticData send s st)) \<or> fst (createStaticData send s st) = Inr (static_item s))
   \<and> dom (static_item s)
       = {''Lift'', ''Metadata'', ''ExperiencedRidersOnly'', ''VerticalFeet'', ''LiftTime''}
   \<and> static_item s ''Lift'' = Some (JString (cs_Lift s))
   \<and> static_item s ''Metadata'' = Some (JString ''Static Data'')
   \<and> static_item s ''ExperiencedRidersOnly'' = Some (JBool (cs_ExperiencedRidersOnly s))
   \<and> static_item s ''VerticalFeet'' = Some (JNumber (cs_VerticalFeet s))
   \<and> static_item s ''LiftTime'' = Some (JString (cs_LiftTime s))
   \<and> (createDynamicDataSchema d \<longrightarrow>
      createDynamicData ddb_send d tbl =
        (Inr (dynamic_item d), AList.update (cd_Lift d, cd_Metadata d) (dynamic_item d) tbl)
      \<and> map_of (snd (createDynamicData ddb_send d tbl)) (cd_Lift d, cd_Metadata d)
          = Some (dynamic_item d))
   \<and> (isl (fst (createDynamicData send d st))
        \<or> fst (createDynamicData send d st) = Inr (dynamic_item d))
   \<and> dom (dynamic_item d)
       = {''Lift'', ''Metadata'', ''TotalUniqueLiftRiders'', ''AverageSnowCoverageInches'',
          ''LiftStatus'', ''AvalancheDanger''}
   \<and> dynamic_item d ''Lift'' = Some (JString (cd_Lift d))
   \<and> dynamic_item d ''Metadata'' = Some (JString (cd_Metadata d))
   \<and> dynamic_item d ''TotalUniqueLiftRiders'' = Some (JNumber (cd_TotalUniqueLiftRiders d))
   \<and> dynamic_item d ''AverageSnowCoverageInches''
       = Some (JNumber (cd_AverageSnowCoverageInches d))
   \<and> dynamic_item d ''LiftStatus'' = Some (JString (cd_LiftStatus d))
   \<and> dynamic_item d ''AvalancheDanger'' = Some (JString (cd_AvalancheDanger d))
   \<and> (createResortDataSchema r \<longrightarrow>
      createResortData ddb_send r tbl =
        (Inr (resort_item r), AList.update (''Resort Data'', cr_Metadata r) (resort_item r) tbl)
      \<and> map_of (snd (createResortData ddb_send r tbl)) (''Resort Data'', cr_Metadata r)
          = Some (resort_item r))
   \<and> (isl (fst (createResortData send r st))
        \<or> fst (createResortData send r st) = Inr (resort_item r))
   \<and> dom (resort_item r)
       = {''Lift'', ''Metadata'', ''TotalUniqueLiftRiders'', ''AverageSnowCoverageInches'',
          ''AvalancheDanger'', ''OpenLifts''}
   \<and> resort_item r ''Lift'' = Some (JString ''Resort Data'')
   \<and> resort_item r ''Metadata'' = Some (JString (cr_Metadata r))
   \<and> resort_item r ''TotalUniqueLiftRiders'' = Some (JNumber (cr_TotalUniqueLiftRiders r))
   \<and> resort_item r ''AverageSnowCoverageInches''
       = Some (JNumber (cr_AverageSnowCoverageInches r))
   \<and> resort_item r ''AvalancheDanger'' = Some (JString (cr_AvalancheDanger r))
   \<and> resort_item r ''OpenLifts'' = Some (JArray (map JNumber (cr_OpenLifts r)))"
proof -
  have s1: "createStaticDataSchema s \<longrightarrow>
      createStaticData ddb_send s tbl =
        (Inr (static_item s), AList.update (cs_Lift s, ''Static Data'') (static_item s) tbl)
      \<and> map_of (snd (createStaticData ddb_send s tbl)) (cs_Lift s, ''Static Data'')
          = Some (static_item s)"
  proof
    assume v: "createStaticDataSchema s"
    have k: "primary_key (static_item s) = Some (cs_Lift s, ''Static Data'')"
      and ok: "index_key_ok (static_item s)"
      using v
      by (auto simp add: createStaticDataSchema_def primary_key_def index_key_ok_def
          static_item_def)
    show "createStaticData ddb_send s tbl =
        (Inr (static_item s), AList.update (cs_Lift s, ''Static Data'') (static_item s) tbl)
      \<and> map_of (snd (createStaticData ddb_send s tbl)) (cs_Lift s, ''Static Data'')
          = Some (static_item s)"
      by (simp add: createStaticData_def ddb_put_item [OF k ok] Let_def update_conv')
  qed
  have d1: "createDynamicDataSchema d \<longrightarrow>
      createDynamicData ddb_send d tbl =
        (Inr (dynamic_item d), AList.update (cd_Lift d, cd_Metadata d) (dynamic_item d) tbl)
      \<and> map_of (snd (createDynamicData ddb_send d tbl)) (cd_Lift d, cd_Metadata d)
          = Some (dynamic_item d)"
  proof
    assume v: "createDynamicDataSchema d"
    have k: "primary_key (dynamic_item d) = Some (cd_Lift d, cd_Metadata d)"
      and ok: "index_key_ok (dynamic_item d)"
      using v matches_date_nonempty [of "cd_Metadata d"]
      by (auto simp add: createDynamicDataSchema_def primary_key_def index_key_ok_def
          dynamic_item_def)
    show "createDynamicData ddb_send d tbl =
        (Inr (dynamic_item d), AList.update (cd_Lift d, cd_Metadata d) (dynamic_item d) tbl)
      \<and> map_of (snd (createDynamicData ddb_send d tbl)) (cd_Lift d, cd_Metadata d)
          = Some (dynamic_item d)"
      by (simp add: createDynamicData_def ddb_put_item [OF k ok] Let_def update_conv')
  qed
  have r1: "createResortDataSchema r \<longrightarrow>
      createResortData ddb_send r tbl =
        (Inr (resort_item r), AList.update (''Resort Data'', cr_Metadata r) (resort_item r) tbl)
      \<and> map_of (snd (createResortData ddb_send r tbl)) (''Resort Data'', cr_Metadata r)
          = Some (resort_item r)"
  proof
    assume v: "createResortDataSchema r"
    have k: "primary_key (resort_item r) = Some (''Resort Data'', cr_Metadata r)"
      and ok: "index_key_ok (resort_item r)"
      using v matches_date_nonempty [of "cr_Metadata r"]
      by (auto simp add: createResortDataSchema_def primary_key_def index_key_ok_def
          resort_item_def)
    show "createResortData ddb_send r tbl =
        (Inr (resort_item r), AList.update (''Resort Data'', cr_Metadata r) (resort_item r) tbl)
      \<and> map_of (snd (createResortData ddb_send r tbl)) (''Resort Data'', cr_Metadata r)
          = Some (resort_item r)"
      by (simp add: createResortData_def ddb_put_item [OF k ok] Let_def update_conv')
  qed
  have s3: "isl (fst (createStaticData send s st))
      \<or> fst (createStaticData send s st) = Inr (static_item s)"
    by (simp add: createStaticData_def Let_def split: prod.splits sum.splits)
  have d3: "isl (fst (createDynamicData send d st))
      \<or> fst (createDynamicData send d st) = Inr (dynamic_item d)"
    by (simp add: createDynamicData_def Let_def split: prod.splits sum.splits)
  have r3: "isl (fst (createResortData send r st))
      \<or> fst (createResortData send r st) = Inr (resort_item r)"
    by (simp add: createResortData_def Let_def split: prod.splits sum.splits)
  have s4: "dom (static_item s)
       = {''Lift'', ''Metadata'', ''ExperiencedRidersOnly'', ''VerticalFeet'', ''LiftTime''}"
    by (auto simp add: static_item_def)
  have d4: "dom (dynamic_item d)
       = {''Lift'', ''Metadata'', ''TotalUniqueLiftRiders'', ''AverageSnowCoverageInches'',
          ''LiftStatus'', ''AvalancheDanger''}"
    by (auto simp add: dynamic_item_def)
  have r4: "dom (resort_item r)
       = {''Lift'', ''Metadata'', ''TotalUniqueLiftRiders'', ''AverageSnowCoverageInches'',
          ''AvalancheDanger'', ''OpenLifts''}"
    by (auto simp add: resort_item_def)
  have s5: "static_item s ''Lift'' = Some (JString (cs_Lift s))"
    "static_item s ''Metadata'' = Some (JString ''Static Data'')"
    "static_item s ''ExperiencedRidersOnly'' = Some (JBool (cs_ExperiencedRidersOnly s))"
    "static_item s ''VerticalFeet'' = Some (JNumber (cs_VerticalFeet s))"
    "static_item s ''LiftTime'' = Some (JString (cs_LiftTime s))"
    by (simp_all add: static_item_def)
  have d5: "dynamic_item d ''Lift'' = Some (JString (cd_Lift d))"
    "dynamic_item d ''Metadata'' = Some (JString (cd_Metadata d))"
    "dynamic_item d ''TotalUniqueLiftRiders'' = Some (JNumber (cd_TotalUniqueLiftRiders d))"
    "dynamic_item d ''AverageSnowCoverageInches''
       = Some (JNumber (cd_AverageSnowCoverageInches d))"
    "dynamic_item d ''LiftStatus'' = Some (JString (cd_LiftStatus d))"
    "dynamic_item d ''AvalancheDanger'' = Some (JString (cd_AvalancheDanger d))"
    by (simp_all add: dynamic_item_def)
  have r5: "resort_item r ''Lift'' = Some (JString ''Resort Data'')"
    "resort_item r ''Metadata'' = Some (JString (cr_Metadata r))"
    "resort_item r ''TotalUniqueLiftRiders'' = Some (JNumber (cr_TotalUniqueLiftRiders r))"
    "resort_item r ''AverageSnowCoverageInches''
       = Some (JNumber (cr_AverageSnowCoverageInches r))"
    "resort_item r ''AvalancheDanger'' = Some (JString (cr_AvalancheDanger r))"
    "resort_item r ''OpenLifts'' = Some (JArray (map JNumber (cr_OpenLifts r)))"
    by (simp_all add: resort_item_def)
  show ?thesis
    by (intro conjI s1 s3 s4 s5 d1 d3 d4 d5 r1 r3 r4 r5)
qed

theorem create_returns_input_with_assigned_fields_witness:
  "createStaticDataSchema example_create_static
   \<and> createDynamicDataSchema example_create_dynamic
   \<and> createResortDataSchema example_create_resort
   \<and> createStaticData ddb_send example_create_static example_table
      = (Inr (static_item example_create_static),
         AList.update (cs_Lift example_create_static, ''Static Data'')
           (static_item example_create_static) example_table)
   \<and> static_item example_create_static ''Metadata'' = Some (JString ''Static Data'')
   \<and> static_item example_create_static ''VerticalFeet'' = Some (JNumber 3000)
   \<and> map_of example_table (''Lift 1'', ''Static Data'') = Some example_static
   \<and> map_of (snd (createStaticData ddb_send example_create_static example_table))
        (''Lift 1'', ''Static Data'')
      = Some (static_item example_create_static)
   \<and> fst (createDynamicData ddb_send example_create_dynamic example_table)
      = Inr (dynamic_item example_create_dynamic)
   \<and> dynamic_item example_create_dynamic ''TotalUniqueLiftRiders'' = Some (JNumber 0)
   \<and> fst (createResortData ddb_send example_create_resort example_table)
      = Inr (resort_item example_create_resort)
   \<and> resort_item example_create_resort ''Lift'' = Some (JString ''Resort Data'')
   \<and> resort_item example_create_resort ''OpenLifts'' = Some (JArray [JNumber 1, JNumber 2])"
proof -
  have h1: "createStaticDataSchema example_create_static"
    by (simp add: createStaticDataSchema_def example_create_static_def digit_def)
  have h2: "createDynamicDataSchema example_create_dynamic"
    by (simp add: createDynamicDataSchema_def example_create_dynamic_def digit_def
        LiftStatusEnum_def AvalancheDangerEnum_def)
  have h3: "createResortDataSchema example_create_resort"
    by (simp add: createResortDataSchema_def example_create_resort_def digit_def
        AvalancheDangerEnum_def)
  have e: "map_of example_table (''Lift 1'', ''Static Data'') = Some example_static"
    by (simp add: example_table_def)
  have v: "cs_Lift example_create_static = ''Lift 1''"
    "cs_VerticalFeet example_create_static = 3000"
    "cd_TotalUniqueLiftRiders example_create_dynamic = 0"
    "cr_OpenLifts example_create_resort = [1, 2]"
    by (simp_all add: example_create_static_def example_create_dynamic_def
        example_create_resort_def)
  show ?thesis
    using h1 h2 h3 e
      create_returns_input_with_assigned_fields [where tbl = example_table
        and send = ddb_send and st = "[]" and s = example_create_static
        and d = example_create_dynamic and r = example_create_resort]
    by (simp add: v update_conv')
qed

subsection \<open>Point lookup\<close>

lemma getSkiLift_cases:
  "getSkiLift send lift metadata st =
     (case send (GetCommand ((new_params TABLE_NAME)\<lparr>Key := Some (key_item lift metadata)\<rparr>)) st of
        (Inl e, st') \<Rightarrow>
          (Inl (DynamoDBError ''Failed to get ski lift data'' (Some (SdkThrown e))), st')
      | (Inr result, st') \<Rightarrow>
          (case out_Item result of
             None \<Rightarrow>
               (Inl (NotFoundError (''Ski lift data not found for '' @ lift @ '' - '' @ metadata)), st')
           | Some it \<Rightarrow> (Inr it, st')))"
  by (simp add: getSkiLift_def NotFoundError_def split: prod.splits sum.splits option.splits)

lemma getSkiLift_on_store:
  "lift \<noteq> [] \<Longrightarrow> metadata \<noteq> [] \<Longrightarrow>
   getSkiLift ddb_send lift metadata tbl =
     (case map_of tbl (lift, metadata) of
        None \<Rightarrow>
          (Inl (NotFoundError (''Ski lift data not found for '' @ lift @ '' - '' @ metadata)), tbl)
      | Some it \<Rightarrow> (Inr it, tbl))"
  by (simp add: getSkiLift_cases ddb_get_key no_output_def split: option.splits)

text \<open>
  C2. \<open>getSkiLift\<close>, for every client: when the client's output has no item, the
  result is the not-found failure (a \<open>NotFoundError\<close>, status 404, which the route
  replies as 404) and not a storage failure; when the output has an item, the result is
  that item; when the client throws, the result is a storage failure (a
  \<open>DynamoDBError\<close>, status 500). On the example table the lookup of an absent key is
  not-found and the lookup of a stored key is the stored item. The storage failure does
  not carry the original cause: of the client's error it keeps the text of the stack
  trace and nothing else, so that two different errors with one stack trace, thrown by
  the client on the same call, give the same failure.
\<close>

theorem getSkiLift_storage_failure_drops_cause:
  "getSkiLift send lift metadata st =
     (case send (GetCommand ((new_params TABLE_NAME)\<lparr>Key := Some (key_item lift metadata)\<rparr>)) st of
        (Inl e, st') \<Rightarrow>
          (Inl (DynamoDBError ''Failed to get ski lift data'' (Some (SdkThrown e))), st')
      | (Inr result, st') \<Rightarrow>
          (case out_Item result of
             None \<Rightarrow>
               (Inl (NotFoundError (''Ski lift data not found for '' @ lift @ '' - '' @ metadata)), st')
           | Some it \<Rightarrow> (Inr it, st')))
   \<and> name (NotFoundError m) = ''NotFoundError'' \<and> statusCode (NotFoundError m) = 404
   \<and> reply_status (AppErr (NotFoundError m)) = 404
   \<and> name (DynamoDBError m' (Some (SdkThrown e))) = ''DynamoDBError''
   \<and> statusCode (DynamoDBError m' (Some (SdkThrown e))) = 500
   \<and> reply_status (AppErr (DynamoDBError m' (Some (SdkThrown e)))) = 500
   \<and> getSkiLift ddb_send ''Lift 1'' ''01/05/20'' example_table =
       (Inl (NotFoundError ''Ski lift data not found for Lift 1 - 01/05/20''), example_table)
   \<and> getSkiLift ddb_send ''Lift 1'' ''Static Data'' example_table =
       (Inr example_static, example_table)
   \<and> getSkiLift (rejecting_client example_cause) ''Summit Express'' ''Static Data'' st =
       (Inl \<lparr>name = ''DynamoDBError'', message = ''Failed to get ski lift data'',
             statusCode = 500, code = Some ''DYNAMODB_ERROR'',
             stack = Some (err_stack example_cause)\<rparr>, st)
   \<and> example_cause \<noteq> example_other_cause
   \<and> getSkiLift (rejecting_client example_cause) ''Summit Express'' ''Static Data'' st =
       getSkiLift (rejecting_client example_other_cause) ''Summit Express'' ''Static Data'' st"
proof -
  have m: "map_of example_table (''Lift 1'', ''01/05/20'') = None"
    "map_of example_table (''Lift 1'', ''Static Data'') = Some example_static"
    by (simp_all add: example_table_def)
  have a: "getSkiLift ddb_send ''Lift 1'' ''01/05/20'' example_table =
       (Inl (NotFoundError ''Ski lift data not found for Lift 1 - 01/05/20''), example_table)"
    "getSkiLift ddb_send ''Lift 1'' ''Static Data'' example_table =
       (Inr example_static, example_table)"
    by (simp_all add: getSkiLift_on_store m)
  have b: "getSkiLift (rejecting_client example_cause) ''Summit Express'' ''Static Data'' st =
       (Inl \<lparr>name = ''DynamoDBError'', message = ''Failed to get ski lift data'',
             statusCode = 500, code = Some ''DYNAMODB_ERROR'',
             stack = Some (err_stack example_cause)\<rparr>, st)"
    "getSkiLift (rejecting_client example_cause) ''Summit Express'' ''Static Data'' st =
       getSkiLift (rejecting_client example_other_cause) ''Summit Express'' ''Static Data'' st"
    by (simp_all add: getSkiLift_cases rejecting_client_def DynamoDBError_def
        example_cause_def example_other_cause_def)
  have c: "example_cause \<noteq> example_other_cause"
    by (simp add: example_cause_def example_other_cause_def)
  have d: "name (NotFoundError m) = ''NotFoundError''" "statusCode (NotFoundError m) = 404"
    "reply_status (AppErr (NotFoundError m)) = 404"
    "name (DynamoDBError m' (Some (SdkThrown e))) = ''DynamoDBError''"
    "statusCode (DynamoDBError m' (Some (SdkThrown e))) = 500"
    "reply_status (AppErr (DynamoDBError m' (Some (SdkThrown e)))) = 500"
    by (simp_all add: NotFoundError_def DynamoDBError_def reply_status_def)
  show ?thesis
    by (intro conjI getSkiLift_cases a b c d)
qed

subsection \<open>Partial updates\<close>

lemma static_fields_empty:
  "(fst (updateStaticData_fields data) = []) = (provided_static_fields data = [])"
  by (simp add: updateStaticData_fields_def provided_static_fields_def split: option.splits)

lemma dynamic_fields_empty:
  "(fst (updateDynamicData_fields data) = []) = (provided_dynamic_fields data = [])"
  by (simp add: updateDynamicData_fields_def provided_dynamic_fields_def split: option.splits)

lemma static_update_assignments:
  assumes "updateStaticData_fields data = (e, v, n)" and "e \<noteq> []"
  shows "update_assignments (updateStaticData_params lift e v n) =
           Some (provided_static_fields data)"
proof (cases "us_ExperiencedRidersOnly data"; cases "us_VerticalFeet data";
    cases "us_LiftTime data")
qed (use assms in \<open>auto simp add: updateStaticData_fields_def provided_static_fields_def
      updateStaticData_params_def new_params_def update_assignments_def parse_update_def
      lex_def resolve_name_def resolve_value_def\<close>)

lemma dynamic_update_assignments:
  assumes "updateDynamicData_fields data = (e, v, n)" and "e \<noteq> []"
  shows "update_assignments (updateDynamicData_params lift metadata e v n) =
           Some (provided_dynamic_fields data)"
proof (cases "ud_TotalUniqueLiftRiders data"; cases "ud_AverageSnowCoverageInches data";
    cases "ud_LiftStatus data"; cases "ud_AvalancheDanger data")
qed (use assms in \<open>auto simp add: updateDynamicData_fields_def provided_dynamic_fields_def
      updateDynamicData_params_def new_params_def update_assignments_def parse_update_def
      lex_def resolve_name_def resolve_value_def\<close>)

lemma static_fields_names:
  "distinct (map fst (provided_static_fields data))"
  "set (map fst (provided_static_fields data)) \<subseteq> {''ExperiencedRidersOnly'', ''VerticalFeet'', ''LiftTime''}"
  by (auto simp add: provided_static_fields_def split: option.splits)

lemma dynamic_fields_names:
  "distinct (map fst (provided_dynamic_fields data))"
  "set (map fst (provided_dynamic_fields data)) \<subseteq>
     {''TotalUniqueLiftRiders'', ''AverageSnowCoverageInches'', ''LiftStatus'', ''AvalancheDanger''}"
  by (auto simp add: provided_dynamic_fields_def split: option.splits)

lemma static_fields_lookup:
  "map_of (provided_static_fields data) a =
     (if a = ''ExperiencedRidersOnly'' then map_option JBool (us_ExperiencedRidersOnly data)
      else if a = ''VerticalFeet'' then map_option JNumber (us_VerticalFeet data)
      else if a = ''LiftTime'' then map_option JString (us_LiftTime data)
      else None)"
  by (simp add: provided_static_fields_def split: option.splits)

lemma dynamic_fields_lookup:
  "map_of (provided_dynamic_fields data) a =
     (if a = ''TotalUniqueLiftRiders'' then map_option JNumber (ud_TotalUniqueLiftRiders data)
      else if a = ''AverageSnowCoverageInches''
        then map_option JNumber (ud_AverageSnowCoverageInches data)
      else if a = ''LiftStatus'' then map_option JString (ud_LiftStatus data)
      else if a = ''AvalancheDanger'' then map_option JString (ud_AvalancheDanger data)
      else None)"
  by (simp add: provided_dynamic_fields_def split: option.splits)

lemma updateStaticData_on_store:
  assumes "lift \<noteq> []" and "provided_static_fields data \<noteq> []"
    and "index_key_ok base"
    and "base = (case map_of tbl (lift, ''Static Data'') of
                   None \<Rightarrow> key_item lift ''Static Data'' | Some it \<Rightarrow> it)"
  shows "updateStaticData ddb_send lift data tbl =
     (Inr (Some (base ++ map_of (provided_static_fields data))),
      AList.update (lift, ''Static Data'') (base ++ map_of (provided_static_fields data)) tbl)"
proof -
  obtain e v n where f: "updateStaticData_fields data = (e, v, n)"
    by (cases "updateStaticData_fields data")
  have ne: "e \<noteq> []" using static_fields_empty [of data] f assms(2) by simp
  have asg: "update_assignments (updateStaticData_params lift e v n) =
      Some (provided_static_fields data)"
    using f ne by (rule static_update_assignments)
  have ok: "index_key_ok (base ++ map_of (provided_static_fields data))"
    using assms(3) by (rule index_key_ok_map_add) (simp add: static_fields_lookup)
  have keys: "''Lift'' \<notin> set (map fst (provided_static_fields data))"
    "''Metadata'' \<notin> set (map fst (provided_static_fields data))"
    using static_fields_names(2) [of data] by auto
  have "ddb_send (UpdateCommand (updateStaticData_params lift e v n)) tbl =
     (Inr (no_output\<lparr>out_Attributes := Some (base ++ map_of (provided_static_fields data))\<rparr>),
      AList.update (lift, ''Static Data'') (base ++ map_of (provided_static_fields data)) tbl)"
    unfolding assms(4)
    by (rule ddb_update_all_new [OF assms(1) _ _ _ _ asg keys static_fields_names(1)])
       (use ok assms(4) in \<open>simp_all add: updateStaticData_params_def new_params_def\<close>)
  then show ?thesis
    using f ne by (simp add: updateStaticData_def no_output_def)
qed

lemma updateDynamicData_on_store:
  assumes "lift \<noteq> []" and "metadata \<noteq> []" and "provided_dynamic_fields data \<noteq> []"
    and "index_key_ok base"
    and "base = (case map_of tbl (lift, metadata) of
                   None \<Rightarrow> key_item lift metadata | Some it \<Rightarrow> it)"
  shows "updateDynamicData ddb_send lift metadata data tbl =
     (Inr (Some (base ++ map_of (provided_dynamic_fields data))),
      AList.update (lift, metadata) (base ++ map_of (provided_dynamic_fields data)) tbl)"
proof -
  obtain e v n where f: "updateDynamicData_fields data = (e, v, n)"
    by (cases "updateDynamicData_fields data")
  have ne: "e \<noteq> []" using dynamic_fields_empty [of data] f assms(3) by simp
  have asg: "update_assignments (updateDynamicData_params lift metadata e v n) =
      Some (provided_dynamic_fields data)"
    using f ne by (rule dynamic_update_assignments)
  have ok: "index_key_ok (base ++ map_of (provided_dynamic_fields data))"
    using assms(4)
    by (rule index_key_ok_map_add) (simp add: dynamic_fields_lookup split: option.splits)
  have keys: "''Lift'' \<notin> set (map fst (provided_dynamic_fields data))"
    "''Metadata'' \<notin> set (map fst (provided_dynamic_fields data))"
    using dynamic_fields_names(2) [of data] by auto
  have "ddb_send (UpdateCommand (updateDynamicData_params lift metadata e v n)) tbl =
     (Inr (no_output\<lparr>out_Attributes := Some (base ++ map_of (provided_dynamic_fields data))\<rparr>),
      AList.update (lift, metadata) (base ++ map_of (provided_dynamic_fields data)) tbl)"
    unfolding assms(5)
    by (rule ddb_update_all_new [OF assms(1,2) _ _ _ asg keys dynamic_fields_names(1)])
       (use ok assms(5) in \<open>simp_all add: updateDynamicData_params_def new_params_def\<close>)
  then show ?thesis
    using f ne by (simp add: updateDynamicData_def no_output_def)
qed

lemma updateStaticData_frame:
  assumes "map_of (provided_static_fields data) a = None"
    and "a \<noteq> ''Lift''" and "a \<noteq> ''Metadata''"
  shows "stored_attribute (snd (updateStaticData ddb_send lift data tbl)) (lift, ''Static Data'') a
       = stored_attribute tbl (lift, ''Static Data'') a"
proof -
  obtain e v n where f: "updateStaticData_fields data = (e, v, n)"
    by (cases "updateStaticData_fields data")
  show ?thesis
  proof (cases "e = []")
    case True
    then show ?thesis using f by (simp add: updateStaticData_def)
  next
    case False
    obtain r tbl' where s: "ddb_send (UpdateCommand (updateStaticData_params lift e v n)) tbl
        = (r, tbl')"
      by (cases "ddb_send (UpdateCommand (updateStaticData_params lift e v n)) tbl")
    have "stored_attribute tbl' (lift, ''Static Data'') a
        = stored_attribute tbl (lift, ''Static Data'') a"
      using s _ static_update_assignments [OF f False]
    proof (rule ddb_update_frame)
      show "Key (updateStaticData_params lift e v n) = Some (key_item lift ''Static Data'')"
        by (simp add: updateStaticData_params_def new_params_def)
      show "a \<notin> set (map fst (provided_static_fields data))"
        using assms(1) by (simp add: map_of_eq_None_iff)
    qed (use assms in simp_all)
    moreover have "snd (updateStaticData ddb_send lift data tbl) = tbl'"
      using f False s by (simp add: updateStaticData_def split: sum.splits)
    ultimately show ?thesis by simp
  qed
qed

lemma updateDynamicData_frame:
  assumes "map_of (provided_dynamic_fields data) a = None"
    and "a \<noteq> ''Lift''" and "a \<noteq> ''Metadata''"
  shows "stored_attribute (snd (updateDynamicData ddb_send lift metadata data tbl))
           (lift, metadata) a
       = stored_attribute tbl (lift, metadata) a"
proof -
  obtain e v n where f: "updateDynamicData_fields data = (e, v, n)"
    by (cases "updateDynamicData_fields data")
  show ?thesis
  proof (cases "e = []")
    case True
    then show ?thesis using f by (simp add: updateDynamicData_def)
  next
    case False
    obtain r tbl' where s:
      "ddb_send (UpdateCommand (updateDynamicData_params lift metadata e v n)) tbl = (r, tbl')"
      by (cases "ddb_send (UpdateCommand (updateDynamicData_params lift metadata e v n)) tbl")
    have "stored_attribute tbl' (lift, metadata) a = stored_attribute tbl (lift, metadata) a"
      using s _ dynamic_update_assignments [OF f False]
    proof (rule ddb_update_frame)
      show "Key (updateDynamicData_params lift metadata e v n) = Some (key_item lift metadata)"
        by (simp add: updateDynamicData_params_def new_params_def)
      show "a \<notin> set (map fst (provided_dynamic_fields data))"
        using assms(1) by (simp add: map_of_eq_None_iff)
    qed (use assms in simp_all)
    moreover have "snd (updateDynamicData ddb_send lift metadata data tbl) = tbl'"
      using f False s by (simp add: updateDynamicData_def split: sum.splits)
    ultimately show ?thesis by simp
  qed
qed

lemma updateStaticData_sends:
  assumes "updateStaticData_fields sd = (e, v, n)" and "e \<noteq> []"
  shows "updateStaticData send lift sd st =
     (case send (UpdateCommand (updateStaticData_params lift e v n)) st of
        (Inr result, st') \<Rightarrow> (Inr (out_Attributes result), st')
      | (Inl error, st') \<Rightarrow>
          (Inl (DynamoDBError ''Failed to update static data'' (Some (SdkThrown error))), st'))"
  using assms by (simp add: updateStaticData_def)

lemma updateDynamicData_sends:
  assumes "updateDynamicData_fields dd = (e, v, n)" and "e \<noteq> []"
  shows "updateDynamicData send lift metadata dd st =
     (case send (UpdateCommand (updateDynamicData_params lift metadata e v n)) st of
        (Inr result, st') \<Rightarrow> (Inr (out_Attributes result), st')
      | (Inl error, st') \<Rightarrow>
          (Inl (DynamoDBError ''Failed to update dynamic data'' (Some (SdkThrown error))), st'))"
  using assms by (simp add: updateDynamicData_def)

lemma store_base_ok:
  "wf_table tbl \<Longrightarrow>
   index_key_ok (case map_of tbl (lift, metadata) of
                   None \<Rightarrow> key_item lift metadata | Some it \<Rightarrow> it)"
  by (auto simp add: index_key_ok_key_item split: option.splits dest: wf_table_lookup)

lemma updateStaticData_returns_stored:
  assumes "wf_table tbl" and "lift \<noteq> []" and "provided_static_fields sd \<noteq> []"
  shows "fst (updateStaticData ddb_send lift sd tbl) =
     Inr (map_of (snd (updateStaticData ddb_send lift sd tbl)) (lift, ''Static Data''))"
  using updateStaticData_on_store [OF assms(2,3) store_base_ok [OF assms(1)] refl]
  by (simp add: update_conv')

lemma updateDynamicData_returns_stored:
  assumes "wf_table tbl" and "lift \<noteq> []" and "metadata \<noteq> []"
    and "provided_dynamic_fields dd \<noteq> []"
  shows "fst (updateDynamicData ddb_send lift metadata dd tbl) =
     Inr (map_of (snd (updateDynamicData ddb_send lift metadata dd tbl)) (lift, metadata))"
  using updateDynamicData_on_store [OF assms(2,3,4) store_base_ok [OF assms(1)] refl]
  by (simp add: update_conv')

lemma updateStaticData_writes:
  assumes "wf_table tbl" and "lift \<noteq> []"
    and "map_of (provided_static_fields sd) a \<noteq> None"
  shows "stored_attribute (snd (updateStaticData ddb_send lift sd tbl)) (lift, ''Static Data'') a
       = map_of (provided_static_fields sd) a"
proof -
  from assms(3) have ne: "provided_static_fields sd \<noteq> []"
    by auto
  show ?thesis
    using updateStaticData_on_store [OF assms(2) ne store_base_ok [OF assms(1)] refl]
      assms(3)
    by (auto simp add: stored_attribute_def update_conv' map_add_def)
qed

lemma updateDynamicData_writes:
  assumes "wf_table tbl" and "lift \<noteq> []" and "metadata \<noteq> []"
    and "map_of (provided_dynamic_fields dd) a \<noteq> None"
  shows "stored_attribute (snd (updateDynamicData ddb_send lift metadata dd tbl)) (lift, metadata) a
       = map_of (provided_dynamic_fields dd) a"
proof -
  from assms(4) have ne: "provided_dynamic_fields dd \<noteq> []"
    by auto
  show ?thesis
    using updateDynamicData_on_store [OF assms(2,3) ne store_base_ok [OF assms(1)] refl]
      assms(4)
    by (auto simp add: stored_attribute_def update_conv' map_add_def)
qed

text \<open>
  C3. In \<open>updateStaticData\<close> and \<open>updateDynamicData\<close> the clause of a field is in
  the update expression exactly when the field is present in the input, and the value
  sent for it is the value of the input, whatever it is: a rider count of 0 and the
  boolean false are sent like any other value. When at least one field is present,
  the operation sends, to every client, one update command at the key of the record:
  its expression is \<^verbatim>\<open>SET\<close> followed by the clauses of the present fields, its
  placeholders are those of the present fields, and read as the store reads it, the
  expression assigns to the attributes of the present fields the values of the input
  and assigns nothing else. On the reference store, with a non-empty key, the
  attribute of every present field holds the value of the input after the update, the
  record returned is the record stored at the key afterwards, and an absent field
  leaves the attribute stored at the key as it was.
\<close>

theorem update_fields_by_presence:
  "((''#experiencedRidersOnly = :experiencedRidersOnly'' \<in> set (fst (updateStaticData_fields sd)))
      = (us_ExperiencedRidersOnly sd \<noteq> None))
   \<and> ((''#verticalFeet = :verticalFeet'' \<in> set (fst (updateStaticData_fields sd)))
      = (us_VerticalFeet sd \<noteq> None))
   \<and> ((''#liftTime = :liftTime'' \<in> set (fst (updateStaticData_fields sd)))
      = (us_LiftTime sd \<noteq> None))
   \<and> fst (snd (updateStaticData_fields sd)) '':experiencedRidersOnly''
      = map_option JBool (us_ExperiencedRidersOnly sd)
   \<and> fst (snd (updateStaticData_fields sd)) '':verticalFeet''
      = map_option JNumber (us_VerticalFeet sd)
   \<and> fst (snd (updateStaticData_fields sd)) '':liftTime'' = map_option JString (us_LiftTime sd)
   \<and> ((''#totalUniqueLiftRiders = :totalUniqueLiftRiders''
          \<in> set (fst (updateDynamicData_fields dd))) = (ud_TotalUniqueLiftRiders dd \<noteq> None))
   \<and> ((''#averageSnowCoverageInches = :averageSnowCoverageInches''
          \<in> set (fst (updateDynamicData_fields dd))) = (ud_AverageSnowCoverageInches dd \<noteq> None))
   \<and> ((''#liftStatus = :liftStatus'' \<in> set (fst (updateDynamicData_fields dd)))
      = (ud_LiftStatus dd \<noteq> None))
   \<and> ((''#avalancheDanger = :avalancheDanger'' \<in> set (fst (updateDynamicData_fields dd)))
      = (ud_AvalancheDanger dd \<noteq> None))
   \<and> fst (snd (updateDynamicData_fields dd)) '':totalUniqueLiftRiders''
      = map_option JNumber (ud_TotalUniqueLiftRiders dd)
   \<and> fst (snd (updateDynamicData_fields dd)) '':averageSnowCoverageInches''
      = map_option JNumber (ud_AverageSnowCoverageInches dd)
   \<and> fst (snd (updateDynamicData_fields dd)) '':liftStatus'' = map_option JString (ud_LiftStatus dd)
   \<and> fst (snd (updateDynamicData_fields dd)) '':avalancheDanger''
      = map_option JString (ud_AvalancheDanger dd)
   \<and> updateDynamicData_fields
        \<lparr>ud_TotalUniqueLiftRiders = Some 0, ud_AverageSnowCoverageInches = None,
         ud_LiftStatus = None, ud_AvalancheDanger = None\<rparr>
      = ([''#totalUniqueLiftRiders = :totalUniqueLiftRiders''],
         ['':totalUniqueLiftRiders'' \<mapsto> JNumber 0],
         [''#totalUniqueLiftRiders'' \<mapsto> ''TotalUniqueLiftRiders''])
   \<and> updateStaticData_fields
        \<lparr>us_ExperiencedRidersOnly = Some False, us_VerticalFeet = None, us_LiftTime = None\<rparr>
      = ([''#experiencedRidersOnly = :experiencedRidersOnly''],
         ['':experiencedRidersOnly'' \<mapsto> JBool False],
         [''#experiencedRidersOnly'' \<mapsto> ''ExperiencedRidersOnly''])
   \<and> (us_ExperiencedRidersOnly sd = None \<longrightarrow>
        stored_attribute (snd (updateStaticData ddb_send lift sd tbl)) (lift, ''Static Data'')
          ''ExperiencedRidersOnly'' = stored_attribute tbl (lift, ''Static Data'') ''ExperiencedRidersOnly'')
   \<and> (us_VerticalFeet sd = None \<longrightarrow>
        stored_attribute (snd (updateStaticData ddb_send lift sd tbl)) (lift, ''Static Data'')
          ''VerticalFeet'' = stored_attribute tbl (lift, ''Static Data'') ''VerticalFeet'')
   \<and> (us_LiftTime sd = None \<longrightarrow>
        stored_attribute (snd (updateStaticData ddb_send lift sd tbl)) (lift, ''Static Data'')
          ''LiftTime'' = stored_attribute tbl (lift, ''Static Data'') ''LiftTime'')
   \<and> (ud_TotalUniqueLiftRiders dd = None \<longrightarrow>
        stored_attribute (snd (updateDynamicData ddb_send lift metadata dd tbl)) (lift, metadata)
          ''TotalUniqueLiftRiders'' = stored_attribute tbl (lift, metadata) ''TotalUniqueLiftRiders'')
   \<and> (ud_AverageSnowCoverageInches dd = None \<longrightarrow>
        stored_attribute (snd (updateDynamicData ddb_send lift metadata dd tbl)) (lift, metadata)
          ''AverageSnowCoverageInches'' = stored_attribute tbl (lift, metadata) ''AverageSnowCoverageInches'')
   \<and> (ud_LiftStatus dd = None \<longrightarrow>
        stored_attribute (snd (updateDynamicData ddb_send lift metadata dd tbl)) (lift, metadata)
          ''LiftStatus'' = stored_attribute tbl (lift, metadata) ''LiftStatus'')
   \<and> (ud_AvalancheDanger dd = None \<longrightarrow>
        stored_attribute (snd (updateDynamicData ddb_send lift metadata dd tbl)) (lift, metadata)
          ''AvalancheDanger'' = stored_attribute tbl (lift, metadata) ''AvalancheDanger'')
   \<and> (updateStaticData_fields sd = (es, vs, ns) \<and> es \<noteq> [] \<longrightarrow>
        updateStaticData send lift sd st =
          (case send (UpdateCommand (updateStaticData_params lift es vs ns)) st of
             (Inr result, st') \<Rightarrow> (Inr (out_Attributes result), st')
           | (Inl error, st') \<Rightarrow>
               (Inl (DynamoDBError ''Failed to update static data'' (Some (SdkThrown error))),
                st'))
        \<and> Key (updateStaticData_params lift es vs ns) = Some (key_item lift ''Static Data'')
        \<and> UpdateExpression (updateStaticData_params lift es vs ns)
            = Some (''SET '' @ join '', '' es)
        \<and> ExpressionAttributeNames (updateStaticData_params lift es vs ns) = Some ns
        \<and> ExpressionAttributeValues (updateStaticData_params lift es vs ns) = Some vs
        \<and> update_assignments (updateStaticData_params lift es vs ns)
            = Some (provided_static_fields sd))
   \<and> (updateDynamicData_fields dd = (ed, vd, nd) \<and> ed \<noteq> [] \<longrightarrow>
        updateDynamicData send lift metadata dd st =
          (case send (UpdateCommand (updateDynamicData_params lift metadata ed vd nd)) st of
             (Inr result, st') \<Rightarrow> (Inr (out_Attributes result), st')
           | (Inl error, st') \<Rightarrow>
               (Inl (DynamoDBError ''Failed to update dynamic data'' (Some (SdkThrown error))),
                st'))
        \<and> Key (updateDynamicData_params lift metadata ed vd nd) = Some (key_item lift metadata)
        \<and> UpdateExpression (updateDynamicData_params lift metadata ed vd nd)
            = Some (''SET '' @ join '', '' ed)
        \<and> ExpressionAttributeNames (updateDynamicData_params lift metadata ed vd nd) = Some nd
        \<and> ExpressionAttributeValues (updateDynamicData_params lift metadata ed vd nd) = Some vd
        \<and> update_assignments (updateDynamicData_params lift metadata ed vd nd)
            = Some (provided_dynamic_fields dd))
   \<and> map_of (provided_static_fields sd) ''ExperiencedRidersOnly''
      = map_option JBool (us_ExperiencedRidersOnly sd)
   \<and> map_of (provided_static_fields sd) ''VerticalFeet'' = map_option JNumber (us_VerticalFeet sd)
   \<and> map_of (provided_static_fields sd) ''LiftTime'' = map_option JString (us_LiftTime sd)
   \<and> map_of (provided_dynamic_fields dd) ''TotalUniqueLiftRiders''
      = map_option JNumber (ud_TotalUniqueLiftRiders dd)
   \<and> map_of (provided_dynamic_fields dd) ''AverageSnowCoverageInches''
      = map_option JNumber (ud_AverageSnowCoverageInches dd)
   \<and> map_of (provided_dynamic_fields dd) ''LiftStatus'' = map_option JString (ud_LiftStatus dd)
   \<and> map_of (provided_dynamic_fields dd) ''AvalancheDanger''
      = map_option JString (ud_AvalancheDanger dd)
   \<and> (wf_table tbl \<and> lift \<noteq> [] \<longrightarrow>
        (us_ExperiencedRidersOnly sd \<noteq> None \<longrightarrow>
           stored_attribute (snd (updateStaticData ddb_send lift sd tbl)) (lift, ''Static Data'')
             ''ExperiencedRidersOnly'' = map_option JBool (us_ExperiencedRidersOnly sd))
        \<and> (us_VerticalFeet sd \<noteq> None \<longrightarrow>
           stored_attribute (snd (updateStaticData ddb_send lift sd tbl)) (lift, ''Static Data'')
             ''VerticalFeet'' = map_option JNumber (us_VerticalFeet sd))
        \<and> (us_LiftTime sd \<noteq> None \<longrightarrow>
           stored_attribute (snd (updateStaticData ddb_send lift sd tbl)) (lift, ''Static Data'')
             ''LiftTime'' = map_option JString (us_LiftTime sd))
        \<and> (fst (updateStaticData_fields sd) \<noteq> [] \<longrightarrow>
           fst (updateStaticData ddb_send lift sd tbl) =
             Inr (map_of (snd (updateStaticData ddb_send lift sd tbl)) (lift, ''Static Data''))))
   \<and> (wf_table tbl \<and> lift \<noteq> [] \<and> metadata \<noteq> [] \<longrightarrow>
        (ud_TotalUniqueLiftRiders dd \<noteq> None \<longrightarrow>
           stored_attribute (snd (updateDynamicData ddb_send lift metadata dd tbl))
             (lift, metadata) ''TotalUniqueLiftRiders''
             = map_option JNumber (ud_TotalUniqueLiftRiders dd))
        \<and> (ud_AverageSnowCoverageInches dd \<noteq> None \<longrightarrow>
           stored_attribute (snd (updateDynamicData ddb_send lift metadata dd tbl))
             (lift, metadata) ''AverageSnowCoverageInches''
             = map_option JNumber (ud_AverageSnowCoverageInches dd))
        \<and> (ud_LiftStatus dd \<noteq> None \<longrightarrow>
           stored_attribute (snd (updateDynamicData ddb_send lift metadata dd tbl))
             (lift, metadata) ''LiftStatus'' = map_option JString (ud_LiftStatus dd))
        \<and> (ud_AvalancheDanger dd \<noteq> None \<longrightarrow>
           stored_attribute (snd (updateDynamicData ddb_send lift metadata dd tbl))
             (lift, metadata) ''AvalancheDanger'' = map_option JString (ud_AvalancheDanger dd))
        \<and> (fst (updateDynamicData_fields dd) \<noteq> [] \<longrightarrow>
           fst (updateDynamicData ddb_send lift metadata dd tbl) =
             Inr (map_of (snd (updateDynamicData ddb_send lift metadata dd tbl))
                    (lift, metadata))))"
proof -
  have s: "((''#experiencedRidersOnly = :experiencedRidersOnly''
              \<in> set (fst (updateStaticData_fields sd))) = (us_ExperiencedRidersOnly sd \<noteq> None))"
    "((''#verticalFeet = :verticalFeet'' \<in> set (fst (updateStaticData_fields sd)))
      = (us_VerticalFeet sd \<noteq> None))"
    "((''#liftTime = :liftTime'' \<in> set (fst (updateStaticData_fields sd)))
      = (us_LiftTime sd \<noteq> None))"
    "fst (snd (updateStaticData_fields sd)) '':experiencedRidersOnly''
      = map_option JBool (us_ExperiencedRidersOnly sd)"
    "fst (snd (updateStaticData_fields sd)) '':verticalFeet''
      = map_option JNumber (us_VerticalFeet sd)"
    "fst (snd (updateStaticData_fields sd)) '':liftTime'' = map_option JString (us_LiftTime sd)"
    by (simp_all add: updateStaticData_fields_def split: option.splits)
  have d: "((''#totalUniqueLiftRiders = :totalUniqueLiftRiders''
          \<in> set (fst (updateDynamicData_fields dd))) = (ud_TotalUniqueLiftRiders dd \<noteq> None))"
    "((''#averageSnowCoverageInches = :averageSnowCoverageInches''
          \<in> set (fst (updateDynamicData_fields dd))) = (ud_AverageSnowCoverageInches dd \<noteq> None))"
    "((''#liftStatus = :liftStatus'' \<in> set (fst (updateDynamicData_fields dd)))
      = (ud_LiftStatus dd \<noteq> None))"
    "((''#avalancheDanger = :avalancheDanger'' \<in> set (fst (updateDynamicData_fields dd)))
      = (ud_AvalancheDanger dd \<noteq> None))"
    "fst (snd (updateDynamicData_fields dd)) '':totalUniqueLiftRiders''
      = map_option JNumber (ud_TotalUniqueLiftRiders dd)"
    "fst (snd (updateDynamicData_fields dd)) '':averageSnowCoverageInches''
      = map_option JNumber (ud_AverageSnowCoverageInches dd)"
    "fst (snd (updateDynamicData_fields dd)) '':liftStatus'' = map_option JString (ud_LiftStatus dd)"
    "fst (snd (updateDynamicData_fields dd)) '':avalancheDanger''
      = map_option JString (ud_AvalancheDanger dd)"
    by (simp_all add: updateDynamicData_fields_def split: option.splits)
  have z: "updateDynamicData_fields
        \<lparr>ud_TotalUniqueLiftRiders = Some 0, ud_AverageSnowCoverageInches = None,
         ud_LiftStatus = None, ud_AvalancheDanger = None\<rparr>
      = ([''#totalUniqueLiftRiders = :totalUniqueLiftRiders''],
         ['':totalUniqueLiftRiders'' \<mapsto> JNumber 0],
         [''#totalUniqueLiftRiders'' \<mapsto> ''TotalUniqueLiftRiders''])"
    "updateStaticData_fields
        \<lparr>us_ExperiencedRidersOnly = Some False, us_VerticalFeet = None, us_LiftTime = None\<rparr>
      = ([''#experiencedRidersOnly = :experiencedRidersOnly''],
         ['':experiencedRidersOnly'' \<mapsto> JBool False],
         [''#experiencedRidersOnly'' \<mapsto> ''ExperiencedRidersOnly''])"
    by (simp_all add: updateDynamicData_fields_def updateStaticData_fields_def)
  have fs:
    "(us_ExperiencedRidersOnly sd = None \<longrightarrow>
        stored_attribute (snd (updateStaticData ddb_send lift sd tbl)) (lift, ''Static Data'')
          ''ExperiencedRidersOnly'' = stored_attribute tbl (lift, ''Static Data'') ''ExperiencedRidersOnly'')"
    "(us_VerticalFeet sd = None \<longrightarrow>
        stored_attribute (snd (updateStaticData ddb_send lift sd tbl)) (lift, ''Static Data'')
          ''VerticalFeet'' = stored_attribute tbl (lift, ''Static Data'') ''VerticalFeet'')"
    "(us_LiftTime sd = None \<longrightarrow>
        stored_attribute (snd (updateStaticData ddb_send lift sd tbl)) (lift, ''Static Data'')
          ''LiftTime'' = stored_attribute tbl (lift, ''Static Data'') ''LiftTime'')"
    using updateStaticData_frame [of sd "''ExperiencedRidersOnly''" lift tbl]
      updateStaticData_frame [of sd "''VerticalFeet''" lift tbl]
      updateStaticData_frame [of sd "''LiftTime''" lift tbl]
    by (simp_all add: static_fields_lookup)
  have fd:
    "(ud_TotalUniqueLiftRiders dd = None \<longrightarrow>
        stored_attribute (snd (updateDynamicData ddb_send lift metadata dd tbl)) (lift, metadata)
          ''TotalUniqueLiftRiders'' = stored_attribute tbl (lift, metadata) ''TotalUniqueLiftRiders'')"
    "(ud_AverageSnowCoverageInches dd = None \<longrightarrow>
        stored_attribute (snd (updateDynamicData ddb_send lift metadata dd tbl)) (lift, metadata)
          ''AverageSnowCoverageInches'' = stored_attribute tbl (lift, metadata) ''AverageSnowCoverageInches'')"
    "(ud_LiftStatus dd = None \<longrightarrow>
        stored_attribute (snd (updateDynamicData ddb_send lift metadata dd tbl)) (lift, metadata)
          ''LiftStatus'' = stored_attribute tbl (lift, metadata) ''LiftStatus'')"
    "(ud_AvalancheDanger dd = None \<longrightarrow>
        stored_attribute (snd (updateDynamicData ddb_send lift metadata dd tbl)) (lift, metadata)
          ''AvalancheDanger'' = stored_attribute tbl (lift, metadata) ''AvalancheDanger'')"
    using updateDynamicData_frame [of dd "''TotalUniqueLiftRiders''" lift metadata tbl]
      updateDynamicData_frame [of dd "''AverageSnowCoverageInches''" lift metadata tbl]
      updateDynamicData_frame [of dd "''LiftStatus''" lift metadata tbl]
      updateDynamicData_frame [of dd "''AvalancheDanger''" lift metadata tbl]
    by (simp_all add: dynamic_fields_lookup)
  have sent_s: "updateStaticData_fields sd = (es, vs, ns) \<and> es \<noteq> [] \<longrightarrow>
        updateStaticData send lift sd st =
          (case send (UpdateCommand (updateStaticData_params lift es vs ns)) st of
             (Inr result, st') \<Rightarrow> (Inr (out_Attributes result), st')
           | (Inl error, st') \<Rightarrow>
               (Inl (DynamoDBError ''Failed to update static data'' (Some (SdkThrown error))),
                st'))
        \<and> Key (updateStaticData_params lift es vs ns) = Some (key_item lift ''Static Data'')
        \<and> UpdateExpression (updateStaticData_params lift es vs ns)
            = Some (''SET '' @ join '', '' es)
        \<and> ExpressionAttributeNames (updateStaticData_params lift es vs ns) = Some ns
        \<and> ExpressionAttributeValues (updateStaticData_params lift es vs ns) = Some vs
        \<and> update_assignments (updateStaticData_params lift es vs ns)
            = Some (provided_static_fields sd)"
  proof (intro impI, elim conjE)
    assume f: "updateStaticData_fields sd = (es, vs, ns)" and ne: "es \<noteq> []"
    have p: "Key (updateStaticData_params lift es vs ns) = Some (key_item lift ''Static Data'')"
      "UpdateExpression (updateStaticData_params lift es vs ns)
         = Some (''SET '' @ join '', '' es)"
      "ExpressionAttributeNames (updateStaticData_params lift es vs ns) = Some ns"
      "ExpressionAttributeValues (updateStaticData_params lift es vs ns) = Some vs"
      by (simp_all add: updateStaticData_params_def)
    show "updateStaticData send lift sd st =
          (case send (UpdateCommand (updateStaticData_params lift es vs ns)) st of
             (Inr result, st') \<Rightarrow> (Inr (out_Attributes result), st')
           | (Inl error, st') \<Rightarrow>
               (Inl (DynamoDBError ''Failed to update static data'' (Some (SdkThrown error))),
                st'))
        \<and> Key (updateStaticData_params lift es vs ns) = Some (key_item lift ''Static Data'')
        \<and> UpdateExpression (updateStaticData_params lift es vs ns)
            = Some (''SET '' @ join '', '' es)
        \<and> ExpressionAttributeNames (updateStaticData_params lift es vs ns) = Some ns
        \<and> ExpressionAttributeValues (updateStaticData_params lift es vs ns) = Some vs
        \<and> update_assignments (updateStaticData_params lift es vs ns)
            = Some (provided_static_fields sd)"
      by (intro conjI updateStaticData_sends [OF f ne] static_update_assignments [OF f ne] p)
  qed
  have sent_d: "updateDynamicData_fields dd = (ed, vd, nd) \<and> ed \<noteq> [] \<longrightarrow>
        updateDynamicData send lift metadata dd st =
          (case send (UpdateCommand (updateDynamicData_params lift metadata ed vd nd)) st of
             (Inr result, st') \<Rightarrow> (Inr (out_Attributes result), st')
           | (Inl error, st') \<Rightarrow>
               (Inl (DynamoDBError ''Failed to update dynamic data'' (Some (SdkThrown error))),
                st'))
        \<and> Key (updateDynamicData_params lift metadata ed vd nd) = Some (key_item lift metadata)
        \<and> UpdateExpression (updateDynamicData_params lift metadata ed vd nd)
            = Some (''SET '' @ join '', '' ed)
        \<and> ExpressionAttributeNames (updateDynamicData_params lift metadata ed vd nd) = Some nd
        \<and> ExpressionAttributeValues (updateDynamicData_params lift metadata ed vd nd) = Some vd
        \<and> update_assignments (updateDynamicData_params lift metadata ed vd nd)
            = Some (provided_dynamic_fields dd)"
  proof (intro impI, elim conjE)
    assume f: "updateDynamicData_fields dd = (ed, vd, nd)" and ne: "ed \<noteq> []"
    have p: "Key (updateDynamicData_params lift metadata ed vd nd) = Some (key_item lift metadata)"
      "UpdateExpression (updateDynamicData_params lift metadata ed vd nd)
         = Some (''SET '' @ join '', '' ed)"
      "ExpressionAttributeNames (updateDynamicData_params lift metadata ed vd nd) = Some nd"
      "ExpressionAttributeValues (updateDynamicData_params lift metadata ed vd nd) = Some vd"
      by (simp_all add: updateDynamicData_params_def)
    show "updateDynamicData send lift metadata dd st =
          (case send (UpdateCommand (updateDynamicData_params lift metadata ed vd nd)) st of
             (Inr result, st') \<Rightarrow> (Inr (out_Attributes result), st')
           | (Inl error, st') \<Rightarrow>
               (Inl (DynamoDBError ''Failed to update dynamic data'' (Some (SdkThrown error))),
                st'))
        \<and> Key (updateDynamicData_params lift metadata ed vd nd) = Some (key_item lift metadata)
        \<and> UpdateExpression (updateDynamicData_params lift metadata ed vd nd)
            = Some (''SET '' @ join '', '' ed)
        \<and> ExpressionAttributeNames (updateDynamicData_params lift metadata ed vd nd) = Some nd
        \<and> ExpressionAttributeValues (updateDynamicData_params lift metadata ed vd nd) = Some vd
        \<and> update_assignments (updateDynamicData_params lift metadata ed vd nd)
            = Some (provided_dynamic_fields dd)"
      by (intro conjI updateDynamicData_sends [OF f ne] dynamic_update_assignments [OF f ne] p)
  qed
  have ls: "map_of (provided_static_fields sd) ''ExperiencedRidersOnly''
      = map_option JBool (us_ExperiencedRidersOnly sd)"
    "map_of (provided_static_fields sd) ''VerticalFeet'' = map_option JNumber (us_VerticalFeet sd)"
    "map_of (provided_static_fields sd) ''LiftTime'' = map_option JString (us_LiftTime sd)"
    by (simp_all add: static_fields_lookup)
  have ld: "map_of (provided_dynamic_fields dd) ''TotalUniqueLiftRiders''
      = map_option JNumber (ud_TotalUniqueLiftRiders dd)"
    "map_of (provided_dynamic_fields dd) ''AverageSnowCoverageInches''
      = map_option JNumber (ud_AverageSnowCoverageInches dd)"
    "map_of (provided_dynamic_fields dd) ''LiftStatus'' = map_option JString (ud_LiftStatus dd)"
    "map_of (provided_dynamic_fields dd) ''AvalancheDanger''
      = map_option JString (ud_AvalancheDanger dd)"
    by (simp_all add: dynamic_fields_lookup)
  have ws: "wf_table tbl \<and> lift \<noteq> [] \<longrightarrow>
        (us_ExperiencedRidersOnly sd \<noteq> None \<longrightarrow>
           stored_attribute (snd (updateStaticData ddb_send lift sd tbl)) (lift, ''Static Data'')
             ''ExperiencedRidersOnly'' = map_option JBool (us_ExperiencedRidersOnly sd))
        \<and> (us_VerticalFeet sd \<noteq> None \<longrightarrow>
           stored_attribute (snd (updateStaticData ddb_send lift sd tbl)) (lift, ''Static Data'')
             ''VerticalFeet'' = map_option JNumber (us_VerticalFeet sd))
        \<and> (us_LiftTime sd \<noteq> None \<longrightarrow>
           stored_attribute (snd (updateStaticData ddb_send lift sd tbl)) (lift, ''Static Data'')
             ''LiftTime'' = map_option JString (us_LiftTime sd))
        \<and> (fst (updateStaticData_fields sd) \<noteq> [] \<longrightarrow>
           fst (updateStaticData ddb_send lift sd tbl) =
             Inr (map_of (snd (updateStaticData ddb_send lift sd tbl)) (lift, ''Static Data'')))"
  proof (intro impI, elim conjE)
    assume wf: "wf_table tbl" and l: "lift \<noteq> []"
    have w1: "us_ExperiencedRidersOnly sd \<noteq> None \<longrightarrow>
           stored_attribute (snd (updateStaticData ddb_send lift sd tbl)) (lift, ''Static Data'')
             ''ExperiencedRidersOnly'' = map_option JBool (us_ExperiencedRidersOnly sd)"
      using updateStaticData_writes [OF wf l, of sd "''ExperiencedRidersOnly''"]
      by (simp add: static_fields_lookup)
    have w2: "us_VerticalFeet sd \<noteq> None \<longrightarrow>
           stored_attribute (snd (updateStaticData ddb_send lift sd tbl)) (lift, ''Static Data'')
             ''VerticalFeet'' = map_option JNumber (us_VerticalFeet sd)"
      using updateStaticData_writes [OF wf l, of sd "''VerticalFeet''"]
      by (simp add: static_fields_lookup)
    have w3: "us_LiftTime sd \<noteq> None \<longrightarrow>
           stored_attribute (snd (updateStaticData ddb_send lift sd tbl)) (lift, ''Static Data'')
             ''LiftTime'' = map_option JString (us_LiftTime sd)"
      using updateStaticData_writes [OF wf l, of sd "''LiftTime''"]
      by (simp add: static_fields_lookup)
    have w4: "fst (updateStaticData_fields sd) \<noteq> [] \<longrightarrow>
           fst (updateStaticData ddb_send lift sd tbl) =
             Inr (map_of (snd (updateStaticData ddb_send lift sd tbl)) (lift, ''Static Data''))"
      using updateStaticData_returns_stored [OF wf l, of sd]
      by (simp add: static_fields_empty)
    show "(us_ExperiencedRidersOnly sd \<noteq> None \<longrightarrow>
           stored_attribute (snd (updateStaticData ddb_send lift sd tbl)) (lift, ''Static Data'')
             ''ExperiencedRidersOnly'' = map_option JBool (us_ExperiencedRidersOnly sd))
        \<and> (us_VerticalFeet sd \<noteq> None \<longrightarrow>
           stored_attribute (snd (updateStaticData ddb_send lift sd tbl)) (lift, ''Static Data'')
             ''VerticalFeet'' = map_option JNumber (us_VerticalFeet sd))
        \<and> (us_LiftTime sd \<noteq> None \<longrightarrow>
           stored_attribute (snd (updateStaticData ddb_send lift sd tbl)) (lift, ''Static Data'')
             ''LiftTime'' = map_option JString (us_LiftTime sd))
        \<and> (fst (updateStaticData_fields sd) \<noteq> [] \<longrightarrow>
           fst (updateStaticData ddb_send lift sd tbl) =
             Inr (map_of (snd (updateStaticData ddb_send lift sd tbl)) (lift, ''Static Data'')))"
      by (intro conjI w1 w2 w3 w4)
  qed
  have wd: "wf_table tbl \<and> lift \<noteq> [] \<and> metadata \<noteq> [] \<longrightarrow>
        (ud_TotalUniqueLiftRiders dd \<noteq> None \<longrightarrow>
           stored_attribute (snd (updateDynamicData ddb_send lift metadata dd tbl))
             (lift, metadata) ''TotalUniqueLiftRiders''
             = map_option JNumber (ud_TotalUniqueLiftRiders dd))
        \<and> (ud_AverageSnowCoverageInches dd \<noteq> None \<longrightarrow>
           stored_attribute (snd (updateDynamicData ddb_send lift metadata dd tbl))
             (lift, metadata) ''AverageSnowCoverageInches''
             = map_option JNumber (ud_AverageSnowCoverageInches dd))
        \<and> (ud_LiftStatus dd \<noteq> None \<longrightarrow>
           stored_attribute (snd (updateDynamicData ddb_send lift metadata dd tbl))
             (lift, metadata) ''LiftStatus'' = map_option JString (ud_LiftStatus dd))
        \<and> (ud_AvalancheDanger dd \<noteq> None \<longrightarrow>
           stored_attribute (snd (updateDynamicData ddb_send lift metadata dd tbl))
             (lift, metadata) ''AvalancheDanger'' = map_option JString (ud_AvalancheDanger dd))
        \<and> (fst (updateDynamicData_fields dd) \<noteq> [] \<longrightarrow>
           fst (updateDynamicData ddb_send lift metadata dd tbl) =
             Inr (map_of (snd (updateDynamicData ddb_send lift metadata dd tbl))
                    (lift, metadata)))"
  proof (intro impI, elim conjE)
    assume wf: "wf_table tbl" and l: "lift \<noteq> []" and m: "metadata \<noteq> []"
    have w1: "ud_TotalUniqueLiftRiders dd \<noteq> None \<longrightarrow>
           stored_attribute (snd (updateDynamicData ddb_send lift metadata dd tbl))
             (lift, metadata) ''TotalUniqueLiftRiders''
             = map_option JNumber (ud_TotalUniqueLiftRiders dd)"
      using updateDynamicData_writes [OF wf l m, of dd "''TotalUniqueLiftRiders''"]
      by (simp add: dynamic_fields_lookup)
    have w2: "ud_AverageSnowCoverageInches dd \<noteq> None \<longrightarrow>
           stored_attribute (snd (updateDynamicData ddb_send lift metadata dd tbl))
             (lift, metadata) ''AverageSnowCoverageInches''
             = map_option JNumber (ud_AverageSnowCoverageInches dd)"
      using updateDynamicData_writes [OF wf l m, of dd "''AverageSnowCoverageInches''"]
      by (simp add: dynamic_fields_lookup)
    have w3: "ud_LiftStatus dd \<noteq> None \<longrightarrow>
           stored_attribute (snd (updateDynamicData ddb_send lift metadata dd tbl))
             (lift, metadata) ''LiftStatus'' = map_option JString (ud_LiftStatus dd)"
      using updateDynamicData_writes [OF wf l m, of dd "''LiftStatus''"]
      by (simp add: dynamic_fields_lookup)
    have w4: "ud_AvalancheDanger dd \<noteq> None \<longrightarrow>
           stored_attribute (snd (updateDynamicData ddb_send lift metadata dd tbl))
             (lift, metadata) ''AvalancheDanger'' = map_option JString (ud_AvalancheDanger dd)"
      using updateDynamicData_writes [OF wf l m, of dd "''AvalancheDanger''"]
      by (simp add: dynamic_fields_lookup)
    have w5: "fst (updateDynamicData_fields dd) \<noteq> [] \<longrightarrow>
           fst (updateDynamicData ddb_send lift metadata dd tbl) =
             Inr (map_of (snd (updateDynamicData ddb_send lift metadata dd tbl))
                    (lift, metadata))"
      using updateDynamicData_returns_stored [OF wf l m, of dd]
      by (simp add: dynamic_fields_empty)
    show "(ud_TotalUniqueLiftRiders dd \<noteq> None \<longrightarrow>
           stored_attribute (snd (updateDynamicData ddb_send lift metadata dd tbl))
             (lift, metadata) ''TotalUniqueLiftRiders''
             = map_option JNumber (ud_TotalUniqueLiftRiders dd))
        \<and> (ud_AverageSnowCoverageInches dd \<noteq> None \<longrightarrow>
           stored_attribute (snd (updateDynamicData ddb_send lift metadata dd tbl))
             (lift, metadata) ''AverageSnowCoverageInches''
             = map_option JNumber (ud_AverageSnowCoverageInches dd))
        \<and> (ud_LiftStatus dd \<noteq> None \<longrightarrow>
           stored_attribute (snd (updateDynamicData ddb_send lift metadata dd tbl))
             (lift, metadata) ''LiftStatus'' = map_option JString (ud_LiftStatus dd))
        \<and> (ud_AvalancheDanger dd \<noteq> None \<longrightarrow>
           stored_attribute (snd (updateDynamicData ddb_send lift metadata dd tbl))
             (lift, metadata) ''AvalancheDanger'' = map_option JString (ud_AvalancheDanger dd))
        \<and> (fst (updateDynamicData_fields dd) \<noteq> [] \<longrightarrow>
           fst (updateDynamicData ddb_send lift metadata dd tbl) =
             Inr (map_of (snd (updateDynamicData ddb_send lift metadata dd tbl))
                    (lift, metadata)))"
      by (intro conjI w1 w2 w3 w4 w5)
  qed
  show ?thesis
    by (intro conjI s d z fs fd sent_s sent_d ls ld ws wd)
qed

theorem update_fields_by_presence_witness:
  "wf_table example_update_table
   \<and> updateStaticData_fields
        \<lparr>us_ExperiencedRidersOnly = Some False, us_VerticalFeet = None, us_LiftTime = None\<rparr>
      = ([''#experiencedRidersOnly = :experiencedRidersOnly''],
         ['':experiencedRidersOnly'' \<mapsto> JBool False],
         [''#experiencedRidersOnly'' \<mapsto> ''ExperiencedRidersOnly''])
   \<and> updateStaticData recording_client ''Lift 1''
        \<lparr>us_ExperiencedRidersOnly = Some False, us_VerticalFeet = None, us_LiftTime = None\<rparr> []
      = (Inr None,
         [UpdateCommand (updateStaticData_params ''Lift 1''
            [''#experiencedRidersOnly = :experiencedRidersOnly'']
            ['':experiencedRidersOnly'' \<mapsto> JBool False]
            [''#experiencedRidersOnly'' \<mapsto> ''ExperiencedRidersOnly''])])
   \<and> UpdateExpression (updateStaticData_params ''Lift 1''
            [''#experiencedRidersOnly = :experiencedRidersOnly'']
            ['':experiencedRidersOnly'' \<mapsto> JBool False]
            [''#experiencedRidersOnly'' \<mapsto> ''ExperiencedRidersOnly''])
      = Some ''SET #experiencedRidersOnly = :experiencedRidersOnly''
   \<and> update_assignments (updateStaticData_params ''Lift 1''
            [''#experiencedRidersOnly = :experiencedRidersOnly'']
            ['':experiencedRidersOnly'' \<mapsto> JBool False]
            [''#experiencedRidersOnly'' \<mapsto> ''ExperiencedRidersOnly''])
      = Some [(''ExperiencedRidersOnly'', JBool False)]
   \<and> stored_attribute example_update_table (''Lift 1'', ''Static Data'') ''ExperiencedRidersOnly''
      = Some (JBool True)
   \<and> stored_attribute
        (snd (updateStaticData ddb_send ''Lift 1''
           \<lparr>us_ExperiencedRidersOnly = Some False, us_VerticalFeet = None, us_LiftTime = None\<rparr>
           example_update_table))
        (''Lift 1'', ''Static Data'') ''ExperiencedRidersOnly''
      = Some (JBool False)
   \<and> stored_attribute
        (snd (updateStaticData ddb_send ''Lift 1''
           \<lparr>us_ExperiencedRidersOnly = Some False, us_VerticalFeet = None, us_LiftTime = None\<rparr>
           example_update_table))
        (''Lift 1'', ''Static Data'') ''VerticalFeet''
      = Some (JNumber 2500)
   \<and> fst (updateStaticData ddb_send ''Lift 1''
           \<lparr>us_ExperiencedRidersOnly = Some False, us_VerticalFeet = None, us_LiftTime = None\<rparr>
           example_update_table)
      = Inr (map_of
          (snd (updateStaticData ddb_send ''Lift 1''
             \<lparr>us_ExperiencedRidersOnly = Some False, us_VerticalFeet = None, us_LiftTime = None\<rparr>
             example_update_table))
          (''Lift 1'', ''Static Data''))
   \<and> updateDynamicData_fields
        \<lparr>ud_TotalUniqueLiftRiders = Some 0, ud_AverageSnowCoverageInches = None,
         ud_LiftStatus = None, ud_AvalancheDanger = None\<rparr>
      = ([''#totalUniqueLiftRiders = :totalUniqueLiftRiders''],
         ['':totalUniqueLiftRiders'' \<mapsto> JNumber 0],
         [''#totalUniqueLiftRiders'' \<mapsto> ''TotalUniqueLiftRiders''])
   \<and> updateDynamicData recording_client ''Lift 1'' ''01/03/20''
        \<lparr>ud_TotalUniqueLiftRiders = Some 0, ud_AverageSnowCoverageInches = None,
         ud_LiftStatus = None, ud_AvalancheDanger = None\<rparr> []
      = (Inr None,
         [UpdateCommand (updateDynamicData_params ''Lift 1'' ''01/03/20''
            [''#totalUniqueLiftRiders = :totalUniqueLiftRiders'']
            ['':totalUniqueLiftRiders'' \<mapsto> JNumber 0]
            [''#totalUniqueLiftRiders'' \<mapsto> ''TotalUniqueLiftRiders''])])
   \<and> UpdateExpression (updateDynamicData_params ''Lift 1'' ''01/03/20''
            [''#totalUniqueLiftRiders = :totalUniqueLiftRiders'']
            ['':totalUniqueLiftRiders'' \<mapsto> JNumber 0]
            [''#totalUniqueLiftRiders'' \<mapsto> ''TotalUniqueLiftRiders''])
      = Some ''SET #totalUniqueLiftRiders = :totalUniqueLiftRiders''
   \<and> update_assignments (updateDynamicData_params ''Lift 1'' ''01/03/20''
            [''#totalUniqueLiftRiders = :totalUniqueLiftRiders'']
            ['':totalUniqueLiftRiders'' \<mapsto> JNumber 0]
            [''#totalUniqueLiftRiders'' \<mapsto> ''TotalUniqueLiftRiders''])
      = Some [(''TotalUniqueLiftRiders'', JNumber 0)]
   \<and> stored_attribute example_update_table (''Lift 1'', ''01/03/20'') ''TotalUniqueLiftRiders''
      = Some (JNumber 500)
   \<and> stored_attribute
        (snd (updateDynamicData ddb_send ''Lift 1'' ''01/03/20''
           \<lparr>ud_TotalUniqueLiftRiders = Some 0, ud_AverageSnowCoverageInches = None,
            ud_LiftStatus = None, ud_AvalancheDanger = None\<rparr>
           example_update_table))
        (''Lift 1'', ''01/03/20'') ''TotalUniqueLiftRiders''
      = Some (JNumber 0)
   \<and> stored_attribute
        (snd (updateDynamicData ddb_send ''Lift 1'' ''01/03/20''
           \<lparr>ud_TotalUniqueLiftRiders = Some 0, ud_AverageSnowCoverageInches = None,
            ud_LiftStatus = None, ud_AvalancheDanger = None\<rparr>
           example_update_table))
        (''Lift 1'', ''01/03/20'') ''LiftStatus''
      = Some (JString ''Open'')
   \<and> fst (updateDynamicData ddb_send ''Lift 1'' ''01/03/20''
           \<lparr>ud_TotalUniqueLiftRiders = Some 0, ud_AverageSnowCoverageInches = None,
            ud_LiftStatus = None, ud_AvalancheDanger = None\<rparr>
           example_update_table)
      = Inr (map_of
          (snd (updateDynamicData ddb_send ''Lift 1'' ''01/03/20''
             \<lparr>ud_TotalUniqueLiftRiders = Some 0, ud_AverageSnowCoverageInches = None,
              ud_LiftStatus = None, ud_AvalancheDanger = None\<rparr>
             example_update_table))
          (''Lift 1'', ''01/03/20''))"
proof -
  have wf: "wf_table example_update_table"
    by (simp add: wf_table_def example_update_table_def example_static_def example_dynamic_def
        primary_key_def index_key_ok_def)
  have fs: "updateStaticData_fields
        \<lparr>us_ExperiencedRidersOnly = Some False, us_VerticalFeet = None, us_LiftTime = None\<rparr>
      = ([''#experiencedRidersOnly = :experiencedRidersOnly''],
         ['':experiencedRidersOnly'' \<mapsto> JBool False],
         [''#experiencedRidersOnly'' \<mapsto> ''ExperiencedRidersOnly''])"
    by (simp add: updateStaticData_fields_def)
  have fd: "updateDynamicData_fields
        \<lparr>ud_TotalUniqueLiftRiders = Some 0, ud_AverageSnowCoverageInches = None,
         ud_LiftStatus = None, ud_AvalancheDanger = None\<rparr>
      = ([''#totalUniqueLiftRiders = :totalUniqueLiftRiders''],
         ['':totalUniqueLiftRiders'' \<mapsto> JNumber 0],
         [''#totalUniqueLiftRiders'' \<mapsto> ''TotalUniqueLiftRiders''])"
    by (simp add: updateDynamicData_fields_def)
  have before:
    "stored_attribute example_update_table (''Lift 1'', ''Static Data'') ''ExperiencedRidersOnly''
      = Some (JBool True)"
    "stored_attribute example_update_table (''Lift 1'', ''Static Data'') ''VerticalFeet''
      = Some (JNumber 2500)"
    "stored_attribute example_update_table (''Lift 1'', ''01/03/20'') ''TotalUniqueLiftRiders''
      = Some (JNumber 500)"
    "stored_attribute example_update_table (''Lift 1'', ''01/03/20'') ''LiftStatus''
      = Some (JString ''Open'')"
    by (simp_all add: stored_attribute_def example_update_table_def example_static_def
        example_dynamic_def)
  have pv: "provided_static_fields
        \<lparr>us_ExperiencedRidersOnly = Some False, us_VerticalFeet = None, us_LiftTime = None\<rparr>
      = [(''ExperiencedRidersOnly'', JBool False)]"
    "provided_dynamic_fields
        \<lparr>ud_TotalUniqueLiftRiders = Some 0, ud_AverageSnowCoverageInches = None,
         ud_LiftStatus = None, ud_AvalancheDanger = None\<rparr>
      = [(''TotalUniqueLiftRiders'', JNumber 0)]"
    by (simp_all add: provided_static_fields_def provided_dynamic_fields_def)
  show ?thesis
    using update_fields_by_presence [where sd =
      "\<lparr>us_ExperiencedRidersOnly = Some False, us_VerticalFeet = None, us_LiftTime = None\<rparr>"
      and dd = "\<lparr>ud_TotalUniqueLiftRiders = Some 0, ud_AverageSnowCoverageInches = None,
         ud_LiftStatus = None, ud_AvalancheDanger = None\<rparr>"
      and lift = "''Lift 1''" and metadata = "''01/03/20''" and tbl = example_update_table
      and send = recording_client and st = "[]"
      and es = "[''#experiencedRidersOnly = :experiencedRidersOnly'']"
      and vs = "['':experiencedRidersOnly'' \<mapsto> JBool False]"
      and ns = "[''#experiencedRidersOnly'' \<mapsto> ''ExperiencedRidersOnly'']"
      and ed = "[''#totalUniqueLiftRiders = :totalUniqueLiftRiders'']"
      and vd = "['':totalUniqueLiftRiders'' \<mapsto> JNumber 0]"
      and nd = "[''#totalUniqueLiftRiders'' \<mapsto> ''TotalUniqueLiftRiders'']"]
    by (simp add: wf fs fd before pv recording_client_def no_output_def)
qed

text \<open>
  C4. On the reference store, \<open>updateStaticData\<close> at a key (lift, "Static Data") and
  \<open>updateDynamicData\<close> at a key (lift, metadata) that hold a record, with at least
  one field provided: the returned record is the stored record overridden by the
  provided fields and nothing else. It is the record the table holds at the key
  afterwards, every other key of the table holds what it held, and every attribute
  that is not provided, the two key attributes among them, has its former value.
\<close>

theorem update_changes_only_provided_fields:
  assumes "wf_table tbl"
  shows "(map_of tbl (lift, ''Static Data'') = Some old_s \<and> provided_static_fields sd \<noteq> [] \<longrightarrow>
        updateStaticData ddb_send lift sd tbl =
          (Inr (Some (old_s ++ map_of (provided_static_fields sd))),
           AList.update (lift, ''Static Data'') (old_s ++ map_of (provided_static_fields sd)) tbl)
        \<and> map_of (snd (updateStaticData ddb_send lift sd tbl)) =
            (map_of tbl)((lift, ''Static Data'') \<mapsto> old_s ++ map_of (provided_static_fields sd))
        \<and> primary_key (old_s ++ map_of (provided_static_fields sd))
            = Some (lift, ''Static Data''))
   \<and> (\<forall>a. a \<notin> fst ` set (provided_static_fields sd) \<longrightarrow>
          (old_s ++ map_of (provided_static_fields sd)) a = old_s a)
   \<and> (\<forall>(a, x) \<in> set (provided_static_fields sd).
          (old_s ++ map_of (provided_static_fields sd)) a = Some x)
   \<and> (map_of tbl (lift, metadata) = Some old_d \<and> provided_dynamic_fields dd \<noteq> [] \<longrightarrow>
        updateDynamicData ddb_send lift metadata dd tbl =
          (Inr (Some (old_d ++ map_of (provided_dynamic_fields dd))),
           AList.update (lift, metadata) (old_d ++ map_of (provided_dynamic_fields dd)) tbl)
        \<and> map_of (snd (updateDynamicData ddb_send lift metadata dd tbl)) =
            (map_of tbl)((lift, metadata) \<mapsto> old_d ++ map_of (provided_dynamic_fields dd))
        \<and> primary_key (old_d ++ map_of (provided_dynamic_fields dd)) = Some (lift, metadata))
   \<and> (\<forall>a. a \<notin> fst ` set (provided_dynamic_fields dd) \<longrightarrow>
          (old_d ++ map_of (provided_dynamic_fields dd)) a = old_d a)
   \<and> (\<forall>(a, x) \<in> set (provided_dynamic_fields dd).
          (old_d ++ map_of (provided_dynamic_fields dd)) a = Some x)"
proof -
  have s: "updateStaticData ddb_send lift sd tbl =
          (Inr (Some (old_s ++ map_of (provided_static_fields sd))),
           AList.update (lift, ''Static Data'') (old_s ++ map_of (provided_static_fields sd)) tbl)
        \<and> map_of (snd (updateStaticData ddb_send lift sd tbl)) =
            (map_of tbl)((lift, ''Static Data'') \<mapsto> old_s ++ map_of (provided_static_fields sd))
        \<and> primary_key (old_s ++ map_of (provided_static_fields sd))
            = Some (lift, ''Static Data'')"
    if old: "map_of tbl (lift, ''Static Data'') = Some old_s"
      and ne: "provided_static_fields sd \<noteq> []"
  proof -
    note w = wf_table_lookup [OF assms old]
    from w have l: "lift \<noteq> []"
      by (auto dest: primary_key_nonempty)
    have s1: "updateStaticData ddb_send lift sd tbl =
          (Inr (Some (old_s ++ map_of (provided_static_fields sd))),
           AList.update (lift, ''Static Data'') (old_s ++ map_of (provided_static_fields sd)) tbl)"
      using l ne conjunct2 [OF w] by (rule updateStaticData_on_store) (simp add: old)
    have s2: "primary_key (old_s ++ map_of (provided_static_fields sd))
        = Some (lift, ''Static Data'')"
      using w by (simp add: primary_key_def map_add_def static_fields_lookup)
    show ?thesis
      by (simp add: s1 s2 update_conv')
  qed
  have d: "updateDynamicData ddb_send lift metadata dd tbl =
          (Inr (Some (old_d ++ map_of (provided_dynamic_fields dd))),
           AList.update (lift, metadata) (old_d ++ map_of (provided_dynamic_fields dd)) tbl)
        \<and> map_of (snd (updateDynamicData ddb_send lift metadata dd tbl)) =
            (map_of tbl)((lift, metadata) \<mapsto> old_d ++ map_of (provided_dynamic_fields dd))
        \<and> primary_key (old_d ++ map_of (provided_dynamic_fields dd)) = Some (lift, metadata)"
    if old: "map_of tbl (lift, metadata) = Some old_d"
      and ne: "provided_dynamic_fields dd \<noteq> []"
  proof -
    note w = wf_table_lookup [OF assms old]
    from w have l: "lift \<noteq> []" "metadata \<noteq> []"
      by (auto dest: primary_key_nonempty)
    have d1: "updateDynamicData ddb_send lift metadata dd tbl =
          (Inr (Some (old_d ++ map_of (provided_dynamic_fields dd))),
           AList.update (lift, metadata) (old_d ++ map_of (provided_dynamic_fields dd)) tbl)"
      using l ne conjunct2 [OF w] by (rule updateDynamicData_on_store) (simp add: old)
    have d2: "primary_key (old_d ++ map_of (provided_dynamic_fields dd)) = Some (lift, metadata)"
      using w by (simp add: primary_key_def map_add_def dynamic_fields_lookup)
    show ?thesis
      by (simp add: d1 d2 update_conv')
  qed
  have s3: "\<forall>a. a \<notin> fst ` set (provided_static_fields sd) \<longrightarrow>
          (old_s ++ map_of (provided_static_fields sd)) a = old_s a"
    by (auto simp add: map_add_def split: option.splits dest: map_of_SomeD intro: rev_image_eqI)
  have d3: "\<forall>a. a \<notin> fst ` set (provided_dynamic_fields dd) \<longrightarrow>
          (old_d ++ map_of (provided_dynamic_fields dd)) a = old_d a"
    by (auto simp add: map_add_def split: option.splits dest: map_of_SomeD intro: rev_image_eqI)
  have s4: "\<forall>(a, x) \<in> set (provided_static_fields sd).
          (old_s ++ map_of (provided_static_fields sd)) a = Some x"
    using static_fields_names(1) [of sd] by (auto simp add: map_add_def)
  have d4: "\<forall>(a, x) \<in> set (provided_dynamic_fields dd).
          (old_d ++ map_of (provided_dynamic_fields dd)) a = Some x"
    using dynamic_fields_names(1) [of dd] by (auto simp add: map_add_def)
  from s d s3 d3 s4 d4 show ?thesis
    by blast
qed

theorem update_changes_only_provided_fields_witness:
  "wf_table example_table
   \<and> map_of example_table (''Lift 1'', ''Static Data'') = Some example_static
   \<and> provided_static_fields
        \<lparr>us_ExperiencedRidersOnly = None, us_VerticalFeet = Some 3000, us_LiftTime = None\<rparr> \<noteq> []
   \<and> map_of example_table (''Lift 1'', ''01/03/20'')
        = Some (example_dynamic ''Lift 1'' ''01/03/20'' 500)
   \<and> provided_dynamic_fields
        \<lparr>ud_TotalUniqueLiftRiders = Some 0, ud_AverageSnowCoverageInches = None,
         ud_LiftStatus = Some ''Closed'', ud_AvalancheDanger = None\<rparr> \<noteq> []
   \<and> fst (updateStaticData ddb_send ''Lift 1''
        \<lparr>us_ExperiencedRidersOnly = None, us_VerticalFeet = Some 3000, us_LiftTime = None\<rparr>
        example_table)
      = Inr (Some (example_static(''VerticalFeet'' \<mapsto> JNumber 3000)))
   \<and> fst (updateDynamicData ddb_send ''Lift 1'' ''01/03/20''
        \<lparr>ud_TotalUniqueLiftRiders = Some 0, ud_AverageSnowCoverageInches = None,
         ud_LiftStatus = Some ''Closed'', ud_AvalancheDanger = None\<rparr> example_table)
      = Inr (Some ((example_dynamic ''Lift 1'' ''01/03/20'' 500)
               (''LiftStatus'' \<mapsto> JString ''Closed'', ''TotalUniqueLiftRiders'' \<mapsto> JNumber 0)))"
proof -
  have h2: "map_of example_table (''Lift 1'', ''Static Data'') = Some example_static"
    by (simp add: example_table_def)
  have h3: "provided_static_fields
        \<lparr>us_ExperiencedRidersOnly = None, us_VerticalFeet = Some 3000, us_LiftTime = None\<rparr> \<noteq> []"
    by (simp add: provided_static_fields_def)
  have h4: "map_of example_table (''Lift 1'', ''01/03/20'')
        = Some (example_dynamic ''Lift 1'' ''01/03/20'' 500)"
    by (simp add: example_table_def)
  have h5: "provided_dynamic_fields
        \<lparr>ud_TotalUniqueLiftRiders = Some 0, ud_AverageSnowCoverageInches = None,
         ud_LiftStatus = Some ''Closed'', ud_AvalancheDanger = None\<rparr> \<noteq> []"
    by (simp add: provided_dynamic_fields_def)
  show ?thesis
    using wf_example_table h2 h3 h4 h5
      update_changes_only_provided_fields [OF wf_example_table, where lift = "''Lift 1''"
        and metadata = "''01/03/20''" and old_s = example_static
        and old_d = "example_dynamic ''Lift 1'' ''01/03/20'' 500"
        and sd = "\<lparr>us_ExperiencedRidersOnly = None, us_VerticalFeet = Some 3000,
          us_LiftTime = None\<rparr>"
        and dd = "\<lparr>ud_TotalUniqueLiftRiders = Some 0, ud_AverageSnowCoverageInches = None,
          ud_LiftStatus = Some ''Closed'', ud_AvalancheDanger = None\<rparr>"]
    by (simp add: provided_static_fields_def provided_dynamic_fields_def)
qed

text \<open>
  C5. \<open>updateStaticData\<close> and \<open>updateDynamicData\<close> with no field provided, for
  every client and every state of the store: the result is the storage failure
  \<open>DynamoDBError\<close> with the message "No fields to update" and status 500 (which the
  route replies as 500), and the state of the store is the one before the call: no
  command is sent.
\<close>

theorem update_without_fields_fails:
  "updateStaticData send lift
      \<lparr>us_ExperiencedRidersOnly = None, us_VerticalFeet = None, us_LiftTime = None\<rparr> st
     = (Inl (DynamoDBError ''No fields to update'' None), st)
   \<and> updateDynamicData send lift metadata
      \<lparr>ud_TotalUniqueLiftRiders = None, ud_AverageSnowCoverageInches = None,
       ud_LiftStatus = None, ud_AvalancheDanger = None\<rparr> st
     = (Inl (DynamoDBError ''No fields to update'' None), st)
   \<and> name (DynamoDBError ''No fields to update'' None) = ''DynamoDBError''
   \<and> message (DynamoDBError ''No fields to update'' None) = ''No fields to update''
   \<and> statusCode (DynamoDBError ''No fields to update'' None) = 500
   \<and> reply_status (AppErr (DynamoDBError ''No fields to update'' None)) = 500"
  by (simp add: updateStaticData_def updateStaticData_fields_def updateDynamicData_def
      updateDynamicData_fields_def DynamoDBError_def reply_status_def)

text \<open>
  C10. \<open>updateStaticData\<close> and \<open>updateDynamicData\<close> raise no not-found failure:
  for every client, a failure they raise is a \<open>DynamoDBError\<close> with status 500. On
  the reference store, at a key of non-empty strings that holds no record and with at
  least one field provided, the update creates the record made of the two key attributes
  and the provided fields, and returns it.
\<close>

theorem update_of_absent_record_creates_it:
  "(lift \<noteq> [] \<and> map_of tbl (lift, ''Static Data'') = None
      \<and> provided_static_fields sd \<noteq> [] \<longrightarrow>
        updateStaticData ddb_send lift sd tbl =
          (Inr (Some (key_item lift ''Static Data'' ++ map_of (provided_static_fields sd))),
           AList.update (lift, ''Static Data'')
             (key_item lift ''Static Data'' ++ map_of (provided_static_fields sd)) tbl)
        \<and> map_of (snd (updateStaticData ddb_send lift sd tbl)) (lift, ''Static Data'')
            = Some (key_item lift ''Static Data'' ++ map_of (provided_static_fields sd)))
   \<and> dom (key_item lift ''Static Data'' ++ map_of (provided_static_fields sd))
       = {''Lift'', ''Metadata''} \<union> fst ` set (provided_static_fields sd)
   \<and> (lift \<noteq> [] \<and> metadata \<noteq> [] \<and> map_of tbl (lift, metadata) = None
      \<and> provided_dynamic_fields dd \<noteq> [] \<longrightarrow>
        updateDynamicData ddb_send lift metadata dd tbl =
          (Inr (Some (key_item lift metadata ++ map_of (provided_dynamic_fields dd))),
           AList.update (lift, metadata)
             (key_item lift metadata ++ map_of (provided_dynamic_fields dd)) tbl)
        \<and> map_of (snd (updateDynamicData ddb_send lift metadata dd tbl)) (lift, metadata)
            = Some (key_item lift metadata ++ map_of (provided_dynamic_fields dd)))
   \<and> dom (key_item lift metadata ++ map_of (provided_dynamic_fields dd))
       = {''Lift'', ''Metadata''} \<union> fst ` set (provided_dynamic_fields dd)
   \<and> (\<forall>e. fst (updateStaticData send lift sd st) = Inl e \<longrightarrow>
          name e = ''DynamoDBError'' \<and> name e \<noteq> ''NotFoundError'' \<and> statusCode e = 500)
   \<and> (\<forall>e. fst (updateDynamicData send lift metadata dd st) = Inl e \<longrightarrow>
          name e = ''DynamoDBError'' \<and> name e \<noteq> ''NotFoundError'' \<and> statusCode e = 500)"
proof -
  have s: "updateStaticData ddb_send lift sd tbl =
          (Inr (Some (key_item lift ''Static Data'' ++ map_of (provided_static_fields sd))),
           AList.update (lift, ''Static Data'')
             (key_item lift ''Static Data'' ++ map_of (provided_static_fields sd)) tbl)
        \<and> map_of (snd (updateStaticData ddb_send lift sd tbl)) (lift, ''Static Data'')
            = Some (key_item lift ''Static Data'' ++ map_of (provided_static_fields sd))"
    if l: "lift \<noteq> []" and none: "map_of tbl (lift, ''Static Data'') = None"
      and ne: "provided_static_fields sd \<noteq> []"
  proof -
    have s1: "updateStaticData ddb_send lift sd tbl =
          (Inr (Some (key_item lift ''Static Data'' ++ map_of (provided_static_fields sd))),
           AList.update (lift, ''Static Data'')
             (key_item lift ''Static Data'' ++ map_of (provided_static_fields sd)) tbl)"
      using l ne index_key_ok_key_item
      by (rule updateStaticData_on_store) (simp add: none)
    show ?thesis
      by (simp add: s1 update_conv')
  qed
  have d: "updateDynamicData ddb_send lift metadata dd tbl =
          (Inr (Some (key_item lift metadata ++ map_of (provided_dynamic_fields dd))),
           AList.update (lift, metadata)
             (key_item lift metadata ++ map_of (provided_dynamic_fields dd)) tbl)
        \<and> map_of (snd (updateDynamicData ddb_send lift metadata dd tbl)) (lift, metadata)
            = Some (key_item lift metadata ++ map_of (provided_dynamic_fields dd))"
    if l: "lift \<noteq> []" "metadata \<noteq> []" and none: "map_of tbl (lift, metadata) = None"
      and ne: "provided_dynamic_fields dd \<noteq> []"
  proof -
    have d1: "updateDynamicData ddb_send lift metadata dd tbl =
          (Inr (Some (key_item lift metadata ++ map_of (provided_dynamic_fields dd))),
           AList.update (lift, metadata)
             (key_item lift metadata ++ map_of (provided_dynamic_fields dd)) tbl)"
      using l ne index_key_ok_key_item
      by (rule updateDynamicData_on_store) (simp add: none)
    show ?thesis
      by (simp add: d1 update_conv')
  qed
  have s3: "dom (key_item lift ''Static Data'' ++ map_of (provided_static_fields sd))
       = {''Lift'', ''Metadata''} \<union> fst ` set (provided_static_fields sd)"
    by (auto simp add: key_item_def dom_map_of_conv_image_fst)
  have d3: "dom (key_item lift metadata ++ map_of (provided_dynamic_fields dd))
       = {''Lift'', ''Metadata''} \<union> fst ` set (provided_dynamic_fields dd)"
    by (auto simp add: key_item_def dom_map_of_conv_image_fst)
  have s4: "\<forall>e. fst (updateStaticData send lift sd st) = Inl e \<longrightarrow>
          name e = ''DynamoDBError'' \<and> name e \<noteq> ''NotFoundError'' \<and> statusCode e = 500"
    by (auto simp add: updateStaticData_def DynamoDBError_def
        split: prod.splits if_splits sum.splits)
  have d4: "\<forall>e. fst (updateDynamicData send lift metadata dd st) = Inl e \<longrightarrow>
          name e = ''DynamoDBError'' \<and> name e \<noteq> ''NotFoundError'' \<and> statusCode e = 500"
    by (auto simp add: updateDynamicData_def DynamoDBError_def
        split: prod.splits if_splits sum.splits)
  from s d s3 d3 s4 d4 show ?thesis
    by blast
qed

theorem update_of_absent_record_creates_it_witness:
  "''Lift 3'' \<noteq> [] \<and> ''01/05/20'' \<noteq> []
   \<and> map_of example_table (''Lift 3'', ''Static Data'') = None
   \<and> provided_static_fields
        \<lparr>us_ExperiencedRidersOnly = None, us_VerticalFeet = Some 3000, us_LiftTime = None\<rparr> \<noteq> []
   \<and> map_of example_table (''Lift 3'', ''01/05/20'') = None
   \<and> provided_dynamic_fields
        \<lparr>ud_TotalUniqueLiftRiders = None, ud_AverageSnowCoverageInches = None,
         ud_LiftStatus = Some ''Closed'', ud_AvalancheDanger = None\<rparr> \<noteq> []
   \<and> fst (updateStaticData ddb_send ''Lift 3''
        \<lparr>us_ExperiencedRidersOnly = None, us_VerticalFeet = Some 3000, us_LiftTime = None\<rparr>
        example_table)
      = Inr (Some [''Lift'' \<mapsto> JString ''Lift 3'', ''Metadata'' \<mapsto> JString ''Static Data'',
                   ''VerticalFeet'' \<mapsto> JNumber 3000])
   \<and> fst (updateDynamicData ddb_send ''Lift 3'' ''01/05/20''
        \<lparr>ud_TotalUniqueLiftRiders = None, ud_AverageSnowCoverageInches = None,
         ud_LiftStatus = Some ''Closed'', ud_AvalancheDanger = None\<rparr> example_table)
      = Inr (Some [''Lift'' \<mapsto> JString ''Lift 3'', ''Metadata'' \<mapsto> JString ''01/05/20'',
                   ''LiftStatus'' \<mapsto> JString ''Closed''])
   \<and> fst (getSkiLift ddb_send ''Lift 3'' ''01/05/20''
        (snd (updateDynamicData ddb_send ''Lift 3'' ''01/05/20''
           \<lparr>ud_TotalUniqueLiftRiders = None, ud_AverageSnowCoverageInches = None,
            ud_LiftStatus = Some ''Closed'', ud_AvalancheDanger = None\<rparr> example_table)))
      = Inr [''Lift'' \<mapsto> JString ''Lift 3'', ''Metadata'' \<mapsto> JString ''01/05/20'',
             ''LiftStatus'' \<mapsto> JString ''Closed'']"
proof -
  have h3: "map_of example_table (''Lift 3'', ''Static Data'') = None"
    by (simp add: example_table_def)
  have h4: "provided_static_fields
        \<lparr>us_ExperiencedRidersOnly = None, us_VerticalFeet = Some 3000, us_LiftTime = None\<rparr> \<noteq> []"
    by (simp add: provided_static_fields_def)
  have h5: "map_of example_table (''Lift 3'', ''01/05/20'') = None"
    by (simp add: example_table_def)
  have h6: "provided_dynamic_fields
        \<lparr>ud_TotalUniqueLiftRiders = None, ud_AverageSnowCoverageInches = None,
         ud_LiftStatus = Some ''Closed'', ud_AvalancheDanger = None\<rparr> \<noteq> []"
    by (simp add: provided_dynamic_fields_def)
  note t = update_of_absent_record_creates_it [where lift = "''Lift 3''"
      and metadata = "''01/05/20''" and tbl = example_table and send = ddb_send and st = "[]"
      and sd = "\<lparr>us_ExperiencedRidersOnly = None, us_VerticalFeet = Some 3000,
        us_LiftTime = None\<rparr>"
      and dd = "\<lparr>ud_TotalUniqueLiftRiders = None, ud_AverageSnowCoverageInches = None,
        ud_LiftStatus = Some ''Closed'', ud_AvalancheDanger = None\<rparr>"]
  have g: "fst (getSkiLift ddb_send ''Lift 3'' ''01/05/20''
        (snd (updateDynamicData ddb_send ''Lift 3'' ''01/05/20''
           \<lparr>ud_TotalUniqueLiftRiders = None, ud_AverageSnowCoverageInches = None,
            ud_LiftStatus = Some ''Closed'', ud_AvalancheDanger = None\<rparr> example_table)))
      = Inr (key_item ''Lift 3'' ''01/05/20'' ++ map_of (provided_dynamic_fields
           \<lparr>ud_TotalUniqueLiftRiders = None, ud_AverageSnowCoverageInches = None,
            ud_LiftStatus = Some ''Closed'', ud_AvalancheDanger = None\<rparr>))"
    using t h5 h6 by (simp add: getSkiLift_cases ddb_get_key no_output_def update_conv')
  show ?thesis
    using h3 h4 h5 h6 t g
    by (simp add: provided_static_fields_def provided_dynamic_fields_def key_item_def)
qed

subsection \<open>Queries\<close>

lemma riders_in_range_alt:
  "riders_in_range lo hi =
     (\<lambda>it. case riders it of
              None \<Rightarrow> False
            | Some x \<Rightarrow>
                (case lo of None \<Rightarrow> True | Some a \<Rightarrow> a \<le> x) \<and>
                (case hi of None \<Rightarrow> True | Some b \<Rightarrow> x \<le> b))"
  by (simp add: riders_in_range_def fun_eq_iff)

lemma queryByRiders_on_store:
  assumes "lift \<noteq> []" and "valid_limit (qr_limit q)" and "bounds_ordered q"
    and "rows = rev (filter (riders_in_range (minRiders q) (maxRiders q)) (index_rows lift tbl))"
  shows "queryByRiders ddb_send lift q tbl =
     (Inr \<lparr>items = take (nat \<lfloor>qr_limit q\<rfloor>) rows,
           lastEvaluatedKey =
             cursor_of {''TotalUniqueLiftRiders'', ''Lift'', ''Metadata''} (Some (qr_limit q)) rows,
           count = length (take (nat \<lfloor>qr_limit q\<rfloor>) rows)\<rparr>, tbl)"
proof -
  obtain e vals where c: "queryByRiders_condition lift q = (e, vals)"
    by (cases "queryByRiders_condition lift q")
  have "\<exists>c rc. parse_key_condition (lex e) = Some (''Lift'', '':lift'', c)
      \<and> vals '':lift'' = Some (JString lift)
      \<and> resolve_cond True ''TotalUniqueLiftRiders'' (Some vals) c = Some rc
      \<and> (\<forall>x. rcond_holds rc (JNumber x) =
            ((case minRiders q of None \<Rightarrow> True | Some a \<Rightarrow> a \<le> x) \<and>
             (case maxRiders q of None \<Rightarrow> True | Some b \<Rightarrow> x \<le> b)))"
    using c assms(3)
    by (cases "minRiders q"; cases "maxRiders q")
       (auto simp add: queryByRiders_condition_def bounds_ordered_def lex_def
          resolve_value_def comparators_def)
  then obtain c rc where p: "parse_key_condition (lex e) = Some (''Lift'', '':lift'', c)"
    and v: "vals '':lift'' = Some (JString lift)"
    and r: "resolve_cond True ''TotalUniqueLiftRiders'' (Some vals) c = Some rc"
    and h: "\<And>x. rcond_holds rc (JNumber x) =
            ((case minRiders q of None \<Rightarrow> True | Some a \<Rightarrow> a \<le> x) \<and>
             (case maxRiders q of None \<Rightarrow> True | Some b \<Rightarrow> x \<le> b))"
    by blast
  have rows: "rows = rev (filter (\<lambda>it. case riders it of None \<Rightarrow> False | Some x \<Rightarrow>
            ((case minRiders q of None \<Rightarrow> True | Some a \<Rightarrow> a \<le> x) \<and>
             (case maxRiders q of None \<Rightarrow> True | Some b \<Rightarrow> x \<le> b))) (index_rows lift tbl))"
    unfolding assms(4) riders_in_range_alt ..
  show ?thesis
    using c ddb_query_index [OF assms(1,2) p v r h rows]
    by (simp add: queryByRiders_def paginated_def no_output_def)
qed

lemma queryByRiders_failure:
  assumes "\<not> (lift \<noteq> [] \<and> valid_limit (qr_limit q) \<and> bounds_ordered q)"
  shows "isl (fst (queryByRiders ddb_send lift q tbl))"
  using assms
  by (cases "minRiders q"; cases "maxRiders q")
     (auto simp add: queryByRiders_def queryByRiders_condition_def bounds_ordered_def
        ddb_send_def ddb_query_def new_params_def lex_def resolve_value_def comparators_def
        TABLE_NAME_def GSI_NAME_def Let_def)

text \<open>
  C6, as the specification states it, fails on the reference store: two daily records of
  one lift with the same number of riders are returned next to each other, so the
  result is not in strictly descending order.
\<close>

theorem queryByRiders_strictly_descending_counterexample:
  "rider_counts (fst (queryByRiders ddb_send ''Lift 1''
       \<lparr>minRiders = None, maxRiders = None, qr_limit = 20\<rparr> example_table))
     = [1000, 1000, 500]
   \<and> \<not> sorted_wrt (\<lambda>x y. y < x)
        (rider_counts (fst (queryByRiders ddb_send ''Lift 1''
           \<lparr>minRiders = None, maxRiders = None, qr_limit = 20\<rparr> example_table)))"
proof -
  have all: "filter (riders_in_range None None) (index_rows ''Lift 1'' example_table)
      = index_rows ''Lift 1'' example_table"
    by (rule filter_True) (auto dest: index_rows_riders simp add: riders_in_range_def)
  have "queryByRiders ddb_send ''Lift 1''
       \<lparr>minRiders = None, maxRiders = None, qr_limit = 20\<rparr> example_table
     = (Inr \<lparr>items = take (nat \<lfloor>20::real\<rfloor>) (rev (index_rows ''Lift 1'' example_table)),
           lastEvaluatedKey =
             cursor_of {''TotalUniqueLiftRiders'', ''Lift'', ''Metadata''} (Some 20)
               (rev (index_rows ''Lift 1'' example_table)),
           count = length (take (nat \<lfloor>20::real\<rfloor>) (rev (index_rows ''Lift 1'' example_table)))\<rparr>,
        example_table)"
    using queryByRiders_on_store [where lift = "''Lift 1''" and tbl = example_table
        and q = "\<lparr>minRiders = None, maxRiders = None, qr_limit = 20\<rparr>", OF _ _ _ refl]
    by (simp add: valid_limit_def bounds_ordered_def all)
  then have "rider_counts (fst (queryByRiders ddb_send ''Lift 1''
       \<lparr>minRiders = None, maxRiders = None, qr_limit = 20\<rparr> example_table))
     = rev (map rider_count (index_rows ''Lift 1'' example_table))"
    using example_index_rows(1) [THEN arg_cong, of length]
    by (simp add: rider_counts_def rev_map)
  then show ?thesis
    by (simp add: example_index_rows(1))
qed

text \<open>
  C6, amended. \<open>queryByRiders\<close> on the reference store. For a lift name that is not
  empty, a valid limit and a lower bound that is not above the upper bound when both are
  given, the result is the first \<open>limit\<close> entries of the index for the lift whose
  rider count satisfies each bound that is given (both: the closed range; one: that
  inequality alone; none: every entry), in descending order of the rider count. Whenever
  the operation returns a page, its items satisfy the given bounds and are in descending
  order; entries with equal counts follow each other, so the order is not strict.
\<close>

theorem queryByRiders_range_descending:
  "(lift \<noteq> [] \<and> valid_limit (qr_limit q) \<and> bounds_ordered q \<longrightarrow>
      queryByRiders ddb_send lift q tbl =
       (Inr \<lparr>items = take (nat \<lfloor>qr_limit q\<rfloor>)
               (rev (filter (riders_in_range (minRiders q) (maxRiders q)) (index_rows lift tbl))),
             lastEvaluatedKey =
               cursor_of {''TotalUniqueLiftRiders'', ''Lift'', ''Metadata''} (Some (qr_limit q))
                 (rev (filter (riders_in_range (minRiders q) (maxRiders q))
                    (index_rows lift tbl))),
             count = length (take (nat \<lfloor>qr_limit q\<rfloor>)
               (rev (filter (riders_in_range (minRiders q) (maxRiders q))
                  (index_rows lift tbl))))\<rparr>, tbl))
   \<and> (minRiders q = None \<and> maxRiders q = None \<longrightarrow>
        filter (riders_in_range (minRiders q) (maxRiders q)) (index_rows lift tbl)
          = index_rows lift tbl)
   \<and> riders_in_range (Some a) (Some b) it = (\<exists>x. riders it = Some x \<and> a \<le> x \<and> x \<le> b)
   \<and> riders_in_range (Some a) None it = (\<exists>x. riders it = Some x \<and> a \<le> x)
   \<and> riders_in_range None (Some b) it = (\<exists>x. riders it = Some x \<and> x \<le> b)
   \<and> (\<forall>r. fst (queryByRiders ddb_send lift q tbl) = Inr r \<longrightarrow>
          (\<forall>it \<in> set (items r). riders_in_range (minRiders q) (maxRiders q) it)
          \<and> sorted_wrt (\<lambda>x y. y \<le> x) (map rider_count (items r))
          \<and> length (items r) \<le> nat \<lfloor>qr_limit q\<rfloor>)"
proof -
  have a: "lift \<noteq> [] \<and> valid_limit (qr_limit q) \<and> bounds_ordered q \<longrightarrow>
      queryByRiders ddb_send lift q tbl =
       (Inr \<lparr>items = take (nat \<lfloor>qr_limit q\<rfloor>)
               (rev (filter (riders_in_range (minRiders q) (maxRiders q)) (index_rows lift tbl))),
             lastEvaluatedKey =
               cursor_of {''TotalUniqueLiftRiders'', ''Lift'', ''Metadata''} (Some (qr_limit q))
                 (rev (filter (riders_in_range (minRiders q) (maxRiders q))
                    (index_rows lift tbl))),
             count = length (take (nat \<lfloor>qr_limit q\<rfloor>)
               (rev (filter (riders_in_range (minRiders q) (maxRiders q))
                  (index_rows lift tbl))))\<rparr>, tbl)"
    using queryByRiders_on_store [of lift q _ tbl, OF _ _ _ refl] by blast
  have b: "minRiders q = None \<and> maxRiders q = None \<longrightarrow>
        filter (riders_in_range (minRiders q) (maxRiders q)) (index_rows lift tbl)
          = index_rows lift tbl"
    by (auto intro!: filter_True dest: index_rows_riders simp add: riders_in_range_def)
  have c: "riders_in_range (Some a) (Some b) it = (\<exists>x. riders it = Some x \<and> a \<le> x \<and> x \<le> b)"
    "riders_in_range (Some a) None it = (\<exists>x. riders it = Some x \<and> a \<le> x)"
    "riders_in_range None (Some b) it = (\<exists>x. riders it = Some x \<and> x \<le> b)"
    by (simp_all add: riders_in_range_def split: option.splits)
  have d: "\<forall>r. fst (queryByRiders ddb_send lift q tbl) = Inr r \<longrightarrow>
          (\<forall>it \<in> set (items r). riders_in_range (minRiders q) (maxRiders q) it)
          \<and> sorted_wrt (\<lambda>x y. y \<le> x) (map rider_count (items r))
          \<and> length (items r) \<le> nat \<lfloor>qr_limit q\<rfloor>"
  proof (intro allI impI)
    fix r assume r: "fst (queryByRiders ddb_send lift q tbl) = Inr r"
    have ok: "lift \<noteq> [] \<and> valid_limit (qr_limit q) \<and> bounds_ordered q"
      using queryByRiders_failure [of lift q tbl] r by auto
    have i: "items r = take (nat \<lfloor>qr_limit q\<rfloor>)
        (rev (filter (riders_in_range (minRiders q) (maxRiders q)) (index_rows lift tbl)))"
      using queryByRiders_on_store [of lift q _ tbl, OF _ _ _ refl] ok r by auto
    show "(\<forall>it \<in> set (items r). riders_in_range (minRiders q) (maxRiders q) it)
          \<and> sorted_wrt (\<lambda>x y. y \<le> x) (map rider_count (items r))
          \<and> length (items r) \<le> nat \<lfloor>qr_limit q\<rfloor>"
      unfolding i
      using descending_page [OF index_rows_sorted]
      by (auto dest!: in_set_takeD)
  qed
  show ?thesis
    by (intro conjI a b c d)
qed

theorem queryByRiders_range_descending_witness:
  "''Lift 1'' \<noteq> [] \<and> valid_limit 20
   \<and> bounds_ordered \<lparr>minRiders = Some 600, maxRiders = Some 1000, qr_limit = 20\<rparr>
   \<and> rider_counts (fst (queryByRiders ddb_send ''Lift 1''
        \<lparr>minRiders = Some 600, maxRiders = Some 1000, qr_limit = 20\<rparr> example_table))
      = [1000, 1000]"
proof -
  have h: "''Lift 1'' \<noteq> []" "valid_limit 20"
    "bounds_ordered \<lparr>minRiders = Some 600, maxRiders = Some 1000, qr_limit = 20\<rparr>"
    by (simp_all add: valid_limit_def bounds_ordered_def)
  have f: "rev (filter (riders_in_range (Some 600) (Some 1000)) (index_rows ''Lift 1'' example_table))
      = rev (tl (index_rows ''Lift 1'' example_table))"
    using example_index_rows(2) [of "Some 600" "Some 1000"]
    by (cases "index_rows ''Lift 1'' example_table")
       (auto simp add: riders_in_range_def riders_def example_dynamic_def)
  have l: "map rider_count (rev (tl (index_rows ''Lift 1'' example_table))) = [1000, 1000]"
    by (simp only: rev_map [symmetric] map_tl example_index_rows(1)) simp
  have "length (map rider_count (rev (tl (index_rows ''Lift 1'' example_table)))) = 2"
    unfolding l by simp
  then have t: "take 20 (rev (tl (index_rows ''Lift 1'' example_table)))
      = rev (tl (index_rows ''Lift 1'' example_table))"
    by simp
  show ?thesis
    using h queryByRiders_range_descending [where tbl = example_table and lift = "''Lift 1''"
        and a = 0 and b = 0 and it = Map.empty
        and q = "\<lparr>minRiders = Some 600, maxRiders = Some 1000, qr_limit = 20\<rparr>"]
    by (simp add: rider_counts_def f t l)
qed

lemma queryLiftData_on_store:
  assumes "wf_table tbl" and "lift \<noteq> []" and "valid_limit l"
  shows "queryLiftData ddb_send lift (Some l) tbl =
     (Inr \<lparr>items = take (nat \<lfloor>l\<rfloor>) (table_rows lift tbl),
           lastEvaluatedKey = cursor_of {''Lift'', ''Metadata''} (Some l) (table_rows lift tbl),
           count = length (take (nat \<lfloor>l\<rfloor>) (table_rows lift tbl))\<rparr>, tbl)"
proof -
  have s: "insert ''Metadata'' {''Lift'', ''Metadata''} = {''Lift'', ''Metadata''}"
    by auto
  show ?thesis
    using assms(2,3)
    by (simp add: queryLiftData_def ddb_send_def ddb_query_def new_params_def lex_def
        resolve_value_def page_of_def paginated_def no_output_def Let_def
        table_rows_filter [OF assms(1)] s)
qed

lemma queryLiftData_failure:
  assumes "\<not> (lift \<noteq> [] \<and> valid_limit l)"
  shows "isl (fst (queryLiftData ddb_send lift (Some l) tbl))"
  using assms
  by (auto simp add: queryLiftData_def ddb_send_def ddb_query_def new_params_def lex_def
      resolve_value_def Let_def)

text \<open>
  C8, as the specification states it, fails: in the order of the bytes of the strings a
  digit comes before the letter S, so the static record of a lift is the last item of
  the query, after the daily records, and "Static Data" does not sort before
  "01/01/20". Nor is the order that of the dates: the first day of 2020 comes before the
  last day of 2019.
\<close>

theorem static_data_sorts_first_counterexample:
  "metadata_keys (fst (queryLiftData ddb_send ''Lift 1'' (Some 20) example_table))
     = [''01/01/20'', ''01/02/20'', ''01/03/20'', ''Static Data'']
   \<and> \<not> (''Static Data'' < ''01/01/20'')
   \<and> metadata_keys (fst (queryLiftData ddb_send ''Lift 2'' (Some 20) example_table))
     = [''01/01/20'', ''12/31/19'']"
proof -
  have "length (map metadata_of (table_rows ''Lift 1'' example_table)) = 4"
    and "length (map metadata_of (table_rows ''Lift 2'' example_table)) = 2"
    unfolding example_table_rows by simp_all
  then have t: "take 20 (table_rows ''Lift 1'' example_table) = table_rows ''Lift 1'' example_table"
    "take 20 (table_rows ''Lift 2'' example_table) = table_rows ''Lift 2'' example_table"
    by simp_all
  have "fst (queryLiftData ddb_send ''Lift 1'' (Some 20) example_table)
      = Inr \<lparr>items = table_rows ''Lift 1'' example_table,
             lastEvaluatedKey =
               cursor_of {''Lift'', ''Metadata''} (Some 20) (table_rows ''Lift 1'' example_table),
             count = length (table_rows ''Lift 1'' example_table)\<rparr>"
    and "fst (queryLiftData ddb_send ''Lift 2'' (Some 20) example_table)
      = Inr \<lparr>items = table_rows ''Lift 2'' example_table,
             lastEvaluatedKey =
               cursor_of {''Lift'', ''Metadata''} (Some 20) (table_rows ''Lift 2'' example_table),
             count = length (table_rows ''Lift 2'' example_table)\<rparr>"
    using queryLiftData_on_store [OF wf_example_table, of "''Lift 1''" 20]
      queryLiftData_on_store [OF wf_example_table, of "''Lift 2''" 20]
    by (simp_all add: valid_limit_def t)
  then show ?thesis
    by (simp add: metadata_keys_def example_table_rows)
qed

text \<open>
  C8, amended. \<open>queryLiftData\<close> on the reference store, whose tables are well formed.
  For a lift name that is not empty and a valid limit (20 when none is given), the
  result is the first \<open>limit\<close> records of the lift in ascending order of the bytes of
  the \<open>Metadata\<close> sort key, with the key of the last returned record as cursor when
  more records remain. Whenever the operation returns a page, it has at most \<open>limit\<close>
  items, in that order. In this order every date string \<open>MM/DD/YY\<close> sorts before
  "Static Data", so the static record of a lift comes after its daily records, and the
  dates are not in the order of time across years: 01/01/20 sorts before 12/31/19.
\<close>

theorem queryLiftData_page_ascending:
  assumes "wf_table tbl"
  shows "(lift \<noteq> [] \<and> valid_limit l \<longrightarrow>
      queryLiftData ddb_send lift (Some l) tbl =
        (Inr \<lparr>items = take (nat \<lfloor>l\<rfloor>) (table_rows lift tbl),
              lastEvaluatedKey = cursor_of {''Lift'', ''Metadata''} (Some l) (table_rows lift tbl),
              count = length (take (nat \<lfloor>l\<rfloor>) (table_rows lift tbl))\<rparr>, tbl)
      \<and> real (nat \<lfloor>l\<rfloor>) = l
      \<and> (nat \<lfloor>l\<rfloor> < length (table_rows lift tbl) \<longrightarrow>
           cursor_of {''Lift'', ''Metadata''} (Some l) (table_rows lift tbl)
             = Some (last (take (nat \<lfloor>l\<rfloor>) (table_rows lift tbl)) |` {''Lift'', ''Metadata''})))
   \<and> queryLiftData send lift None st = queryLiftData send lift (Some 20) st
   \<and> (\<forall>r. fst (queryLiftData ddb_send lift (Some l) tbl) = Inr r \<longrightarrow>
          items r = take (nat \<lfloor>l\<rfloor>) (table_rows lift tbl)
          \<and> length (items r) \<le> nat \<lfloor>l\<rfloor>
          \<and> sorted (map metadata_of (items r)))
   \<and> sorted (map metadata_of (table_rows lift tbl))
   \<and> (\<forall>date. matches_date date \<longrightarrow> date < ''Static Data'')
   \<and> matches_date ''01/01/20'' \<and> matches_date ''12/31/19'' \<and> ''01/01/20'' < ''12/31/19''"
proof -
  have srt: "sorted (map metadata_of (take n (table_rows lift tbl)))" for n
    using table_rows_sorted [OF assms, of lift]
    by (simp add: take_map [symmetric] sorted_wrt_take)
  have a: "lift \<noteq> [] \<and> valid_limit l \<longrightarrow>
      queryLiftData ddb_send lift (Some l) tbl =
        (Inr \<lparr>items = take (nat \<lfloor>l\<rfloor>) (table_rows lift tbl),
              lastEvaluatedKey = cursor_of {''Lift'', ''Metadata''} (Some l) (table_rows lift tbl),
              count = length (take (nat \<lfloor>l\<rfloor>) (table_rows lift tbl))\<rparr>, tbl)
      \<and> real (nat \<lfloor>l\<rfloor>) = l
      \<and> (nat \<lfloor>l\<rfloor> < length (table_rows lift tbl) \<longrightarrow>
           cursor_of {''Lift'', ''Metadata''} (Some l) (table_rows lift tbl)
             = Some (last (take (nat \<lfloor>l\<rfloor>) (table_rows lift tbl)) |` {''Lift'', ''Metadata''}))"
  proof (intro impI, elim conjE)
    assume lift: "lift \<noteq> []" and l: "valid_limit l"
    have a1: "queryLiftData ddb_send lift (Some l) tbl =
        (Inr \<lparr>items = take (nat \<lfloor>l\<rfloor>) (table_rows lift tbl),
              lastEvaluatedKey = cursor_of {''Lift'', ''Metadata''} (Some l) (table_rows lift tbl),
              count = length (take (nat \<lfloor>l\<rfloor>) (table_rows lift tbl))\<rparr>, tbl)"
      using assms lift l by (rule queryLiftData_on_store)
    from l have f: "1 \<le> \<lfloor>l\<rfloor>" and i: "of_int \<lfloor>l\<rfloor> = l"
      by (simp_all add: valid_limit_def le_floor_iff)
    from f i have a2: "real (nat \<lfloor>l\<rfloor>) = l"
      by simp
    have a3: "nat \<lfloor>l\<rfloor> < length (table_rows lift tbl) \<longrightarrow>
           cursor_of {''Lift'', ''Metadata''} (Some l) (table_rows lift tbl)
             = Some (last (take (nat \<lfloor>l\<rfloor>) (table_rows lift tbl)) |` {''Lift'', ''Metadata''})"
    proof
      assume m: "nat \<lfloor>l\<rfloor> < length (table_rows lift tbl)"
      with f have "take (nat \<lfloor>l\<rfloor>) (table_rows lift tbl) \<noteq> []"
        by auto
      then obtain ys y where y: "take (nat \<lfloor>l\<rfloor>) (table_rows lift tbl) = ys @ [y]"
        by (cases "take (nat \<lfloor>l\<rfloor>) (table_rows lift tbl)" rule: rev_cases) auto
      show "cursor_of {''Lift'', ''Metadata''} (Some l) (table_rows lift tbl)
             = Some (last (take (nat \<lfloor>l\<rfloor>) (table_rows lift tbl)) |` {''Lift'', ''Metadata''})"
        using m by (simp add: cursor_of_def y)
    qed
    from a1 a2 a3 show "queryLiftData ddb_send lift (Some l) tbl =
        (Inr \<lparr>items = take (nat \<lfloor>l\<rfloor>) (table_rows lift tbl),
              lastEvaluatedKey = cursor_of {''Lift'', ''Metadata''} (Some l) (table_rows lift tbl),
              count = length (take (nat \<lfloor>l\<rfloor>) (table_rows lift tbl))\<rparr>, tbl)
      \<and> real (nat \<lfloor>l\<rfloor>) = l
      \<and> (nat \<lfloor>l\<rfloor> < length (table_rows lift tbl) \<longrightarrow>
           cursor_of {''Lift'', ''Metadata''} (Some l) (table_rows lift tbl)
             = Some (last (take (nat \<lfloor>l\<rfloor>) (table_rows lift tbl)) |` {''Lift'', ''Metadata''}))"
      by (intro conjI)
  qed
  have b: "queryLiftData send lift None st = queryLiftData send lift (Some 20) st"
    by (simp add: queryLiftData_def)
  have c: "\<forall>r. fst (queryLiftData ddb_send lift (Some l) tbl) = Inr r \<longrightarrow>
          items r = take (nat \<lfloor>l\<rfloor>) (table_rows lift tbl)
          \<and> length (items r) \<le> nat \<lfloor>l\<rfloor>
          \<and> sorted (map metadata_of (items r))"
  proof (intro allI impI)
    fix r assume r: "fst (queryLiftData ddb_send lift (Some l) tbl) = Inr r"
    have ok: "lift \<noteq> [] \<and> valid_limit l"
      using queryLiftData_failure [of lift l tbl] r by auto
    have i: "items r = take (nat \<lfloor>l\<rfloor>) (table_rows lift tbl)"
      using queryLiftData_on_store [OF assms, of lift l] ok r by auto
    show "items r = take (nat \<lfloor>l\<rfloor>) (table_rows lift tbl)
          \<and> length (items r) \<le> nat \<lfloor>l\<rfloor>
          \<and> sorted (map metadata_of (items r))"
      unfolding i using srt by simp
  qed
  have d: "sorted (map metadata_of (table_rows lift tbl))"
    using assms by (rule table_rows_sorted)
  have e: "\<forall>date. matches_date date \<longrightarrow> date < ''Static Data''"
    by (simp add: date_before_static)
  have f: "matches_date ''01/01/20''" "matches_date ''12/31/19''" "''01/01/20'' < ''12/31/19''"
    by (simp_all add: digit_def)
  show ?thesis
    by (intro conjI a b c d e f)
qed

theorem queryLiftData_page_ascending_witness:
  "wf_table example_table \<and> ''Lift 1'' \<noteq> [] \<and> valid_limit 2
   \<and> matches_date ''12/31/99''
   \<and> ''12/31/99'' < ''Static Data''
   \<and> nat \<lfloor>2 :: real\<rfloor> < length (table_rows ''Lift 1'' example_table)
   \<and> metadata_keys (fst (queryLiftData ddb_send ''Lift 1'' (Some 2) example_table))
      = [''01/01/20'', ''01/02/20'']
   \<and> cursor_of {''Lift'', ''Metadata''} (Some 2) (table_rows ''Lift 1'' example_table)
      = Some (last (take (nat \<lfloor>2 :: real\<rfloor>) (table_rows ''Lift 1'' example_table))
               |` {''Lift'', ''Metadata''})"
proof -
  have h: "''Lift 1'' \<noteq> []" "valid_limit 2"
    by (simp_all add: valid_limit_def)
  have len: "length (map metadata_of (table_rows ''Lift 1'' example_table)) = 4"
    unfolding example_table_rows by simp
  have m: "matches_date ''12/31/99''"
    by (simp add: digit_def)
  have k: "map metadata_of (take 2 (table_rows ''Lift 1'' example_table))
      = [''01/01/20'', ''01/02/20'']"
    by (simp add: take_map [symmetric] example_table_rows)
  show ?thesis
    using wf_example_table h m len k
      queryLiftData_page_ascending [OF wf_example_table, where send = ddb_send
        and st = "[]" and lift = "''Lift 1''" and l = 2]
    by (simp add: metadata_keys_def)
qed

subsection \<open>List requests\<close>

text \<open>
  C7. The schema of \<open>limit\<close>: an absent limit becomes 20; a finite number is accepted
  exactly when it is above 0 and at most 100; the limit 0 is refused, and the list route
  then replies 400 for every client without a call to the service (the state of the
  store is the one before). The limit 0.5 lies below 1 and is accepted: the list route
  hands it to the service, the reference store refuses the scan, and the reply is 500.
\<close>

theorem limit_below_one_accepted:
  "limitSchema None = Some 20
   \<and> (limitSchema (Some (Finite x)) \<noteq> None) = (0 < x \<and> x \<le> 100)
   \<and> limitSchema (Some (Finite 0)) = None
   \<and> route_listSkiLifts send
        \<lparr>rq_limit = Some (Finite 0), rq_lastEvaluatedLift = None,
         rq_lastEvaluatedMetadata = None\<rparr> st
      = ((400, ErrorBody (formatErrorResponse ZodError)), st)
   \<and> limitSchema (Some (Finite (1/2))) = Some (1/2)
   \<and> listQuerySchema
        \<lparr>rq_limit = Some (Finite (1/2)), rq_lastEvaluatedLift = None,
         rq_lastEvaluatedMetadata = None\<rparr>
      = Some \<lparr>lq_limit = 1/2, lastEvaluatedLift = None, lastEvaluatedMetadata = None\<rparr>
   \<and> fst (fst (route_listSkiLifts ddb_send
        \<lparr>rq_limit = Some (Finite (1/2)), rq_lastEvaluatedLift = None,
         rq_lastEvaluatedMetadata = None\<rparr> tbl)) = 500"
  by (simp add: limitSchema_def listQuerySchema_def route_listSkiLifts_def reply_status_def
      listSkiLifts_def listSkiLifts_params_def truthy_def ddb_send_def ddb_scan_def
      new_params_def valid_limit_def DynamoDBError_def)

lemma listSkiLifts_params_cursor:
  "ExclusiveStartKey (listSkiLifts_params query) =
     (if truthy (lastEvaluatedLift query) \<and> truthy (lastEvaluatedMetadata query)
      then Some (key_item (the (lastEvaluatedLift query)) (the (lastEvaluatedMetadata query)))
      else None)"
  by (simp add: listSkiLifts_params_def new_params_def Let_def)

lemma listSkiLifts_params_no_cursor:
  "\<not> (truthy (lastEvaluatedLift query) \<and> truthy (lastEvaluatedMetadata query)) \<Longrightarrow>
   listSkiLifts_params query = (new_params TABLE_NAME)\<lparr>Limit := Some (lq_limit query)\<rparr>"
  by (auto simp add: listSkiLifts_params_def Let_def)

text \<open>
  C9. \<open>listSkiLifts\<close> sets \<open>ExclusiveStartKey\<close> exactly when both cursor fields are
  given and are not the empty string. When one of them is absent or the empty string,
  the call is, for every client, the call without any cursor field; on the reference
  store with a valid limit it raises no error and returns the first rows of the table
  in scan order.
\<close>

theorem listSkiLifts_half_cursor_ignored:
  assumes "\<not> (truthy (lastEvaluatedLift query) \<and> truthy (lastEvaluatedMetadata query))"
  shows "ExclusiveStartKey (listSkiLifts_params query) = None
   \<and> (ExclusiveStartKey (listSkiLifts_params q) \<noteq> None) =
       (truthy (lastEvaluatedLift q) \<and> truthy (lastEvaluatedMetadata q))
   \<and> listSkiLifts send query st =
       listSkiLifts send (query\<lparr>lastEvaluatedLift := None, lastEvaluatedMetadata := None\<rparr>) st
   \<and> (valid_limit (lq_limit query) \<longrightarrow>
        listSkiLifts ddb_send query tbl =
          (Inr \<lparr>items = take (nat \<lfloor>lq_limit query\<rfloor>) (map snd (sort_key fst tbl)),
                lastEvaluatedKey =
                  cursor_of {''Lift'', ''Metadata''} (Some (lq_limit query))
                    (map snd (sort_key fst tbl)),
                count = length (take (nat \<lfloor>lq_limit query\<rfloor>) (map snd (sort_key fst tbl)))\<rparr>,
           tbl))"
proof -
  have p: "listSkiLifts_params query = (new_params TABLE_NAME)\<lparr>Limit := Some (lq_limit query)\<rparr>"
    using assms by (rule listSkiLifts_params_no_cursor)
  have p0: "listSkiLifts_params (query\<lparr>lastEvaluatedLift := None, lastEvaluatedMetadata := None\<rparr>)
      = (new_params TABLE_NAME)\<lparr>Limit := Some (lq_limit query)\<rparr>"
    by (simp add: listSkiLifts_params_def truthy_def Let_def)
  have a: "ExclusiveStartKey (listSkiLifts_params query) = None"
    by (simp add: p new_params_def)
  have b: "listSkiLifts send query st =
       listSkiLifts send (query\<lparr>lastEvaluatedLift := None, lastEvaluatedMetadata := None\<rparr>) st"
    by (simp add: listSkiLifts_def p p0)
  have c: "valid_limit (lq_limit query) \<longrightarrow>
        listSkiLifts ddb_send query tbl =
          (Inr \<lparr>items = take (nat \<lfloor>lq_limit query\<rfloor>) (map snd (sort_key fst tbl)),
                lastEvaluatedKey =
                  cursor_of {''Lift'', ''Metadata''} (Some (lq_limit query))
                    (map snd (sort_key fst tbl)),
                count = length (take (nat \<lfloor>lq_limit query\<rfloor>) (map snd (sort_key fst tbl)))\<rparr>,
           tbl)"
    by (simp add: listSkiLifts_def p scan_from_start paginated_def no_output_def)
  have a': "(ExclusiveStartKey (listSkiLifts_params q) \<noteq> None) =
       (truthy (lastEvaluatedLift q) \<and> truthy (lastEvaluatedMetadata q))"
    by (simp add: listSkiLifts_params_cursor)
  show ?thesis
    by (intro conjI a a' b c)
qed

theorem listSkiLifts_half_cursor_ignored_witness:
  "\<not> (truthy (Some ''Lift 1'') \<and> truthy (Some ''''))
   \<and> valid_limit 1
   \<and> listSkiLifts ddb_send
        \<lparr>lq_limit = 1, lastEvaluatedLift = Some ''Lift 1'', lastEvaluatedMetadata = Some ''''\<rparr>
        [((''Lift 2'', ''01/01/20''), key_item ''Lift 2'' ''01/01/20''),
         ((''Lift 1'', ''Static Data''), key_item ''Lift 1'' ''Static Data'')]
      = (Inr \<lparr>items = [key_item ''Lift 1'' ''Static Data''],
              lastEvaluatedKey = Some (key_item ''Lift 1'' ''Static Data'' |` {''Lift'', ''Metadata''}),
              count = 1\<rparr>,
         [((''Lift 2'', ''01/01/20''), key_item ''Lift 2'' ''01/01/20''),
          ((''Lift 1'', ''Static Data''), key_item ''Lift 1'' ''Static Data'')])"
  using listSkiLifts_half_cursor_ignored [where query =
      "\<lparr>lq_limit = 1, lastEvaluatedLift = Some ''Lift 1'', lastEvaluatedMetadata = Some ''''\<rparr>"
      and send = ddb_send and st = "[]"
      and q = "\<lparr>lq_limit = 1, lastEvaluatedLift = None, lastEvaluatedMetadata = None\<rparr>"
      and tbl =
      "[((''Lift 2'', ''01/01/20''), key_item ''Lift 2'' ''01/01/20''),
        ((''Lift 1'', ''Static Data''), key_item ''Lift 1'' ''Static Data'')]"]
  by (simp add: truthy_def valid_limit_def cursor_of_def)

end
